theory Spec2Isabelle
  imports Complex_Main "HOL-Library.Multiset" "HOL-Library.AList"
begin

section \<open>Strings and arrays of the host language\<close>

text \<open>
  A string of the program is a \<^typ>\<open>string\<close>: the list of the bytes of its UTF-8 encoding.
  White space is the white space and the line terminators of the host, each code point by
  its bytes.  The case mappings and the letter and digit classes are the ASCII ones; a byte
  above 127 (part of a non-ASCII character) is kept as it is by the case mappings and counts
  as a letter for \<open>\p{L}\<close>.  Numbers are \<^typ>\<open>real\<close>, \<^typ>\<open>int\<close> or \<^typ>\<open>nat\<close>: the arithmetic
  of the scores is exact, and no number is NaN or infinite.
\<close>

definition charCode :: "char \<Rightarrow> nat" where
  "charCode c = of_char c"

definition isUpper :: "char \<Rightarrow> bool" where
  "isUpper c = (65 \<le> charCode c \<and> charCode c \<le> 90)"

definition isLower :: "char \<Rightarrow> bool" where
  "isLower c = (97 \<le> charCode c \<and> charCode c \<le> 122)"

definition isDigit :: "char \<Rightarrow> bool" where
  "isDigit c = (48 \<le> charCode c \<and> charCode c \<le> 57)"

definition isAlnum :: "char \<Rightarrow> bool" where
  "isAlnum c = (isUpper c \<or> isLower c \<or> isDigit c)"

definition isLetterOrNumber :: "char \<Rightarrow> bool" where
  "isLetterOrNumber c = (isAlnum c \<or> 128 \<le> charCode c)"

definition toLowerChar :: "char \<Rightarrow> char" where
  "toLowerChar c = (if isUpper c then char_of (charCode c + 32) else c)"

definition toUpperChar :: "char \<Rightarrow> char" where
  "toUpperChar c = (if isLower c then char_of (charCode c - 32) else c)"

definition toLowerCase :: "string \<Rightarrow> string" where
  "toLowerCase s = map toLowerChar s"

definition toUpperCase :: "string \<Rightarrow> string" where
  "toUpperCase s = map toUpperChar s"

text \<open>
  The white space of \<open>\s\<close> and of \<open>trim\<close>: U+0009 to U+000D, U+0020, U+00A0, U+1680, U+2000 to
  U+200A, U+2028, U+2029, U+202F, U+205F, U+3000 and U+FEFF.
\<close>

definition whiteSpaces :: "string list" where
  "whiteSpaces =
     [[CHR 0x09], [CHR 0x0A], [CHR 0x0B], [CHR 0x0C], [CHR 0x0D], [CHR 0x20],
      [CHR 0xC2, CHR 0xA0], [CHR 0xE1, CHR 0x9A, CHR 0x80],
      [CHR 0xE2, CHR 0x80, CHR 0x80], [CHR 0xE2, CHR 0x80, CHR 0x81],
      [CHR 0xE2, CHR 0x80, CHR 0x82], [CHR 0xE2, CHR 0x80, CHR 0x83],
      [CHR 0xE2, CHR 0x80, CHR 0x84], [CHR 0xE2, CHR 0x80, CHR 0x85],
      [CHR 0xE2, CHR 0x80, CHR 0x86], [CHR 0xE2, CHR 0x80, CHR 0x87],
      [CHR 0xE2, CHR 0x80, CHR 0x88], [CHR 0xE2, CHR 0x80, CHR 0x89],
      [CHR 0xE2, CHR 0x80, CHR 0x8A], [CHR 0xE2, CHR 0x80, CHR 0xA8],
      [CHR 0xE2, CHR 0x80, CHR 0xA9], [CHR 0xE2, CHR 0x80, CHR 0xAF],
      [CHR 0xE2, CHR 0x81, CHR 0x9F], [CHR 0xE3, CHR 0x80, CHR 0x80],
      [CHR 0xEF, CHR 0xBB, CHR 0xBF]]"

text \<open>The string without the longest run, at its start, of the given byte sequences.\<close>

function dropPrefixes :: "string list \<Rightarrow> string \<Rightarrow> string" where
  "dropPrefixes ws s =
     (case find (\<lambda>w. w \<noteq> [] \<and> take (length w) s = w) ws of
        None \<Rightarrow> s
      | Some w \<Rightarrow> dropPrefixes ws (drop (length w) s))"
  by pat_completeness auto
termination
proof (relation "measure (\<lambda>(ws, s). length s)")
  show "wf (measure (\<lambda>(ws, s). length s))" by simp
next
  fix ws :: "string list" and s w :: string
  assume "find (\<lambda>w. w \<noteq> [] \<and> take (length w) s = w) ws = Some w"
  then have a: "w \<noteq> [] \<and> take (length w) s = w" by (auto simp: find_Some_iff)
  then have "length (take (length w) s) = length w" by simp
  then have "length w \<le> length s" by simp
  with a show "((ws, drop (length w) s), (ws, s)) \<in> measure (\<lambda>(ws, s). length s)"
    by (cases w) simp_all
qed

declare dropPrefixes.simps [simp del]

definition trimStart :: "string \<Rightarrow> string" where
  "trimStart s = dropPrefixes whiteSpaces s"

definition trimEnd :: "string \<Rightarrow> string" where
  "trimEnd s = rev (dropPrefixes (map rev whiteSpaces) (rev s))"

definition trim :: "string \<Rightarrow> string" where
  "trim s = trimEnd (trimStart s)"

text \<open>\<open>parts.join(sep)\<close>\<close>

fun join :: "string \<Rightarrow> string list \<Rightarrow> string" where
  "join sep [] = []"
| "join sep [p] = p"
| "join sep (p # q # ps) = p @ sep @ join sep (q # ps)"

text \<open>
  \<open>text.split(/[^\p{L}\p{N}]+/u)\<close>, with the separator class as a predicate: the pieces
  between the maximal runs of separator characters, the empty pieces at both ends included.
\<close>

function splitRuns :: "(char \<Rightarrow> bool) \<Rightarrow> string \<Rightarrow> string \<Rightarrow> string list" where
  "splitRuns sep cur [] = [cur]"
| "splitRuns sep cur (c # cs) =
     (if sep c then cur # splitRuns sep [] (dropWhile sep cs)
      else splitRuns sep (cur @ [c]) cs)"
  by pat_completeness auto
termination
  by (relation "measure (\<lambda>(sep, cur, s). length s)")
     (auto simp: length_dropWhile_le le_imp_less_Suc)

text \<open>\<open>value.replace(/\s+/g, " ")\<close>: every maximal run of white space becomes one blank.\<close>

fun replaceSpaceRuns :: "nat \<Rightarrow> string \<Rightarrow> string" where
  "replaceSpaceRuns skip [] = []"
| "replaceSpaceRuns skip (c # cs) =
     (if 0 < skip then replaceSpaceRuns (skip - 1) cs
      else
        let rest = dropPrefixes whiteSpaces (c # cs)
        in if length rest < length (c # cs)
           then CHR '' '' # replaceSpaceRuns (length cs - length rest) cs
           else c # replaceSpaceRuns 0 cs)"

text \<open>\<open>value.replace(/\s+/g, " ").trim()\<close>\<close>

definition collapseWhitespace :: "string \<Rightarrow> string" where
  "collapseWhitespace v = trim (replaceSpaceRuns 0 v)"

text \<open>\<open>new Set(items)\<close>, listed in insertion order: a value that is present is not added again.\<close>

definition Set_add :: "'a list \<Rightarrow> 'a \<Rightarrow> 'a list" where
  "Set_add s x = (if x \<in> set s then s else s @ [x])"

definition new_Set :: "'a list \<Rightarrow> 'a list" where
  "new_Set items = foldl Set_add [] items"

text \<open>
  \<open>array.sort(compare)\<close>.  The sort is stable; an element moves behind the elements that
  \<open>compare\<close> puts strictly before it.
\<close>

fun insertSorted :: "('a \<Rightarrow> 'a \<Rightarrow> real) \<Rightarrow> 'a \<Rightarrow> 'a list \<Rightarrow> 'a list" where
  "insertSorted compare x [] = [x]"
| "insertSorted compare x (y # ys) =
     (if compare x y > 0 then y # insertSorted compare x ys else x # y # ys)"

definition Array_sort :: "('a \<Rightarrow> 'a \<Rightarrow> real) \<Rightarrow> 'a list \<Rightarrow> 'a list" where
  "Array_sort compare xs = foldr (insertSorted compare) xs []"

text \<open>\<open>array.slice(0, end)\<close>: a negative \<open>end\<close> counts from the end of the array.\<close>

definition slice0 :: "'a list \<Rightarrow> int \<Rightarrow> 'a list" where
  "slice0 xs e =
     (let len = int (length xs);
          final = (if e < 0 then max (len + e) 0 else min e len)
      in take (nat final) xs)"

text \<open>\<open>array.findIndex(p)\<close>: the first index whose element satisfies \<open>p\<close>, or \<open>-1\<close>.\<close>

fun findIndexFrom :: "int \<Rightarrow> ('a \<Rightarrow> bool) \<Rightarrow> 'a list \<Rightarrow> int" where
  "findIndexFrom i p [] = -1"
| "findIndexFrom i p (x # xs) = (if p x then i else findIndexFrom (i + 1) p xs)"

definition findIndex :: "('a \<Rightarrow> bool) \<Rightarrow> 'a list \<Rightarrow> int" where
  "findIndex p xs = findIndexFrom 0 p xs"

text \<open>
  \<open>a.localeCompare(b)\<close> is the comparison of strings of the host, a parameter \<open>lc\<close> of the
  functions that sort strings.  What is taken of it is that it is a total preorder: the
  sign of \<open>lc b a\<close> is the opposite of the sign of \<open>lc a b\<close>, and the order is transitive.
  It may give 0 for two strings that differ, as the host does for canonically equivalent
  strings.
\<close>

definition collation :: "(string \<Rightarrow> string \<Rightarrow> int) \<Rightarrow> bool" where
  "collation lc \<longleftrightarrow>
     (\<forall>a b. (lc a b < 0) = (0 < lc b a)) \<and>
     (\<forall>a b c. lc a b \<le> 0 \<and> lc b c \<le> 0 \<longrightarrow> lc a c \<le> 0)"

text \<open>The comparison of the code units, which is the lexicographic order of the strings.\<close>

fun codeUnitCompare :: "string \<Rightarrow> string \<Rightarrow> int" where
  "codeUnitCompare [] [] = 0"
| "codeUnitCompare [] (y # ys) = -1"
| "codeUnitCompare (x # xs) [] = 1"
| "codeUnitCompare (x # xs) (y # ys) =
     (if charCode x < charCode y then -1 else if charCode y < charCode x then 1 else codeUnitCompare xs ys)"

text \<open>
  A comparison with two properties of the host's: canonically equivalent strings are equal
  (here the precomposed letters U+00E9 and U+00C9 and the letters \<open>e\<close> and \<open>E\<close> followed by
  the combining accent U+0301), and the case of the letters is looked at only when the
  strings are equal otherwise, with the small letter first.
\<close>

fun canonicalDecomposition :: "string \<Rightarrow> string" where
  "canonicalDecomposition (a # b # cs) =
     (if a = CHR 0xC3 \<and> b = CHR 0xA9
        then CHR ''e'' # CHR 0xCC # CHR 0x81 # canonicalDecomposition cs
      else if a = CHR 0xC3 \<and> b = CHR 0x89
        then CHR ''E'' # CHR 0xCC # CHR 0x81 # canonicalDecomposition cs
      else a # canonicalDecomposition (b # cs))"
| "canonicalDecomposition cs = cs"

definition canonicalCompare :: "string \<Rightarrow> string \<Rightarrow> int" where
  "canonicalCompare a b =
     (let x = canonicalDecomposition a;
          y = canonicalDecomposition b;
          letters = codeUnitCompare (toLowerCase x) (toLowerCase y)
      in if letters \<noteq> 0 then letters else codeUnitCompare y x)"

text \<open>
  \<open>x.toFixed(f)\<close>: the decimal numeral with \<open>f\<close> fraction digits nearest to \<open>x\<close>, a tie going
  away from zero.  \<open>toFixedUnits f x\<close> is that numeral counted in units of \<open>10^(-f)\<close>.
\<close>

fun digits :: "nat \<Rightarrow> string" where
  "digits n = (if n < 10 then [char_of (48 + n)] else digits (n div 10) @ [char_of (48 + n mod 10)])"

declare digits.simps [simp del]

definition toFixedUnits :: "nat \<Rightarrow> real \<Rightarrow> nat" where
  "toFixedUnits f x = nat \<lfloor>\<bar>x\<bar> * 10 ^ f + 1 / 2\<rfloor>"

definition toFixed :: "nat \<Rightarrow> real \<Rightarrow> string" where
  "toFixed f x =
     (let ds = digits (toFixedUnits f x);
          padded = replicate (Suc f - length ds) (CHR ''0'') @ ds;
          whole = take (length padded - f) padded;
          fraction = drop (length padded - f) padded
      in (if x < 0 then ''-'' else '''') @ whole @ (if f = 0 then '''' else ''.'' @ fraction))"

text \<open>\<open>String(n)\<close> for an integer \<open>n\<close>.\<close>

definition String_of_int :: "int \<Rightarrow> string" where
  "String_of_int n = (if n < 0 then ''-'' @ digits (nat (- n)) else digits (nat n))"

section \<open>Regular expressions of the host language\<close>

text \<open>
  The patterns of the program are terms of \<open>rx\<close> (\<open>Cls\<close> a class of characters, \<open>NCls\<close>
  a negated class), matched by backtracking in the order of
  the host: the alternatives of \<open>Alt\<close> from left to right, \<open>Star\<close> with as many rounds as
  possible first, \<open>LazyStar\<close> with as few as possible first.  A state of the matcher is the
  character before the position, the rest of the input and the captured groups (the last
  capture of a group first); \<open>run\<close> lists the states a pattern can end in, the preferred
  one first.  The flag \<open>icase\<close> is the flag \<open>i\<close> of a pattern.
\<close>

datatype rx =
    Lit string
  | Cls "char \<Rightarrow> bool"
  | NCls "char \<Rightarrow> bool"
  | Epsilon
  | Seq rx rx
  | Alt rx rx
  | Star rx
  | LazyStar rx
  | Grp nat rx
  | Bol
  | Eol
  | WordB

type_synonym mstate = "char option \<times> string \<times> (nat \<times> string) list"

definition eqChar :: "bool \<Rightarrow> char \<Rightarrow> char \<Rightarrow> bool" where
  "eqChar icase c d = (if icase then toLowerChar c = toLowerChar d else c = d)"

definition inClass :: "bool \<Rightarrow> (char \<Rightarrow> bool) \<Rightarrow> char \<Rightarrow> bool" where
  "inClass icase p c = (if icase then p c \<or> p (toLowerChar c) \<or> p (toUpperChar c) else p c)"

fun matchLit :: "bool \<Rightarrow> string \<Rightarrow> char option \<Rightarrow> string \<Rightarrow> (char option \<times> string) option" where
  "matchLit icase [] p s = Some (p, s)"
| "matchLit icase (c # cs) p [] = None"
| "matchLit icase (c # cs) p (d # ds) =
     (if eqChar icase c d then matchLit icase cs (Some d) ds else None)"

definition isWordChar :: "char \<Rightarrow> bool" where
  "isWordChar c = (isAlnum c \<or> c = CHR ''_'')"

definition atWordBoundary :: "char option \<Rightarrow> string \<Rightarrow> bool" where
  "atWordBoundary p s =
     ((case p of None \<Rightarrow> False | Some c \<Rightarrow> isWordChar c)
      \<noteq> (case s of [] \<Rightarrow> False | d # ds \<Rightarrow> isWordChar d))"

text \<open>
  The rounds of a star.  A round that consumes nothing ends the repetition, so the length
  of the rest bounds the number of rounds.
\<close>

fun iterGreedy :: "nat \<Rightarrow> (mstate \<Rightarrow> mstate list) \<Rightarrow> mstate \<Rightarrow> mstate list" where
  "iterGreedy 0 f s = [s]"
| "iterGreedy (Suc n) f s =
     concat (map (iterGreedy n f)
       (filter (\<lambda>t. length (fst (snd t)) < length (fst (snd s))) (f s))) @ [s]"

fun iterLazy :: "nat \<Rightarrow> (mstate \<Rightarrow> mstate list) \<Rightarrow> mstate \<Rightarrow> mstate list" where
  "iterLazy 0 f s = [s]"
| "iterLazy (Suc n) f s =
     s # concat (map (iterLazy n f)
       (filter (\<lambda>t. length (fst (snd t)) < length (fst (snd s))) (f s)))"

definition capture :: "nat \<Rightarrow> mstate \<Rightarrow> mstate \<Rightarrow> mstate" where
  "capture k s t =
     (case s of (p, rest, caps) \<Rightarrow>
        (case t of (p', rest', caps') \<Rightarrow>
           (p', rest', (k, take (length rest - length rest') rest) # caps')))"

primrec run :: "bool \<Rightarrow> rx \<Rightarrow> mstate \<Rightarrow> mstate list" where
  "run icase (Lit l) s =
     (case s of (p, rest, caps) \<Rightarrow>
        (case matchLit icase l p rest of
           None \<Rightarrow> []
         | Some (p', rest') \<Rightarrow> [(p', rest', caps)]))"
| "run icase (Cls cl) s =
     (case s of (p, rest, caps) \<Rightarrow>
        (case rest of
           [] \<Rightarrow> []
         | c # cs \<Rightarrow> if inClass icase cl c then [(Some c, cs, caps)] else []))"
| "run icase (NCls cl) s =
     (case s of (p, rest, caps) \<Rightarrow>
        (case rest of
           [] \<Rightarrow> []
         | c # cs \<Rightarrow> if \<not> inClass icase cl c then [(Some c, cs, caps)] else []))"
| "run icase Epsilon s = [s]"
| "run icase (Seq a b) s = concat (map (run icase b) (run icase a s))"
| "run icase (Alt a b) s = run icase a s @ run icase b s"
| "run icase (Star a) s = iterGreedy (length (fst (snd s))) (run icase a) s"
| "run icase (LazyStar a) s = iterLazy (length (fst (snd s))) (run icase a) s"
| "run icase (Grp k a) s = map (capture k s) (run icase a s)"
| "run icase Bol s = (case s of (p, rest, caps) \<Rightarrow> if p = None then [s] else [])"
| "run icase Eol s = (case s of (p, rest, caps) \<Rightarrow> if rest = [] then [s] else [])"
| "run icase WordB s = (case s of (p, rest, caps) \<Rightarrow> if atWordBoundary p rest then [s] else [])"

text \<open>
  \<open>pattern.exec(input)\<close>: the groups of the preferred match at the first position
  that has one.  \<open>pattern.test(input)\<close> tells
  whether there is a match.  \<open>execFrom\<close> gives the text before the match and the state
  at its end.
\<close>

fun execFrom :: "bool \<Rightarrow> rx \<Rightarrow> string \<Rightarrow> char option \<Rightarrow> string
    \<Rightarrow> (string \<times> mstate) option" where
  "execFrom icase r before p [] =
     (case run icase r (p, [], []) of
        [] \<Rightarrow> None
      | m # others \<Rightarrow> Some (before, m))"
| "execFrom icase r before p (c # cs) =
     (case run icase r (p, c # cs, []) of
        [] \<Rightarrow> execFrom icase r (before @ [c]) (Some c) cs
      | m # others \<Rightarrow> Some (before, m))"

definition rxExec :: "bool \<Rightarrow> rx \<Rightarrow> string \<Rightarrow> (nat \<times> string) list option" where
  "rxExec icase r s = map_option (\<lambda>m. snd (snd (snd m))) (execFrom icase r [] None s)"

definition rxTest :: "bool \<Rightarrow> rx \<Rightarrow> string \<Rightarrow> bool" where
  "rxTest icase r s = (execFrom icase r [] None s \<noteq> None)"

text \<open>\<open>match?.[k]\<close>: the text of group \<open>k\<close> of a match, if there is a match and the group took part.\<close>

definition matchGroup :: "nat \<Rightarrow> (nat \<times> string) list option \<Rightarrow> string option" where
  "matchGroup k m = (case m of None \<Rightarrow> None | Some caps \<Rightarrow> map_of caps k)"

text \<open>Sequences and alternatives of several patterns, \<open>a+\<close>, \<open>a?\<close> and \<open>a{m,n}\<close>.\<close>

definition seq :: "rx list \<Rightarrow> rx" where
  "seq rs = foldr Seq rs Epsilon"

fun alts :: "rx list \<Rightarrow> rx" where
  "alts [] = Epsilon"
| "alts [r] = r"
| "alts (r # q # rs) = Alt r (alts (q # rs))"

definition many1 :: "rx \<Rightarrow> rx" where
  "many1 a = Seq a (Star a)"

definition optional :: "rx \<Rightarrow> rx" where
  "optional a = Alt a Epsilon"

fun atMost :: "nat \<Rightarrow> rx \<Rightarrow> rx" where
  "atMost 0 a = Epsilon"
| "atMost (Suc n) a = optional (Seq a (atMost n a))"

definition rep :: "nat \<Rightarrow> nat \<Rightarrow> rx \<Rightarrow> rx" where
  "rep m n a = seq (replicate m a @ [atMost (n - m) a])"

text \<open>The classes \<open>\s\<close>, \<open>[\s\S]\<close>, \<open>[A-Za-z0-9]\<close>, \<open>[0-9]\<close>, \<open>[abc]\<close> and \<open>[^abc]\<close>.\<close>

definition rxSpace :: rx where
  "rxSpace = alts (map Lit whiteSpaces)"

definition rxAny :: rx where
  "rxAny = Cls (\<lambda>c. True)"

definition rxAlnum :: rx where
  "rxAlnum = Cls isAlnum"

definition rxDigit :: rx where
  "rxDigit = Cls isDigit"

definition oneOf :: "string \<Rightarrow> rx" where
  "oneOf cs = Cls (\<lambda>c. c \<in> set cs)"

definition noneOf :: "string \<Rightarrow> rx" where
  "noneOf cs = NCls (\<lambda>c. c \<in> set cs)"

text \<open>
  \<open>input.replace(pattern, f)\<close> for a pattern with the flag \<open>g\<close>: every match, from left
  to right, is replaced by \<open>f\<close> of its groups.  After an empty match the search goes on
  one character later.
\<close>

fun replaceFrom :: "nat \<Rightarrow> bool \<Rightarrow> rx \<Rightarrow> ((nat \<times> string) list \<Rightarrow> string) \<Rightarrow> char option
    \<Rightarrow> string \<Rightarrow> string" where
  "replaceFrom 0 icase r f p s = s"
| "replaceFrom (Suc n) icase r f p s =
     (case execFrom icase r [] p s of
        None \<Rightarrow> s
      | Some (before, p', rest, caps) \<Rightarrow>
          if length before + length rest < length s
          then before @ f caps @ replaceFrom n icase r f p' rest
          else (case rest of
                  [] \<Rightarrow> before @ f caps
                | c # cs \<Rightarrow> before @ f caps @ [c] @ replaceFrom n icase r f (Some c) cs))"

definition rxReplaceAll :: "bool \<Rightarrow> rx \<Rightarrow> ((nat \<times> string) list \<Rightarrow> string) \<Rightarrow> string \<Rightarrow> string" where
  "rxReplaceAll icase r f s = replaceFrom (Suc (length s)) icase r f None s"

text \<open>The same for a function \<open>f\<close> that may throw: the first throw ends the replacement.\<close>

fun replaceFromE :: "nat \<Rightarrow> bool \<Rightarrow> rx \<Rightarrow> ((nat \<times> string) list \<Rightarrow> 'e + string) \<Rightarrow> char option
    \<Rightarrow> string \<Rightarrow> 'e + string" where
  "replaceFromE 0 icase r f p s = Inr s"
| "replaceFromE (Suc n) icase r f p s =
     (case execFrom icase r [] p s of
        None \<Rightarrow> Inr s
      | Some (before, p', rest, caps) \<Rightarrow>
          (case f caps of
             Inl e \<Rightarrow> Inl e
           | Inr by1 \<Rightarrow>
               if length before + length rest < length s
               then (case replaceFromE n icase r f p' rest of
                       Inl e \<Rightarrow> Inl e
                     | Inr t \<Rightarrow> Inr (before @ by1 @ t))
               else (case rest of
                       [] \<Rightarrow> Inr (before @ by1)
                     | c # cs \<Rightarrow>
                         (case replaceFromE n icase r f (Some c) cs of
                            Inl e \<Rightarrow> Inl e
                          | Inr t \<Rightarrow> Inr (before @ by1 @ [c] @ t)))))"

definition rxReplaceAllE ::
  "bool \<Rightarrow> rx \<Rightarrow> ((nat \<times> string) list \<Rightarrow> 'e + string) \<Rightarrow> string \<Rightarrow> 'e + string" where
  "rxReplaceAllE icase r f s = replaceFromE (Suc (length s)) icase r f None s"

text \<open>
  \<open>input.includes(needle)\<close>, \<open>input.startsWith(prefix)\<close>, \<open>input.endsWith(suffix)\<close>,
  \<open>input.indexOf(needle)\<close>, \<open>input.split(separator)\<close> for a separator that is not empty,
  and \<open>input.replaceAll(needle, by)\<close>.
\<close>

fun startsWith :: "string \<Rightarrow> string \<Rightarrow> bool" where
  "startsWith s [] = True"
| "startsWith [] (c # cs) = False"
| "startsWith (d # ds) (c # cs) = (d = c \<and> startsWith ds cs)"

definition endsWith :: "string \<Rightarrow> string \<Rightarrow> bool" where
  "endsWith s suffix = startsWith (rev s) (rev suffix)"

fun includesStr :: "string \<Rightarrow> string \<Rightarrow> bool" where
  "includesStr [] needle = (needle = [])"
| "includesStr (c # cs) needle = (startsWith (c # cs) needle \<or> includesStr cs needle)"

fun indexOfFrom :: "int \<Rightarrow> string \<Rightarrow> string \<Rightarrow> int" where
  "indexOfFrom i [] needle = (if needle = [] then i else -1)"
| "indexOfFrom i (c # cs) needle =
     (if startsWith (c # cs) needle then i else indexOfFrom (i + 1) cs needle)"

definition indexOf :: "string \<Rightarrow> string \<Rightarrow> int" where
  "indexOf s needle = indexOfFrom 0 s needle"

fun splitFrom :: "nat \<Rightarrow> string \<Rightarrow> string \<Rightarrow> string \<Rightarrow> string list" where
  "splitFrom n sep cur [] = [cur]"
| "splitFrom 0 sep cur (c # cs) =
     (if startsWith (c # cs) sep
      then cur # splitFrom (length sep - 1) sep [] cs
      else splitFrom 0 sep (cur @ [c]) cs)"
| "splitFrom (Suc n) sep cur (c # cs) = splitFrom n sep cur cs"

definition splitOn :: "string \<Rightarrow> string \<Rightarrow> string list" where
  "splitOn s sep = splitFrom 0 sep [] s"

definition replaceAllStr :: "string \<Rightarrow> string \<Rightarrow> string \<Rightarrow> string" where
  "replaceAllStr s needle repl = join repl (splitOn s needle)"

section \<open>Errors and values\<close>

datatype CliErrorCode =
    E_ARG_INVALID | E_ARG_MISSING | E_ARG_CONFLICT | E_ARG_UNSUPPORTED
  | E_AUTH_REQUIRED | E_AUTH_INVALID | E_NOT_FOUND_RESOURCE
  | E_UPSTREAM_NETWORK | E_UPSTREAM_TIMEOUT | E_UPSTREAM_BAD_RESPONSE | E_UNKNOWN

text \<open>The values of a JSON document and of the details of an error.\<close>

datatype jv =
    JUndefined | JNull | JBool bool | JNum int | JStr string
  | JArr "jv list" | JObj "(string \<times> jv) list"

record CliAppError =
  code :: CliErrorCode
  message :: string
  details :: "(string \<times> jv) list"

text \<open>
  What a \<open>throw\<close> or a rejected promise carries: an error of the application, or an error
  of the host with its name and message.
\<close>

datatype thrown = AppError CliAppError | NativeError string string

text \<open>\<open>details.key\<close>\<close>

definition detail :: "CliAppError \<Rightarrow> string \<Rightarrow> jv" where
  "detail e k = (case map_of (details e) k of None \<Rightarrow> JUndefined | Some v \<Rightarrow> v)"

section \<open>The upstream client\<close>

text \<open>
  A parsed URL with the parts the program reads.  \<open>new URL(input, base)\<close> is the parser of
  the host, a parameter \<open>newURL\<close> of the functions that parse; it gives \<open>None\<close> where the
  host throws.
\<close>

record URL =
  href :: string
  origin :: string
  pathname :: string

type_synonym urlParser = "string \<Rightarrow> string option \<Rightarrow> URL option"

text \<open>
  The headers of a request are a list of names in lower case with their values.
\<close>

type_synonym headerList = "(string \<times> string) list"

definition Headers_append :: "headerList \<Rightarrow> string \<Rightarrow> string \<Rightarrow> headerList" where
  "Headers_append hs name v =
     (case map_of hs (toLowerCase name) of
        None \<Rightarrow> hs @ [(toLowerCase name, v)]
      | Some old \<Rightarrow> AList.update (toLowerCase name) (old @ '', '' @ v) hs)"

definition new_Headers :: "headerList \<Rightarrow> headerList" where
  "new_Headers init = foldl (\<lambda>hs (name, v). Headers_append hs name v) [] init"

definition Headers_has :: "headerList \<Rightarrow> string \<Rightarrow> bool" where
  "Headers_has hs name = (map_of hs (toLowerCase name) \<noteq> None)"

definition Headers_get :: "headerList \<Rightarrow> string \<Rightarrow> string option" where
  "Headers_get hs name = map_of hs (toLowerCase name)"

definition Headers_set :: "headerList \<Rightarrow> string \<Rightarrow> string \<Rightarrow> headerList" where
  "Headers_set hs name v = AList.update (toLowerCase name) v hs"

text \<open>
  The \<open>Set-Cookie\<close> headers of a response, as the three ways the program reads them:
  \<open>getSetCookie()\<close>, \<open>raw()["set-cookie"]\<close>, or the combined \<open>get("set-cookie")\<close>.
\<close>

datatype SetCookieHeaders =
    GetSetCookie "string list"
  | RawTable "string list option"
  | Combined "string option"

text \<open>
  A response: its status, its body (\<open>None\<close> when reading the body fails; \<open>text()\<close> is the
  body), what \<open>json()\<close> reads from the body (\<open>None\<close> when it is not JSON), and its cookies.
\<close>

record Response =
  status :: nat
  body :: "string option"
  bodyJson :: "jv option"
  setCookies :: SetCookieHeaders

record UpstreamRequestOptions =
  pathOrUrl :: string
  httpMethod :: "string option"
  headers :: headerList
  requestBody :: "string option"

text \<open>What the transport \<open>fetchImpl\<close> is called with, and what its promise settles to.\<close>

record FetchCall =
  target :: URL
  callMethod :: string
  callHeaders :: headerList
  callBody :: "string option"

datatype FetchResult = Resolves Response | Rejects thrown

text \<open>
  The transport is a function of its own state; a timeout is the transport rejecting with
  an \<open>AbortError\<close>.  The world of a client is the state of the transport, the calls of the
  transport with their results, and the durations passed to \<open>sleep\<close>.
\<close>

type_synonym 't transport = "'t \<Rightarrow> FetchCall \<Rightarrow> FetchResult \<times> 't"

record 't World =
  fetchState :: 't
  fetchLog :: "(FetchCall \<times> FetchResult) list"
  sleepLog :: "nat list"

definition callFetch :: "'t transport \<Rightarrow> 't World \<Rightarrow> FetchCall \<Rightarrow> FetchResult \<times> 't World" where
  "callFetch fetchImpl w c =
     (case fetchImpl (fetchState w) c of
        (r, t) \<Rightarrow> (r, w\<lparr>fetchState := t, fetchLog := fetchLog w @ [(c, r)]\<rparr>))"

definition sleep :: "'t World \<Rightarrow> nat \<Rightarrow> 't World" where
  "sleep w ms = w\<lparr>sleepLog := sleepLog w @ [ms]\<rparr>"

record UpstreamClientOptions =
  providerId :: string
  baseUrl :: string
  timeoutMs :: "real option"
  retries :: "real option"
  backoffMs :: "real option"
  maxBackoffMs :: "real option"
  userAgent :: "string option"

text \<open>The fields of a client that do not change; the cookie jar is passed along.\<close>

record UpstreamClient =
  providerId :: string
  baseUrl :: string
  timeoutMs :: nat
  retries :: nat
  backoffMs :: nat
  maxBackoffMs :: nat
  userAgent :: string
  baseOrigin :: string

type_synonym cookieJar = "(string \<times> string) list"

definition RETRYABLE_STATUS :: "nat list" where
  "RETRYABLE_STATUS = [408, 425, 429, 500, 502, 503, 504]"

definition normalizeBaseUrl :: "string \<Rightarrow> string" where
  "normalizeBaseUrl v =
     (let normalized = trim v
      in if length normalized = 0 then ''https://subhd.tv/''
         else if endsWith normalized ''/'' then normalized else normalized @ ''/'')"

definition normalizePositiveInt :: "real option \<Rightarrow> nat \<Rightarrow> nat" where
  "normalizePositiveInt v fallback =
     (case v of None \<Rightarrow> fallback
      | Some x \<Rightarrow> if x \<le> 0 then fallback else nat \<lfloor>x\<rfloor>)"

definition normalizeNonNegativeInt :: "real option \<Rightarrow> nat \<Rightarrow> nat" where
  "normalizeNonNegativeInt v fallback =
     (case v of None \<Rightarrow> fallback
      | Some x \<Rightarrow> if x < 0 then fallback else nat \<lfloor>x\<rfloor>)"

definition new_UpstreamClient :: "urlParser \<Rightarrow> UpstreamClientOptions \<Rightarrow> thrown + UpstreamClient" where
  "new_UpstreamClient newURL options =
     (let base = normalizeBaseUrl (UpstreamClientOptions.baseUrl options)
      in case newURL base None of
           None \<Rightarrow> Inl (NativeError ''TypeError'' ''Invalid URL'')
         | Some u \<Rightarrow>
             Inr \<lparr> providerId = UpstreamClientOptions.providerId options,
                   baseUrl = base,
                   timeoutMs = normalizePositiveInt (UpstreamClientOptions.timeoutMs options) 12000,
                   retries = normalizeNonNegativeInt (UpstreamClientOptions.retries options) 2,
                   backoffMs = normalizePositiveInt (UpstreamClientOptions.backoffMs options) 250,
                   maxBackoffMs = normalizePositiveInt (UpstreamClientOptions.maxBackoffMs options) 3000,
                   userAgent = (case UpstreamClientOptions.userAgent options of
                                  None \<Rightarrow> ''subtitle-cli/subhd'' | Some a \<Rightarrow> a),
                   baseOrigin = origin u \<rparr>)"

definition resolveUrl :: "urlParser \<Rightarrow> string \<Rightarrow> string \<Rightarrow> URL option" where
  "resolveUrl newURL base p =
     (if rxTest True (seq [Bol, Lit ''http'', optional (Lit ''s''), Lit ''://'']) p
      then newURL p None
      else newURL p (Some base))"

definition computeBackoff :: "nat \<Rightarrow> nat \<Rightarrow> nat \<Rightarrow> nat" where
  "computeBackoff baseMs maxMs attempt =
     (let multiplier = 2 ^ (max 0 (attempt - 1)) in min maxMs (baseMs * multiplier))"

definition readSnippet :: "Response \<Rightarrow> string" where
  "readSnippet response =
     (case body response of
        None \<Rightarrow> ''''
      | Some t \<Rightarrow> take 320 (collapseWhitespace t))"

subsection \<open>Classification of a response that is not a success\<close>

datatype Classification = RateLimit | AntiBot | BadResponse

fun classificationName :: "Classification \<Rightarrow> string" where
  "classificationName RateLimit = ''rate-limit''"
| "classificationName AntiBot = ''anti-bot''"
| "classificationName BadResponse = ''bad-response''"

text \<open>\<open>/too\s+many\s+requests|rate\s*limit/iu\<close>\<close>

definition rateLimitPattern :: rx where
  "rateLimitPattern =
     Alt (seq [Lit ''too'', many1 rxSpace, Lit ''many'', many1 rxSpace, Lit ''requests''])
         (seq [Lit ''rate'', Star rxSpace, Lit ''limit''])"

text \<open>
  Two of the signatures of a challenge page are Chinese phrases, here in UTF-8:
  U+9A8C U+8BC1 U+7801 (verification code) and U+9A8C U+8BC1 U+83B7 U+53D6 U+4E0B U+8F7D
  U+5730 U+5740 (verify to get the download address).
\<close>

definition cjkVerificationCode :: string where
  "cjkVerificationCode =
     [CHR 0xE9, CHR 0xAA, CHR 0x8C, CHR 0xE8, CHR 0xAF, CHR 0x81, CHR 0xE7, CHR 0xA0, CHR 0x81]"

definition cjkVerifyForDownload :: string where
  "cjkVerifyForDownload =
     [CHR 0xE9, CHR 0xAA, CHR 0x8C, CHR 0xE8, CHR 0xAF, CHR 0x81, CHR 0xE8, CHR 0x8E, CHR 0xB7,
      CHR 0xE5, CHR 0x8F, CHR 0x96, CHR 0xE4, CHR 0xB8, CHR 0x8B, CHR 0xE8, CHR 0xBD, CHR 0xBD,
      CHR 0xE5, CHR 0x9C, CHR 0xB0, CHR 0xE5, CHR 0x9D, CHR 0x80]"

definition antiBotSignatures :: "string list" where
  "antiBotSignatures =
     [''challenge-platform'', ''cloudflare'', ''cf-challenge'', ''captcha'',
      cjkVerificationCode, cjkVerifyForDownload, ''jsd/main.js'', ''attention required'']"

definition looksLikeAntiBotChallenge :: "string \<Rightarrow> bool" where
  "looksLikeAntiBotChallenge t =
     (let snippet = toLowerCase t
      in list_ex (\<lambda>needle. includesStr snippet needle) antiBotSignatures)"

definition classifyResponse :: "nat \<Rightarrow> string \<Rightarrow> Classification" where
  "classifyResponse st snippet =
     (if st = 429 \<or> rxTest True rateLimitPattern snippet then RateLimit
      else if st = 403 \<or> st = 401 \<or> looksLikeAntiBotChallenge snippet then AntiBot
      else BadResponse)"

definition classifyResponseError :: "string \<Rightarrow> URL \<Rightarrow> nat \<Rightarrow> string \<Rightarrow> CliAppError" where
  "classifyResponseError pid url st snippet =
     (let classification = classifyResponse st snippet
      in \<lparr> code = E_UPSTREAM_BAD_RESPONSE,
           message = pid @ '' upstream returned HTTP '' @ digits st,
           details = [(''provider'', JStr pid), (''url'', JStr (href url)),
                      (''status'', JNum (int st)),
                      (''classification'', JStr (classificationName classification)),
                      (''snippet'', JStr snippet)] \<rparr>)"

definition isAbortError :: "thrown \<Rightarrow> bool" where
  "isAbortError e =
     (case e of
        AppError a \<Rightarrow> False
      | NativeError name msg \<Rightarrow> name = ''AbortError'' \<or> name = ''TimeoutError'')"

definition mapFetchError :: "thrown \<Rightarrow> string \<Rightarrow> URL \<Rightarrow> nat \<Rightarrow> CliAppError" where
  "mapFetchError e pid url timeout =
     (case e of
        AppError a \<Rightarrow> a
      | NativeError name msg \<Rightarrow>
          if isAbortError e
          then \<lparr> code = E_UPSTREAM_TIMEOUT,
                 message = pid @ '' upstream request timed out after '' @ digits timeout @ ''ms'',
                 details = [(''provider'', JStr pid), (''url'', JStr (href url)),
                            (''timeoutMs'', JNum (int timeout))] \<rparr>
          else \<lparr> code = E_UPSTREAM_NETWORK,
                 message = ''Failed to reach '' @ pid @ '' upstream'',
                 details = [(''provider'', JStr pid), (''url'', JStr (href url)),
                            (''reason'', JStr msg)] \<rparr>)"

subsection \<open>The cookie jar\<close>

text \<open>
  The jar is a \<open>Map\<close>, listed in insertion order: \<open>set\<close> keeps the place of a name that is
  present, \<open>delete\<close> removes it.
\<close>

definition serializeCookies :: "cookieJar \<Rightarrow> string" where
  "serializeCookies jar = join ''; '' (map (\<lambda>(name, v). name @ ''='' @ v) jar)"

definition mergeCookie :: "cookieJar \<Rightarrow> string \<Rightarrow> cookieJar" where
  "mergeCookie jar raw =
     (let firstSegment = trim (case splitOn raw '';'' of [] \<Rightarrow> [] | seg # segs \<Rightarrow> seg);
          eqIndex = indexOf firstSegment ''=''
      in if length firstSegment = 0 then jar
         else if eqIndex \<le> 0 then jar
         else
           let name = trim (take (nat eqIndex) firstSegment);
               v = trim (drop (nat eqIndex + 1) firstSegment)
           in if length name = 0 then jar
              else if length v = 0 \<or> v = ''deleted'' then AList.delete name jar
              else AList.update name v jar)"

text \<open>
  \<open>splitCombinedSetCookieHeader\<close>: the loop over the characters of the combined header,
  with the rest of the header from the current character on, the buffer, the flag and the
  parts so far.
\<close>

fun splitCombinedLoop :: "string \<Rightarrow> string \<Rightarrow> bool \<Rightarrow> string list \<Rightarrow> string list" where
  "splitCombinedLoop [] buffer insideExpires parts =
     (let normalized = trim buffer
      in if length normalized > 0 then parts @ [normalized] else parts)"
| "splitCombinedLoop (c # cs) buffer insideExpires parts =
     (let insideExpires1 =
            (if startsWith (toLowerCase (c # cs)) ''expires='' then True else insideExpires)
      in if c = CHR '','' \<and> \<not> insideExpires1
         then (let normalized = trim buffer
               in splitCombinedLoop cs []  insideExpires1
                    (if length normalized > 0 then parts @ [normalized] else parts))
         else splitCombinedLoop cs (buffer @ [c])
                (if c = CHR '';'' then False else insideExpires1) parts)"

definition splitCombinedSetCookieHeader :: "string \<Rightarrow> string list" where
  "splitCombinedSetCookieHeader raw = splitCombinedLoop raw [] False []"

definition readSetCookieHeaders :: "SetCookieHeaders \<Rightarrow> string list" where
  "readSetCookieHeaders hs =
     (case hs of
        GetSetCookie cs \<Rightarrow> cs
      | RawTable t \<Rightarrow> (case t of None \<Rightarrow> [] | Some cs \<Rightarrow> cs)
      | Combined fallback \<Rightarrow>
          (case fallback of None \<Rightarrow> [] | Some raw \<Rightarrow> splitCombinedSetCookieHeader raw))"

definition mergeResponseCookies :: "UpstreamClient \<Rightarrow> cookieJar \<Rightarrow> URL \<Rightarrow> SetCookieHeaders \<Rightarrow> cookieJar" where
  "mergeResponseCookies c jar url hs =
     (if origin url \<noteq> baseOrigin c then jar
      else foldl mergeCookie jar (readSetCookieHeaders hs))"

subsection \<open>One attempt and the retry loop\<close>

definition fetchWithTimeout ::
  "UpstreamClient \<Rightarrow> 't transport \<Rightarrow> cookieJar \<Rightarrow> 't World \<Rightarrow> URL \<Rightarrow> UpstreamRequestOptions
     \<Rightarrow> FetchResult \<times> 't World" where
  "fetchWithTimeout c fetchImpl jar w url options =
     (let hs0 = new_Headers (headers options);
          hs1 = (if \<not> Headers_has hs0 ''user-agent''
                 then Headers_set hs0 ''user-agent'' (userAgent c) else hs0);
          cookie = serializeCookies jar;
          hs2 = (if length cookie > 0 \<and> origin url = baseOrigin c
                 then Headers_set hs1 ''cookie'' cookie else hs1)
      in callFetch fetchImpl w
           \<lparr> target = url,
             callMethod = (case httpMethod options of None \<Rightarrow> ''GET'' | Some m \<Rightarrow> m),
             callHeaders = hs2,
             callBody = requestBody options \<rparr>)"

definition ok :: "Response \<Rightarrow> bool" where
  "ok response = (200 \<le> status response \<and> status response \<le> 299)"

text \<open>
  The loop of \<open>request\<close>, from the value of \<open>attempt\<close> before a round.  An error thrown in
  the \<open>try\<close> block, the classified error included, goes through the \<open>catch\<close> block.
\<close>

function requestLoop ::
  "UpstreamClient \<Rightarrow> 't transport \<Rightarrow> URL \<Rightarrow> UpstreamRequestOptions \<Rightarrow> nat \<Rightarrow> cookieJar \<Rightarrow> 't World
     \<Rightarrow> (thrown + Response) \<times> cookieJar \<times> 't World" where
  "requestLoop c fetchImpl url options attempt jar w =
     (if attempt < retries c + 1 then
        (case fetchWithTimeout c fetchImpl jar w url options of
           (Resolves response, w1) \<Rightarrow>
             (let jar1 = mergeResponseCookies c jar url (setCookies response)
              in if ok response then (Inr response, jar1, w1)
                 else
                   let snippet = readSnippet response;
                       classified = classifyResponseError (providerId c) url (status response) snippet
                   in if attempt + 1 < retries c + 1 \<and> status response \<in> set RETRYABLE_STATUS
                      then requestLoop c fetchImpl url options (attempt + 1) jar1
                             (sleep w1 (computeBackoff (backoffMs c) (maxBackoffMs c) (attempt + 1)))
                      else
                        let mapped = mapFetchError (AppError classified) (providerId c) url (timeoutMs c)
                        in if attempt + 1 < retries c + 1
                              \<and> (code mapped = E_UPSTREAM_NETWORK \<or> code mapped = E_UPSTREAM_TIMEOUT)
                           then requestLoop c fetchImpl url options (attempt + 1) jar1
                                  (sleep w1 (computeBackoff (backoffMs c) (maxBackoffMs c) (attempt + 1)))
                           else (Inl (AppError mapped), jar1, w1))
         | (Rejects e, w1) \<Rightarrow>
             (let mapped = mapFetchError e (providerId c) url (timeoutMs c)
              in if attempt + 1 < retries c + 1
                    \<and> (code mapped = E_UPSTREAM_NETWORK \<or> code mapped = E_UPSTREAM_TIMEOUT)
                 then requestLoop c fetchImpl url options (attempt + 1) jar
                        (sleep w1 (computeBackoff (backoffMs c) (maxBackoffMs c) (attempt + 1)))
                 else (Inl (AppError mapped), jar, w1)))
      else
        (Inl (AppError
           \<lparr> code = E_UNKNOWN,
             message = providerId c @ '' upstream request failed unexpectedly'',
             details = [(''provider'', JStr (providerId c)), (''url'', JStr (href url))] \<rparr>),
         jar, w))"
  by pat_completeness auto
termination
  by (relation "measure (\<lambda>(c, fetchImpl, url, options, attempt, jar, w). retries c + 1 - attempt)")
     auto

declare requestLoop.simps [simp del]

definition request ::
  "urlParser \<Rightarrow> UpstreamClient \<Rightarrow> 't transport \<Rightarrow> UpstreamRequestOptions \<Rightarrow> cookieJar \<Rightarrow> 't World
     \<Rightarrow> (thrown + Response) \<times> cookieJar \<times> 't World" where
  "request newURL c fetchImpl options jar w =
     (case resolveUrl newURL (baseUrl c) (pathOrUrl options) of
        None \<Rightarrow> (Inl (NativeError ''TypeError'' ''Invalid URL''), jar, w)
      | Some url \<Rightarrow> requestLoop c fetchImpl url options 0 jar w)"

definition requestText ::
  "urlParser \<Rightarrow> UpstreamClient \<Rightarrow> 't transport \<Rightarrow> UpstreamRequestOptions \<Rightarrow> cookieJar \<Rightarrow> 't World
     \<Rightarrow> (thrown + string) \<times> cookieJar \<times> 't World" where
  "requestText newURL c fetchImpl options jar w =
     (case request newURL c fetchImpl options jar w of
        (Inl e, jar1, w1) \<Rightarrow> (Inl e, jar1, w1)
      | (Inr response, jar1, w1) \<Rightarrow>
          (case body response of
             None \<Rightarrow> (Inl (NativeError ''TypeError'' ''Body is unusable''), jar1, w1)
           | Some t \<Rightarrow> (Inr t, jar1, w1)))"

definition requestJson ::
  "urlParser \<Rightarrow> UpstreamClient \<Rightarrow> 't transport \<Rightarrow> UpstreamRequestOptions \<Rightarrow> cookieJar \<Rightarrow> 't World
     \<Rightarrow> (thrown + jv) \<times> cookieJar \<times> 't World" where
  "requestJson newURL c fetchImpl options jar w =
     (case request newURL c fetchImpl options jar w of
        (Inl e, jar1, w1) \<Rightarrow> (Inl e, jar1, w1)
      | (Inr response, jar1, w1) \<Rightarrow>
          (case bodyJson response of
             None \<Rightarrow>
               (case resolveUrl newURL (baseUrl c) (pathOrUrl options) of
                  None \<Rightarrow> (Inl (NativeError ''TypeError'' ''Invalid URL''), jar1, w1)
                | Some url \<Rightarrow>
                    (Inl (AppError
                       \<lparr> code = E_UPSTREAM_BAD_RESPONSE,
                         message = providerId c @ '' upstream returned invalid JSON'',
                         details = [(''provider'', JStr (providerId c)), (''url'', JStr (href url)),
                                    (''classification'', JStr ''bad-response''),
                                    (''reason'', JStr ''Unexpected token'')] \<rparr>),
                     jar1, w1))
           | Some payload \<Rightarrow> (Inr payload, jar1, w1)))"

definition requestBinary ::
  "urlParser \<Rightarrow> UpstreamClient \<Rightarrow> 't transport \<Rightarrow> UpstreamRequestOptions \<Rightarrow> cookieJar \<Rightarrow> 't World
     \<Rightarrow> (thrown + string) \<times> cookieJar \<times> 't World" where
  "requestBinary newURL c fetchImpl options jar w =
     (case request newURL c fetchImpl options jar w of
        (Inl e, jar1, w1) \<Rightarrow> (Inl e, jar1, w1)
      | (Inr response, jar1, w1) \<Rightarrow>
          (case body response of
             None \<Rightarrow> (Inl (NativeError ''TypeError'' ''Body is unusable''), jar1, w1)
           | Some bytes \<Rightarrow> (Inr bytes, jar1, w1)))"

section \<open>The catalog parser\<close>

datatype SubtitleFormat = Srt | Ass | Vtt

fun formatName :: "SubtitleFormat \<Rightarrow> string" where
  "formatName Srt = ''srt''"
| "formatName Ass = ''ass''"
| "formatName Vtt = ''vtt''"

record SubhdSearchItem =
  sid :: string
  title :: string
  language :: string
  format :: SubtitleFormat
  downloads :: nat
  hearingImpaired :: "bool option"

record SubhdDownloadPage =
  sid :: string
  title :: string
  fileStem :: string
  format :: "SubtitleFormat option"

record SubtitleDownloadPlan =
  id' :: string
  providerId :: string
  fileName :: string
  sourceUrl :: string
  format :: SubtitleFormat

record SubtitlePayload = SubtitleDownloadPlan +
  content :: string

definition SUBHD_CARD_MARKER :: string where
  \<open>SUBHD_CARD_MARKER = ''<div class="bg-white shadow-sm rounded-3 mb-4">''\<close>

text \<open>
  The Chinese words of the patterns, in UTF-8: U+542C U+969C and U+804B U+54D1 (hearing
  impaired), U+4E0B U+8F7D (download), U+7B80 U+4F53, U+7B80 U+4E2D (simplified), U+7E41
  U+4F53, U+7E41 U+4E2D (traditional), U+82F1 U+8BED, U+82F1 U+6587 (English), U+53CC U+8BED
  (bilingual), U+4E2D U+82F1, U+4E2D U+5B57, U+4E2D U+6587 (Chinese), and U+5B57 U+5E55 U+7248
  U+672C (subtitle version).
\<close>

definition cjkTingZhang :: string where
  "cjkTingZhang = [CHR 0xE5, CHR 0x90, CHR 0xAC, CHR 0xE9, CHR 0x9A, CHR 0x9C]"

definition cjkLongYa :: string where
  "cjkLongYa = [CHR 0xE8, CHR 0x81, CHR 0x8B, CHR 0xE5, CHR 0x93, CHR 0x91]"

definition cjkXiaZai :: string where
  "cjkXiaZai = [CHR 0xE4, CHR 0xB8, CHR 0x8B, CHR 0xE8, CHR 0xBD, CHR 0xBD]"

definition cjkJianTi :: string where
  "cjkJianTi = [CHR 0xE7, CHR 0xAE, CHR 0x80, CHR 0xE4, CHR 0xBD, CHR 0x93]"

definition cjkJianZhong :: string where
  "cjkJianZhong = [CHR 0xE7, CHR 0xAE, CHR 0x80, CHR 0xE4, CHR 0xB8, CHR 0xAD]"

definition cjkFanTi :: string where
  "cjkFanTi = [CHR 0xE7, CHR 0xB9, CHR 0x81, CHR 0xE4, CHR 0xBD, CHR 0x93]"

definition cjkFanZhong :: string where
  "cjkFanZhong = [CHR 0xE7, CHR 0xB9, CHR 0x81, CHR 0xE4, CHR 0xB8, CHR 0xAD]"

definition cjkYingYu :: string where
  "cjkYingYu = [CHR 0xE8, CHR 0x8B, CHR 0xB1, CHR 0xE8, CHR 0xAF, CHR 0xAD]"

definition cjkYingWen :: string where
  "cjkYingWen = [CHR 0xE8, CHR 0x8B, CHR 0xB1, CHR 0xE6, CHR 0x96, CHR 0x87]"

definition cjkShuangYu :: string where
  "cjkShuangYu = [CHR 0xE5, CHR 0x8F, CHR 0x8C, CHR 0xE8, CHR 0xAF, CHR 0xAD]"

definition cjkZhongYing :: string where
  "cjkZhongYing = [CHR 0xE4, CHR 0xB8, CHR 0xAD, CHR 0xE8, CHR 0x8B, CHR 0xB1]"

definition cjkZhongZi :: string where
  "cjkZhongZi = [CHR 0xE4, CHR 0xB8, CHR 0xAD, CHR 0xE5, CHR 0xAD, CHR 0x97]"

definition cjkZhongWen :: string where
  "cjkZhongWen = [CHR 0xE4, CHR 0xB8, CHR 0xAD, CHR 0xE6, CHR 0x96, CHR 0x87]"

definition cjkZiMuBanBen :: string where
  "cjkZiMuBanBen =
     [CHR 0xE5, CHR 0xAD, CHR 0x97, CHR 0xE5, CHR 0xB9, CHR 0x95, CHR 0xE7, CHR 0x89, CHR 0x88,
      CHR 0xE6, CHR 0x9C, CHR 0xAC]"

subsection \<open>Cleaning of text\<close>

text \<open>
  \<open>Number.parseInt(digits, 10)\<close> for a string of decimal digits.  The number is exact and
  finite (the host reads a numeral of more than 308 digits as infinite, which
  \<open>Number.isFinite\<close> tells; such numerals are outside the model).
\<close>

definition parseDigits :: "string \<Rightarrow> nat" where
  "parseDigits ds = foldl (\<lambda>n c. n * 10 + (charCode c - 48)) 0 ds"

text \<open>\<open>String.fromCodePoint(n)\<close>, in UTF-8; it throws for a code point above U+10FFFF.\<close>

definition fromCodePoint :: "nat \<Rightarrow> thrown + string" where
  "fromCodePoint n =
     (if n < 128 then Inr [char_of n]
      else if n < 2048 then Inr [char_of (192 + n div 64), char_of (128 + n mod 64)]
      else if n < 65536
        then Inr [char_of (224 + n div 4096), char_of (128 + (n div 64) mod 64),
                  char_of (128 + n mod 64)]
      else if n \<le> 1114111
        then Inr [char_of (240 + n div 262144), char_of (128 + (n div 4096) mod 64),
                  char_of (128 + (n div 64) mod 64), char_of (128 + n mod 64)]
      else Inl (NativeError ''RangeError'' (''Invalid code point '' @ digits n)))"

definition decodeHtmlEntities :: "string \<Rightarrow> thrown + string" where
  \<open>decodeHtmlEntities v =
     (let named =
            replaceAllStr
              (replaceAllStr
                (replaceAllStr
                  (replaceAllStr
                    (replaceAllStr
                      (replaceAllStr v ''&nbsp;'' '' '')
                      ''&amp;'' ''&'')
                    ''&lt;'' ''<'')
                  ''&gt;'' ''>'')
                ''&quot;'' ''"'')
              ''&#39;'' [CHR 0x27]
      in rxReplaceAllE False (seq [Lit ''&#'', Grp 1 (many1 rxDigit), Lit '';''])
           (\<lambda>caps. case map_of caps 1 of
                      None \<Rightarrow> Inr []
                    | Some ds \<Rightarrow>
                        let codePoint = parseDigits ds
                        in if codePoint \<le> 0 then Inr []
                           else fromCodePoint codePoint)
           named)\<close>

definition cleanText :: "string \<Rightarrow> thrown + string" where
  "cleanText v =
     (case decodeHtmlEntities v of
        Inl e \<Rightarrow> Inl e
      | Inr decoded \<Rightarrow>
          Inr (collapseWhitespace
                 (rxReplaceAll False (seq [Lit ''<'', Star (noneOf ''>''), Lit ''>''])
                    (\<lambda>caps. '' '') decoded)))"

text \<open>
  \<open>extractFirstText\<close>: the cleaned text of group 1 of the first pattern that matches with a
  text that is not empty.  The patterns have the flag \<open>i\<close>.
\<close>

fun extractFirstText :: "string \<Rightarrow> rx list \<Rightarrow> thrown + string option" where
  "extractFirstText html [] = Inr None"
| "extractFirstText html (pattern # patterns) =
     (case matchGroup 1 (rxExec True pattern html) of
        None \<Rightarrow> extractFirstText html patterns
      | Some g \<Rightarrow>
          (case cleanText g of
             Inl e \<Rightarrow> Inl e
           | Inr cleaned \<Rightarrow>
               if length cleaned > 0 then Inr (Some cleaned)
               else extractFirstText html patterns))"

subsection \<open>Formats, languages and counters\<close>

text \<open>\<open>/\bASS\b|\bSSA\b/u\<close>, \<open>/\bSRT\b/u\<close> and \<open>/\bVTT\b/u\<close> on the text in upper case.\<close>

definition inferSubtitleFormat :: "string \<Rightarrow> SubtitleFormat option" where
  "inferSubtitleFormat t =
     (let normalized = toUpperCase t
      in if rxTest False (Alt (seq [WordB, Lit ''ASS'', WordB]) (seq [WordB, Lit ''SSA'', WordB]))
              normalized then Some Ass
         else if rxTest False (seq [WordB, Lit ''SRT'', WordB]) normalized then Some Srt
         else if rxTest False (seq [WordB, Lit ''VTT'', WordB]) normalized then Some Vtt
         else None)"

text \<open>\<open>[\\/:*?"<>|]\<close> is the class of the characters that a file name must not have.\<close>

definition unsafeFileChars :: string where
  \<open>unsafeFileChars = [CHR 0x5C] @ ''/:*?"<>|''\<close>

definition sanitizeFileStem :: "string \<Rightarrow> string" where
  "sanitizeFileStem v =
     (let normalized = trim (map (\<lambda>c. if c \<in> set unsafeFileChars then CHR '' '' else c)
                               (collapseWhitespace v));
          clipped = trim (take 96 normalized)
      in if length clipped > 0 then clipped else ''subtitle'')"

text \<open>\<open>/href=['"]\/a\/([A-Za-z0-9]+)['"]/u\<close>\<close>

definition sidPattern :: rx where
  \<open>sidPattern =
     seq [Lit ''href='', oneOf ([CHR 0x27] @ ''"''), Lit ''/a/'', Grp 1 (many1 rxAlnum),
          oneOf ([CHR 0x27] @ ''"'')]\<close>

definition extractSubhdSid :: "string \<Rightarrow> string option" where
  "extractSubhdSid cardHtml = matchGroup 1 (rxExec False sidPattern cardHtml)"

text \<open>
  \<open>/bi bi-download[\s\S]*?<span[^>]*>\s*([0-9][0-9,]*)\s*<\/span>/iu\<close> and
  \<open>/\<dots>[^0-9]*([0-9][0-9,]*)/iu\<close> after the word for download.
\<close>

definition downloadIconPattern :: rx where
  "downloadIconPattern =
     seq [Lit ''bi bi-download'', LazyStar rxAny, Lit ''<span'', Star (noneOf ''>''), Lit ''>'',
          Star rxSpace, Grp 1 (Seq rxDigit (Star (Alt rxDigit (Lit '','')))), Star rxSpace,
          Lit ''</span>'']"

definition downloadLabelPattern :: rx where
  "downloadLabelPattern =
     seq [Lit cjkXiaZai, Star (NCls isDigit),
          Grp 1 (Seq rxDigit (Star (Alt rxDigit (Lit '',''))))]"

definition extractDownloadCount :: "string \<Rightarrow> nat" where
  "extractDownloadCount cardHtml =
     (let m = (case rxExec True downloadIconPattern cardHtml of
                 Some caps \<Rightarrow> Some caps
               | None \<Rightarrow> rxExec True downloadLabelPattern cardHtml)
      in case matchGroup 1 m of
           None \<Rightarrow> 0
         | Some g \<Rightarrow>
             let parsed = parseDigits (filter (\<lambda>c. c \<noteq> CHR '','') g)
             in if parsed \<ge> 0 then parsed else 0)"

definition inferLanguage :: "string \<Rightarrow> string \<Rightarrow> string" where
  "inferLanguage languageLine ttl =
     (let t = languageLine @ '' '' @ ttl
      in if rxTest True (alts [Lit cjkJianTi, Lit cjkJianZhong, Lit ''chs'', Lit ''zh-cn'']) t
           then ''zh-cn''
         else if rxTest True (alts [Lit cjkFanTi, Lit cjkFanZhong, Lit ''cht'', Lit ''zh-tw'']) t
           then ''zh-tw''
         else if rxTest True (alts [Lit cjkYingYu, Lit cjkYingWen, seq [WordB, Lit ''eng'', WordB],
                                    seq [WordB, Lit ''en'', WordB]]) t
           then ''en''
         else if rxTest True (alts [Lit cjkShuangYu, Lit cjkZhongYing, Lit cjkZhongZi,
                                    Lit cjkZhongWen]) t
           then ''zh-cn''
         else ''zh'')"

definition hearingImpairedPattern :: rx where
  "hearingImpairedPattern =
     alts [Lit cjkTingZhang, Lit cjkLongYa, Lit ''sdh'', seq [WordB, Lit ''hi'', WordB]]"

subsection \<open>The search page and the download page\<close>

text \<open>
  \<open>/<div class="view-text[^>]*>\s*<a[^>]*>([\s\S]*?)<\/a>/iu\<close>,
  \<open>/<a[^>]*class="link-dark align-middle"[^>]*>([\s\S]*?)<\/a>/iu\<close> and
  \<open>/<div class="text-truncate py-2 f11">([\s\S]*?)<\/div>/iu\<close>
\<close>

definition titlePatterns :: "rx list" where
  \<open>titlePatterns =
     [seq [Lit ''<div class="view-text'', Star (noneOf ''>''), Lit ''>'', Star rxSpace,
           Lit ''<a'', Star (noneOf ''>''), Lit ''>'', Grp 1 (LazyStar rxAny), Lit ''</a>''],
      seq [Lit ''<a'', Star (noneOf ''>''), Lit ''class="link-dark align-middle"'',
           Star (noneOf ''>''), Lit ''>'', Grp 1 (LazyStar rxAny), Lit ''</a>'']]\<close>

definition languageLinePatterns :: "rx list" where
  \<open>languageLinePatterns =
     [seq [Lit ''<div class="text-truncate py-2 f11">'', Grp 1 (LazyStar rxAny), Lit ''</div>'']]\<close>

text \<open>The body of the loop of \<open>parseSubhdSearchItems\<close> for a card that has an identifier.\<close>

definition cardItem :: "string \<Rightarrow> string \<Rightarrow> thrown + SubhdSearchItem" where
  "cardItem cardHtml s =
     (case extractFirstText cardHtml titlePatterns of
        Inl e \<Rightarrow> Inl e
      | Inr t \<Rightarrow>
          (let ttl = (case t of None \<Rightarrow> ''SubHD subtitle '' @ s | Some x \<Rightarrow> x)
           in case extractFirstText cardHtml languageLinePatterns of
                Inl e \<Rightarrow> Inl e
              | Inr l \<Rightarrow>
                  (let languageLine = (case l of None \<Rightarrow> [] | Some x \<Rightarrow> x);
                       fmt = (case inferSubtitleFormat (languageLine @ [CHR 0x0A] @ ttl) of
                                None \<Rightarrow> Srt | Some f \<Rightarrow> f);
                       dl = extractDownloadCount cardHtml;
                       hi = rxTest True hearingImpairedPattern (ttl @ '' '' @ languageLine)
                   in Inr \<lparr> SubhdSearchItem.sid = s, SubhdSearchItem.title = ttl,
                            SubhdSearchItem.language = inferLanguage languageLine ttl,
                            SubhdSearchItem.format = fmt, SubhdSearchItem.downloads = dl,
                            SubhdSearchItem.hearingImpaired =
                              (if hi then Some True else None) \<rparr>)))"

text \<open>
  The loop over the cards with the map \<open>deduped\<close>, listed in insertion order: \<open>set\<close> on an
  identifier that is present replaces the item and keeps its place.
\<close>

fun parseCards :: "string list \<Rightarrow> (string \<times> SubhdSearchItem) list
    \<Rightarrow> thrown + (string \<times> SubhdSearchItem) list" where
  "parseCards [] deduped = Inr deduped"
| "parseCards (cardHtml # cards) deduped =
     (case extractSubhdSid cardHtml of
        None \<Rightarrow> parseCards cards deduped
      | Some s \<Rightarrow>
          (case cardItem cardHtml s of
             Inl e \<Rightarrow> Inl e
           | Inr item \<Rightarrow> parseCards cards (AList.update s item deduped)))"

definition parseSubhdSearchItems :: "string \<Rightarrow> thrown + SubhdSearchItem list" where
  "parseSubhdSearchItems html =
     (let cards = drop 1 (splitOn html SUBHD_CARD_MARKER)
      in case parseCards cards [] of
           Inl e \<Rightarrow> Inl e
         | Inr deduped \<Rightarrow> Inr (map snd deduped))"

text \<open>
  \<open>/<h5 class="card-header">([\s\S]*?)<\/h5>/iu\<close>,
  \<open>/<div class="f16 fw-bold mb-2">([\s\S]*?)<\/div>/iu\<close> and
  \<open>/<th[^>]*>\<dots><\/th>\s*<td>([\s\S]*?)<\/td>/iu\<close> with the words for subtitle version.
\<close>

definition pageTitlePatterns :: "rx list" where
  \<open>pageTitlePatterns =
     [seq [Lit ''<h5 class="card-header">'', Grp 1 (LazyStar rxAny), Lit ''</h5>''],
      seq [Lit ''<div class="f16 fw-bold mb-2">'', Grp 1 (LazyStar rxAny), Lit ''</div>'']]\<close>

definition versionCellPatterns :: "rx list" where
  "versionCellPatterns =
     [seq [Lit ''<th'', Star (noneOf ''>''), Lit ''>'', Lit cjkZiMuBanBen, Lit ''</th>'',
           Star rxSpace, Lit ''<td>'', Grp 1 (LazyStar rxAny), Lit ''</td>'']]"

definition parseSubhdDownloadPage :: "string \<Rightarrow> string \<Rightarrow> thrown + SubhdDownloadPage" where
  "parseSubhdDownloadPage html s =
     (case extractFirstText html pageTitlePatterns of
        Inl e \<Rightarrow> Inl e
      | Inr t \<Rightarrow>
          (let ttl = (case t of None \<Rightarrow> ''subhd-'' @ s | Some x \<Rightarrow> x)
           in case extractFirstText html versionCellPatterns of
                Inl e \<Rightarrow> Inl e
              | Inr v \<Rightarrow>
                  (let versionCell = (case v of None \<Rightarrow> [] | Some x \<Rightarrow> x)
                   in Inr \<lparr> SubhdDownloadPage.sid = s, SubhdDownloadPage.title = ttl,
                            SubhdDownloadPage.fileStem = sanitizeFileStem ttl,
                            SubhdDownloadPage.format =
                              inferSubtitleFormat (versionCell @ [CHR 0x0A] @ ttl) \<rparr>)))"

section \<open>Request normalization\<close>

text \<open>
  The two tables of the program are plain objects.  A key that is not a key of the table
  itself is looked up in \<open>Object.prototype\<close>, where it finds a function (given here by its
  name and its \<open>length\<close>) or, for \<open>__proto__\<close>, the prototype object.
\<close>

datatype inherited = InheritedFunction string nat | InheritedObject

definition Object_prototype :: "(string \<times> inherited) list" where
  "Object_prototype =
     [(''constructor'', InheritedFunction ''Object'' 1),
      (''__defineGetter__'', InheritedFunction ''__defineGetter__'' 2),
      (''__defineSetter__'', InheritedFunction ''__defineSetter__'' 2),
      (''hasOwnProperty'', InheritedFunction ''hasOwnProperty'' 1),
      (''__lookupGetter__'', InheritedFunction ''__lookupGetter__'' 1),
      (''__lookupSetter__'', InheritedFunction ''__lookupSetter__'' 1),
      (''isPrototypeOf'', InheritedFunction ''isPrototypeOf'' 1),
      (''propertyIsEnumerable'', InheritedFunction ''propertyIsEnumerable'' 1),
      (''toString'', InheritedFunction ''toString'' 0),
      (''valueOf'', InheritedFunction ''valueOf'' 0),
      (''__proto__'', InheritedObject),
      (''toLocaleString'', InheritedFunction ''toLocaleString'' 0)]"

text \<open>
  A language of a normalized request is declared a string; what \<open>normalizeLanguage\<close> returns
  is a string or a value of \<open>Object.prototype\<close>.  \<open>valueLength\<close> is its \<open>length\<close>, which the
  prototype object does not have, and \<open>valueString\<close> its conversion to a string.
\<close>

datatype languageValue = Code string | Inherited inherited

definition valueLength :: "languageValue \<Rightarrow> nat option" where
  "valueLength v =
     (case v of
        Code s \<Rightarrow> Some (length s)
      | Inherited (InheritedFunction name n) \<Rightarrow> Some n
      | Inherited InheritedObject \<Rightarrow> None)"

definition valueString :: "languageValue \<Rightarrow> string" where
  "valueString v =
     (case v of
        Code s \<Rightarrow> s
      | Inherited (InheritedFunction name n) \<Rightarrow> ''function '' @ name @ ''() { [native code] }''
      | Inherited InheritedObject \<Rightarrow> ''[object Object]'')"

record SubtitleRequestInput =
  query :: string
  year :: "int option"
  season :: "int option"
  episode :: "int option"
  languages :: "string list option"

record NormalizedSubtitleRequest =
  query :: string
  normalizedQuery :: string
  queryTokens :: "string list"
  year :: "int option"
  season :: "int option"
  episode :: "int option"
  languagePreferences :: "languageValue list"
  fingerprint :: string

definition LANGUAGE_ALIAS_MAP :: "(string \<times> string) list" where
  "LANGUAGE_ALIAS_MAP =
     [(''zh'', ''zh''), (''zho'', ''zh''), (''chinese'', ''zh''), (''chs'', ''zh-cn''),
      (''cht'', ''zh-tw''), (''zh-cn'', ''zh-cn''), (''zh-hans'', ''zh-cn''),
      (''zh-tw'', ''zh-tw''), (''zh-hant'', ''zh-tw''), (''en'', ''en''), (''eng'', ''en''),
      (''english'', ''en''), (''ja'', ''ja''), (''jpn'', ''ja''), (''japanese'', ''ja'')]"

definition tokenize :: "(string \<Rightarrow> string \<Rightarrow> int) \<Rightarrow> string \<Rightarrow> string list" where
  "tokenize lc text =
     (if trim text = [] then []
      else
        let items = filter (\<lambda>item. item \<noteq> [])
              (map trim (splitRuns (\<lambda>c. \<not> isLetterOrNumber c) [] (toLowerCase text)));
            deduped = new_Set items
        in Array_sort (\<lambda>a b. real_of_int (lc a b)) deduped)"

text \<open>\<open>LANGUAGE_ALIAS_MAP[normalized] ?? normalized\<close>\<close>

definition normalizeLanguage :: "string \<Rightarrow> languageValue" where
  "normalizeLanguage v =
     (let normalized = toLowerCase (trim v)
      in if length normalized = 0 then Code normalized
         else (case map_of LANGUAGE_ALIAS_MAP normalized of
                 Some canonical \<Rightarrow> Code canonical
               | None \<Rightarrow>
                   (case map_of Object_prototype normalized of
                      Some i \<Rightarrow> Inherited i
                    | None \<Rightarrow> Code normalized)))"

text \<open>A value is kept when its \<open>length\<close> is a number above 0.\<close>

definition normalizeLanguages :: "string list \<Rightarrow> languageValue list" where
  "normalizeLanguages vs =
     foldl (\<lambda>deduped v.
              let normalized = normalizeLanguage v
              in if (case valueLength normalized of Some n \<Rightarrow> 0 < n | None \<Rightarrow> False)
                 then Set_add deduped normalized else deduped)
       [] vs"

text \<open>
  \<open>array.sort(compare)\<close> with a comparator that can throw.  An element after the first is
  put into the sorted elements before it, and is the first argument of every comparison
  of that step; an error of the comparator ends the sort.
\<close>

fun insertPivot ::
  "('a \<Rightarrow> 'a \<Rightarrow> thrown + real) \<Rightarrow> 'a \<Rightarrow> 'a list \<Rightarrow> thrown + 'a list" where
  "insertPivot compare pivot [] = Inr [pivot]"
| "insertPivot compare pivot (y # ys) =
     (case compare pivot y of
        Inl e \<Rightarrow> Inl e
      | Inr order \<Rightarrow>
          if order < 0
          then (case insertPivot compare pivot ys of
                  Inl e \<Rightarrow> Inl e
                | Inr zs \<Rightarrow> Inr (y # zs))
          else Inr (pivot # y # ys))"

text \<open>The sorted elements are kept from the last to the first.\<close>

fun sortFrom ::
  "('a \<Rightarrow> 'a \<Rightarrow> thrown + real) \<Rightarrow> 'a list \<Rightarrow> 'a list \<Rightarrow> thrown + 'a list" where
  "sortFrom compare placed [] = Inr (rev placed)"
| "sortFrom compare placed (pivot # xs) =
     (case insertPivot compare pivot placed of
        Inl e \<Rightarrow> Inl e
      | Inr placed' \<Rightarrow> sortFrom compare placed' xs)"

definition Array_sort_throwing ::
  "('a \<Rightarrow> 'a \<Rightarrow> thrown + real) \<Rightarrow> 'a list \<Rightarrow> thrown + 'a list" where
  "Array_sort_throwing compare xs = sortFrom compare [] xs"

text \<open>
  \<open>(a, b) => a.localeCompare(b)\<close> on the values of the languages: a value that is no string
  has no method \<open>localeCompare\<close>, and the argument is converted to a string.
\<close>

definition compareLanguages ::
  "(string \<Rightarrow> string \<Rightarrow> int) \<Rightarrow> languageValue \<Rightarrow> languageValue \<Rightarrow> thrown + real" where
  "compareLanguages lc a b =
     (case a of
        Code s \<Rightarrow> Inr (real_of_int (lc s (valueString b)))
      | Inherited i \<Rightarrow> Inl (NativeError ''TypeError'' ''a.localeCompare is not a function''))"

definition optString :: "int option \<Rightarrow> string" where
  "optString v = (case v of None \<Rightarrow> [] | Some n \<Rightarrow> String_of_int n)"

definition normalizeSubtitleRequest ::
  "(string \<Rightarrow> string \<Rightarrow> int) \<Rightarrow> SubtitleRequestInput \<Rightarrow> thrown + NormalizedSubtitleRequest" where
  "normalizeSubtitleRequest lc input =
     (let q = collapseWhitespace (SubtitleRequestInput.query input);
          nq = toLowerCase q;
          tokens = tokenize lc nq;
          prefs = normalizeLanguages (case languages input of None \<Rightarrow> [] | Some ls \<Rightarrow> ls)
      in case Array_sort_throwing (compareLanguages lc) prefs of
           Inl e \<Rightarrow> Inl e
         | Inr canonicalLanguages \<Rightarrow>
             (let fp = join ''|''
                    [nq,
                     optString (SubtitleRequestInput.year input),
                     optString (SubtitleRequestInput.season input),
                     optString (SubtitleRequestInput.episode input),
                     join '','' (map valueString canonicalLanguages)]
              in Inr \<lparr> query = q, normalizedQuery = nq, queryTokens = tokens,
                      year = SubtitleRequestInput.year input,
                      season = SubtitleRequestInput.season input,
                      episode = SubtitleRequestInput.episode input,
                      languagePreferences = prefs, fingerprint = fp \<rparr>))"

section \<open>Ranking\<close>

record ProviderSubtitleResult =
  id' :: string
  providerId :: string
  title :: string
  language :: string
  format :: SubtitleFormat
  downloads :: nat
  hearingImpaired :: "bool option"
  releaseName :: "string option"

text \<open>The result of scoring, \<open>Omit<RankedSubtitleResult, "rank">\<close>, and the ranked result.\<close>

record ScoredSubtitleResult = ProviderSubtitleResult +
  score :: real
  reasons :: "string list"

record RankedSubtitleResult = ScoredSubtitleResult +
  rank :: nat

definition PROVIDER_PRIORITY_BOOST :: "(string \<times> real) list" where
  "PROVIDER_PRIORITY_BOOST = [(''subhd'', 12), (''assrt'', 4)]"

text \<open>\<open>Number(value.toFixed(6))\<close>: the numeral of \<open>toFixed\<close> read back as a number.\<close>

definition roundScore :: "real \<Rightarrow> real" where
  "roundScore v = (if v < 0 then - real (toFixedUnits 6 v) / 10 ^ 6 else real (toFixedUnits 6 v) / 10 ^ 6)"

text \<open>
  \<open>PROVIDER_PRIORITY_BOOST[candidate.providerId] ?? 0\<close>: for a provider id that is a key of
  \<open>Object.prototype\<close> the boost is no number, and the call of its \<open>toFixed\<close> throws.
\<close>

definition scoreSubtitleCandidate ::
  "(string \<Rightarrow> string \<Rightarrow> int) \<Rightarrow> NormalizedSubtitleRequest \<Rightarrow> ProviderSubtitleResult
     \<Rightarrow> thrown + ScoredSubtitleResult" where
  "scoreSubtitleCandidate lc req candidate =
     (let titleTokens = set (tokenize lc (title candidate));
          overlapCount = foldl (\<lambda>count token. count + (if token \<in> titleTokens then 1 else 0))
                           (0::nat) (queryTokens req);
          (score1, reasons1) =
            (if length (queryTokens req) > 0
             then (let overlapRatio = real overlapCount / real (length (queryTokens req))
                   in (overlapRatio * 60, [''query-overlap:'' @ toFixed 3 overlapRatio]))
             else (0, []));
          preferredIndex = findIndex (\<lambda>item. item = Code (language candidate))
                             (languagePreferences req);
          (score2, reasons2) =
            (if preferredIndex = 0 then (score1 + 30, reasons1 @ [''lang:primary''])
             else if preferredIndex > 0 then (score1 + 20, reasons1 @ [''lang:secondary''])
             else if length (languagePreferences req) > 0
               then (score1 - 10, reasons1 @ [''lang:mismatch''])
             else (score1, reasons1))
      in case (case map_of PROVIDER_PRIORITY_BOOST (providerId candidate) of
                 Some b \<Rightarrow> Some b
               | None \<Rightarrow>
                   (case map_of Object_prototype (providerId candidate) of
                      Some i \<Rightarrow> None
                    | None \<Rightarrow> Some 0)) of
           None \<Rightarrow> Inl (NativeError ''TypeError'' ''providerBoost.toFixed is not a function'')
         | Some providerBoost \<Rightarrow>
             (let (score3, reasons3) =
                    (if providerBoost \<noteq> 0
                     then (score2 + providerBoost,
                           reasons2 @ [''provider:'' @ providerId candidate @ '':+''
                                         @ toFixed 3 providerBoost])
                     else (score2, reasons2));
                  downloadBoost = min 15 (log 10 (real (downloads candidate + 1)) * 5);
                  (score4, reasons4) =
                    (score3 + downloadBoost, reasons3 @ [''downloads:+'' @ toFixed 3 downloadBoost]);
                  (score5, reasons5) =
                    (if format candidate = Srt then (score4 + 8, reasons4 @ [''format:srt''])
                     else if format candidate = Ass then (score4 + 5, reasons4 @ [''format:ass''])
                     else (score4 + 4, reasons4 @ [''format:vtt'']));
                  (score6, reasons6) =
                    (if hearingImpaired candidate = Some True
                     then (score5 - 2, reasons5 @ [''hi:-2''])
                     else (score5, reasons5))
              in Inr \<lparr> id' = id' candidate, providerId = providerId candidate,
                      title = title candidate, language = language candidate,
                      format = format candidate, downloads = downloads candidate,
                      hearingImpaired = hearingImpaired candidate,
                      releaseName = releaseName candidate,
                      score = roundScore score6, reasons = reasons6 \<rparr>))"

definition compareScored ::
  "(string \<Rightarrow> string \<Rightarrow> int) \<Rightarrow> ScoredSubtitleResult \<Rightarrow> ScoredSubtitleResult \<Rightarrow> real" where
  "compareScored lc left right =
     (if score right \<noteq> score left then score right - score left
      else if downloads right \<noteq> downloads left
        then real_of_int (int (downloads right) - int (downloads left))
      else
        let providerOrder = lc (providerId left) (providerId right)
        in if providerOrder \<noteq> 0 then real_of_int providerOrder
           else real_of_int (lc (id' left) (id' right)))"

definition withRank :: "ScoredSubtitleResult \<Rightarrow> nat \<Rightarrow> RankedSubtitleResult" where
  "withRank item r =
     \<lparr> id' = id' item, providerId = providerId item, title = title item,
       language = language item, format = format item, downloads = downloads item,
       hearingImpaired = hearingImpaired item, releaseName = releaseName item,
       score = score item, reasons = reasons item, rank = r \<rparr>"

text \<open>\<open>array.map(f)\<close> with a function that can throw: the first error ends the loop.\<close>

fun Array_map_throwing :: "('a \<Rightarrow> thrown + 'b) \<Rightarrow> 'a list \<Rightarrow> thrown + 'b list" where
  "Array_map_throwing f [] = Inr []"
| "Array_map_throwing f (x # xs) =
     (case f x of
        Inl e \<Rightarrow> Inl e
      | Inr y \<Rightarrow>
          (case Array_map_throwing f xs of
             Inl e \<Rightarrow> Inl e
           | Inr ys \<Rightarrow> Inr (y # ys)))"

definition rankSubtitleCandidates ::
  "(string \<Rightarrow> string \<Rightarrow> int) \<Rightarrow> NormalizedSubtitleRequest \<Rightarrow> ProviderSubtitleResult list
     \<Rightarrow> int option \<Rightarrow> thrown + RankedSubtitleResult list" where
  "rankSubtitleCandidates lc req candidates limit =
     (let lim = (case limit of None \<Rightarrow> int (length candidates) | Some l \<Rightarrow> l)
      in case Array_map_throwing (scoreSubtitleCandidate lc req) candidates of
           Inl e \<Rightarrow> Inl e
         | Inr scored \<Rightarrow>
             (let ordered = Array_sort (compareScored lc) scored
              in Inr (map (\<lambda>(index, item). withRank item (index + 1))
                        (enumerate 0 (slice0 ordered lim)))))"

section \<open>The catalog provider\<close>

text \<open>
  The provider is the base URL and the client of \<open>createSubhdProvider\<close>; the cookie jar of
  the client and the world are passed along.
\<close>

record SubhdProviderOptions =
  baseUrl :: "string option"
  timeoutMs :: "real option"
  retries :: "real option"
  backoffMs :: "real option"
  maxBackoffMs :: "real option"

record SubhdProvider =
  baseUrl :: string
  client :: UpstreamClient

definition SUBHD_ID_PREFIX :: string where
  "SUBHD_ID_PREFIX = ''subhd:''"

text \<open>\<open>normalizeBaseUrl\<close> of the provider, whose argument may be undefined.\<close>

definition normalizeBaseUrl' :: "string option \<Rightarrow> string" where
  "normalizeBaseUrl' v =
     (case v of
        None \<Rightarrow> ''https://subhd.tv/''
      | Some s \<Rightarrow>
          let trimmed = trim s
          in if length trimmed = 0 then ''https://subhd.tv/''
             else if endsWith trimmed ''/'' then trimmed else trimmed @ ''/'')"

definition createSubhdProvider :: "urlParser \<Rightarrow> SubhdProviderOptions \<Rightarrow> thrown + SubhdProvider" where
  "createSubhdProvider newURL options =
     (let base = normalizeBaseUrl' (SubhdProviderOptions.baseUrl options)
      in case new_UpstreamClient newURL
                \<lparr> UpstreamClientOptions.providerId = ''subhd'',
                  UpstreamClientOptions.baseUrl = base,
                  UpstreamClientOptions.timeoutMs = SubhdProviderOptions.timeoutMs options,
                  UpstreamClientOptions.retries = SubhdProviderOptions.retries options,
                  UpstreamClientOptions.backoffMs = SubhdProviderOptions.backoffMs options,
                  UpstreamClientOptions.maxBackoffMs = SubhdProviderOptions.maxBackoffMs options,
                  UpstreamClientOptions.userAgent = Some ''subtitle-cli/subhd'' \<rparr> of
           Inl e \<Rightarrow> Inl e
         | Inr c \<Rightarrow> Inr \<lparr> SubhdProvider.baseUrl = base, client = c \<rparr>)"

subsection \<open>Identifiers\<close>

definition toSubhdProviderId :: "string \<Rightarrow> string" where
  "toSubhdProviderId s = SUBHD_ID_PREFIX @ s"

text \<open>\<open>/^[A-Za-z0-9]+$/u\<close>\<close>

definition alnumOnly :: rx where
  "alnumOnly = seq [Bol, many1 rxAlnum, Eol]"

definition parseSubhdProviderId :: "string \<Rightarrow> thrown + string" where
  "parseSubhdProviderId i =
     (let normalized = trim i
      in if startsWith normalized SUBHD_ID_PREFIX
            \<and> rxTest False alnumOnly (drop (length SUBHD_ID_PREFIX) normalized)
         then Inr (drop (length SUBHD_ID_PREFIX) normalized)
         else if rxTest False alnumOnly normalized then Inr normalized
         else Inl (AppError
                \<lparr> code = E_NOT_FOUND_RESOURCE,
                  message = ''SubHD subtitle not found: '' @ i,
                  details = [(''provider'', JStr ''subhd''), (''id'', JStr i)] \<rparr>))"

text \<open>
  \<open>encodeURIComponent\<close> and \<open>decodeURIComponent\<close> on the bytes of a string; the decoding
  throws for a \<open>%\<close> that two hexadecimal digits do not follow (that the decoded bytes are
  UTF-8 is not checked).
\<close>

definition hexDigit :: "nat \<Rightarrow> char" where
  "hexDigit n = (if n < 10 then char_of (48 + n) else char_of (55 + n))"

definition hexValue :: "char \<Rightarrow> nat option" where
  "hexValue c =
     (if isDigit c then Some (charCode c - 48)
      else if 65 \<le> charCode c \<and> charCode c \<le> 70 then Some (charCode c - 55)
      else if 97 \<le> charCode c \<and> charCode c \<le> 102 then Some (charCode c - 87)
      else None)"

definition encodeURIComponent :: "string \<Rightarrow> string" where
  "encodeURIComponent s =
     concat (map (\<lambda>c. if isAlnum c \<or> c \<in> set (''-_.!~*()'' @ [CHR 0x27]) then [c]
                       else [CHR ''%'', hexDigit (charCode c div 16), hexDigit (charCode c mod 16)])
               s)"

fun decodeURIComponent :: "string \<Rightarrow> thrown + string" where
  "decodeURIComponent [] = Inr []"
| "decodeURIComponent (c # cs) =
     (if c = CHR ''%'' then
        (case cs of
           h # l # rest \<Rightarrow>
             (case (hexValue h, hexValue l) of
                (Some a, Some b) \<Rightarrow>
                  (case decodeURIComponent rest of
                     Inl e \<Rightarrow> Inl e
                   | Inr t \<Rightarrow> Inr (char_of (a * 16 + b) # t))
              | other \<Rightarrow> Inl (NativeError ''URIError'' ''URI malformed''))
         | other \<Rightarrow> Inl (NativeError ''URIError'' ''URI malformed''))
      else (case decodeURIComponent cs of
              Inl e \<Rightarrow> Inl e
            | Inr t \<Rightarrow> Inr (c # t)))"

subsection \<open>The payload of the download API\<close>

text \<open>
  \<open>value.key\<close>: the property of an object, undefined for a value that has no such
  property; reading a property of \<open>null\<close> or \<open>undefined\<close> throws.
\<close>

definition jsGet :: "jv \<Rightarrow> string \<Rightarrow> jv" where
  "jsGet v k =
     (case v of
        JObj props \<Rightarrow> (case map_of props k of None \<Rightarrow> JUndefined | Some x \<Rightarrow> x)
      | other \<Rightarrow> JUndefined)"

definition jsProp :: "jv \<Rightarrow> string \<Rightarrow> thrown + jv" where
  "jsProp v k =
     (if v = JNull \<or> v = JUndefined
      then Inl (NativeError ''TypeError'' (''Cannot read properties of null (reading '' @ k @ '')''))
      else Inr (jsGet v k))"

definition resolveSubhdDownloadUrl :: "urlParser \<Rightarrow> string \<Rightarrow> jv \<Rightarrow> string option" where
  "resolveSubhdDownloadUrl newURL base v =
     (case v of
        JStr s \<Rightarrow>
          if length (trim s) = 0 then None
          else (case newURL s (Some base) of None \<Rightarrow> None | Some u \<Rightarrow> Some (href u))
      | other \<Rightarrow> None)"

definition normalizeErrorMessage :: "jv \<Rightarrow> string" where
  "normalizeErrorMessage v = (case v of JStr s \<Rightarrow> trim s | other \<Rightarrow> [])"

definition optStr :: "string option \<Rightarrow> jv" where
  "optStr v = (case v of None \<Rightarrow> JUndefined | Some s \<Rightarrow> JStr s)"

definition createSubhdChallengeError ::
  "string \<Rightarrow> string \<Rightarrow> string option \<Rightarrow> string option \<Rightarrow> CliAppError" where
  "createSubhdChallengeError url reason s msg =
     \<lparr> code = E_UPSTREAM_BAD_RESPONSE,
       message = ''SubHD requires anti-bot verification before download'',
       details = [(''provider'', JStr ''subhd''), (''classification'', JStr ''anti-bot''),
                  (''url'', JStr url), (''reason'', JStr reason), (''sid'', optStr s),
                  (''message'', optStr msg)] \<rparr>"

text \<open>
  The Chinese words of the patterns of the messages, in UTF-8: U+4E34 U+65F6 U+9875 U+9762
  (temporary page), U+9A8C U+8BC1 (verification), U+9891 U+7E41 (frequent) and U+6B21 U+6570
  (number of times).  The patterns are \<open>/\<dots>|\<dots>|\<dots>/u\<close> of the first two and the
  verification code, and \<open>/\<dots>|\<dots>|rate\s*limit|too\s*many/iu\<close>.
\<close>

definition cjkLinShiYeMian :: string where
  "cjkLinShiYeMian =
     [CHR 0xE4, CHR 0xB8, CHR 0xB4, CHR 0xE6, CHR 0x97, CHR 0xB6, CHR 0xE9, CHR 0xA1, CHR 0xB5,
      CHR 0xE9, CHR 0x9D, CHR 0xA2]"

definition cjkYanZheng :: string where
  "cjkYanZheng = [CHR 0xE9, CHR 0xAA, CHR 0x8C, CHR 0xE8, CHR 0xAF, CHR 0x81]"

definition cjkPinFan :: string where
  "cjkPinFan = [CHR 0xE9, CHR 0xA2, CHR 0x91, CHR 0xE7, CHR 0xB9, CHR 0x81]"

definition cjkCiShu :: string where
  "cjkCiShu = [CHR 0xE6, CHR 0xAC, CHR 0xA1, CHR 0xE6, CHR 0x95, CHR 0xB0]"

definition verificationPattern :: rx where
  "verificationPattern = alts [Lit cjkLinShiYeMian, Lit cjkYanZheng, Lit cjkVerificationCode]"

definition frequencyPattern :: rx where
  "frequencyPattern =
     alts [Lit cjkPinFan, Lit cjkCiShu, seq [Lit ''rate'', Star rxSpace, Lit ''limit''],
           seq [Lit ''too'', Star rxSpace, Lit ''many'']]"

definition createSubhdDownloadApiError :: "string \<Rightarrow> jv \<Rightarrow> string \<Rightarrow> CliAppError" where
  "createSubhdDownloadApiError s payload url =
     (let msg = normalizeErrorMessage (jsGet payload ''msg'')
      in if jsGet payload ''success'' = JBool False
            \<and> (looksLikeAntiBotChallenge msg \<or> rxTest False verificationPattern msg)
         then createSubhdChallengeError url ''download-gate-rejected'' (Some s) (Some msg)
         else if jsGet payload ''success'' = JBool False \<and> rxTest True frequencyPattern msg
         then \<lparr> code = E_UPSTREAM_BAD_RESPONSE,
                message = ''SubHD rate limited the download request'',
                details = [(''provider'', JStr ''subhd''), (''sid'', JStr s), (''url'', JStr url),
                           (''classification'', JStr ''rate-limit''), (''message'', JStr msg)] \<rparr>
         else \<lparr> code = E_UPSTREAM_BAD_RESPONSE,
                message = ''SubHD download gate returned an unexpected response'',
                details = [(''provider'', JStr ''subhd''), (''sid'', JStr s), (''url'', JStr url),
                           (''classification'', JStr ''bad-response''),
                           (''payload'', payload)] \<rparr>)"

subsection \<open>File names\<close>

text \<open>\<open>/\.([A-Za-z0-9]{2,5})(?:$|[?#])/u\<close>\<close>

definition extensionPattern :: rx where
  "extensionPattern = seq [Lit ''.'', Grp 1 (rep 2 5 rxAlnum), Alt Eol (oneOf ''?#'')]"

definition inferSubtitleFormatFromUrl :: "string \<Rightarrow> SubtitleFormat option" where
  "inferSubtitleFormatFromUrl url =
     (case matchGroup 1 (rxExec False extensionPattern url) of
        None \<Rightarrow> None
      | Some ext \<Rightarrow> inferSubtitleFormat ext)"

definition selectFileName :: "urlParser \<Rightarrow> string \<Rightarrow> string \<Rightarrow> SubtitleFormat \<Rightarrow> thrown + string" where
  "selectFileName newURL stem source fmt =
     (let path = (case newURL source None of None \<Rightarrow> [] | Some u \<Rightarrow> pathname u);
          segments = filter (\<lambda>segment. length segment > 0) (splitOn path ''/'')
      in if segments \<noteq> [] \<and> length (last segments) > 0
         then decodeURIComponent (last segments)
         else Inr (sanitizeFileStem stem @ ''.'' @ formatName fmt))"

subsection \<open>The operations\<close>

text \<open>\<open>String(n).padStart(2, "0")\<close>\<close>

definition padStart2 :: "string \<Rightarrow> string" where
  "padStart2 s = replicate (2 - length s) (CHR ''0'') @ s"

definition matchesRequest :: "string \<Rightarrow> NormalizedSubtitleRequest \<Rightarrow> bool" where
  "matchesRequest ttl req =
     (let normalizedTitle = toLowerCase ttl
      in if year req \<noteq> None \<and> \<not> includesStr normalizedTitle (optString (year req)) then False
         else if season req \<noteq> None
                 \<and> \<not> includesStr normalizedTitle (''s'' @ padStart2 (optString (season req)))
           then False
         else if episode req \<noteq> None
                 \<and> \<not> includesStr normalizedTitle (''e'' @ padStart2 (optString (episode req)))
           then False
         else True)"

definition acceptLanguage :: "string \<times> string" where
  "acceptLanguage = (''accept-language'', ''zh-CN,zh;q=0.9,en;q=0.7'')"

definition search ::
  "urlParser \<Rightarrow> SubhdProvider \<Rightarrow> 't transport \<Rightarrow> NormalizedSubtitleRequest \<Rightarrow> cookieJar \<Rightarrow> 't World
     \<Rightarrow> (thrown + ProviderSubtitleResult list) \<times> cookieJar \<times> 't World" where
  "search newURL p fetchImpl req jar w =
     (if length (queryTokens req) = 0 then (Inr [], jar, w)
      else
        case requestText newURL (client p) fetchImpl
               \<lparr> pathOrUrl = ''/search/'' @ encodeURIComponent (query req), httpMethod = None,
                 headers = [acceptLanguage], requestBody = None \<rparr> jar w of
          (Inl e, jar1, w1) \<Rightarrow> (Inl e, jar1, w1)
        | (Inr html, jar1, w1) \<Rightarrow>
            if looksLikeAntiBotChallenge html
            then (Inl (AppError (createSubhdChallengeError
                    (SubhdProvider.baseUrl p @ ''search/'' @ encodeURIComponent (query req))
                    ''search-page-challenge'' None None)), jar1, w1)
            else (case parseSubhdSearchItems html of
                    Inl e \<Rightarrow> (Inl e, jar1, w1)
                  | Inr items \<Rightarrow>
                      (Inr (map (\<lambda>item.
                              \<lparr> id' = toSubhdProviderId (SubhdSearchItem.sid item),
                                providerId = ''subhd'',
                                title = SubhdSearchItem.title item,
                                language = SubhdSearchItem.language item,
                                format = SubhdSearchItem.format item,
                                downloads = SubhdSearchItem.downloads item,
                                hearingImpaired = SubhdSearchItem.hearingImpaired item,
                                releaseName = Some (SubhdSearchItem.title item) \<rparr>)
                            (filter (\<lambda>item. matchesRequest (SubhdSearchItem.title item) req)
                               items)),
                       jar1, w1)))"

definition downloadBody :: "string \<Rightarrow> string" where
  \<open>downloadBody s = ''{"sid":"'' @ s @ ''","cap":""}''\<close>

text \<open>The options of the two requests of \<open>getDownloadPlan\<close>: the gate page and the API.\<close>

definition downPageOptions :: "SubhdProvider \<Rightarrow> string \<Rightarrow> UpstreamRequestOptions" where
  "downPageOptions p s =
     \<lparr> pathOrUrl = ''/down/'' @ encodeURIComponent s, httpMethod = None,
       headers = [(''referer'', SubhdProvider.baseUrl p @ ''a/'' @ encodeURIComponent s),
                  acceptLanguage],
       requestBody = None \<rparr>"

definition downloadApiOptions :: "SubhdProvider \<Rightarrow> string \<Rightarrow> URL \<Rightarrow> UpstreamRequestOptions" where
  "downloadApiOptions p s base =
     \<lparr> pathOrUrl = ''/api/sub/down'', httpMethod = Some ''POST'',
       headers = [(''content-type'', ''application/json''),
                  (''accept'', ''application/json, text/plain, */*''),
                  (''origin'', origin base),
                  (''referer'', SubhdProvider.baseUrl p @ ''down/'' @ encodeURIComponent s)],
       requestBody = Some (downloadBody s) \<rparr>"

definition getDownloadPlan ::
  "urlParser \<Rightarrow> SubhdProvider \<Rightarrow> 't transport \<Rightarrow> string \<Rightarrow> cookieJar \<Rightarrow> 't World
     \<Rightarrow> (thrown + SubtitleDownloadPlan) \<times> cookieJar \<times> 't World" where
  "getDownloadPlan newURL p fetchImpl i jar w =
     (case parseSubhdProviderId i of
        Inl e \<Rightarrow> (Inl e, jar, w)
      | Inr s \<Rightarrow>
          (let downPageUrl = SubhdProvider.baseUrl p @ ''down/'' @ encodeURIComponent s
           in case requestText newURL (client p) fetchImpl
                     (downPageOptions p s) jar w of
                (Inl e, jar1, w1) \<Rightarrow> (Inl e, jar1, w1)
              | (Inr html, jar1, w1) \<Rightarrow>
                  if looksLikeAntiBotChallenge html
                  then (Inl (AppError (createSubhdChallengeError downPageUrl
                          ''download-gate-challenge'' None None)), jar1, w1)
                  else
                    (case parseSubhdDownloadPage html s of
                       Inl e \<Rightarrow> (Inl e, jar1, w1)
                     | Inr page \<Rightarrow>
                         (case newURL (SubhdProvider.baseUrl p) None of
                            None \<Rightarrow> (Inl (NativeError ''TypeError'' ''Invalid URL''), jar1, w1)
                          | Some base \<Rightarrow>
                              (case requestJson newURL (client p) fetchImpl
                                      (downloadApiOptions p s base) jar1 w1 of
                                 (Inl e, jar2, w2) \<Rightarrow> (Inl e, jar2, w2)
                               | (Inr apiPayload, jar2, w2) \<Rightarrow>
                                   (case jsProp apiPayload ''url'' of
                                      Inl e \<Rightarrow> (Inl e, jar2, w2)
                                    | Inr u \<Rightarrow>
                                        (case resolveSubhdDownloadUrl newURL (SubhdProvider.baseUrl p) u of
                                           None \<Rightarrow>
                                             (Inl (AppError (createSubhdDownloadApiError s apiPayload
                                                     downPageUrl)), jar2, w2)
                                         | Some source \<Rightarrow>
                                             if jsGet apiPayload ''success'' \<noteq> JBool True
                                                \<or> jsGet apiPayload ''pass'' \<noteq> JBool True
                                             then (Inl (AppError (createSubhdDownloadApiError s
                                                     apiPayload downPageUrl)), jar2, w2)
                                             else
                                               (let sourceFormat = inferSubtitleFormatFromUrl source;
                                                    fmt = (case sourceFormat of
                                                             Some f \<Rightarrow> f
                                                           | None \<Rightarrow>
                                                               (case SubhdDownloadPage.format page of
                                                                  Some f \<Rightarrow> f | None \<Rightarrow> Srt))
                                                in case selectFileName newURL
                                                          (SubhdDownloadPage.fileStem page) source fmt of
                                                     Inl e \<Rightarrow> (Inl e, jar2, w2)
                                                   | Inr name \<Rightarrow>
                                                       (Inr \<lparr> SubtitleDownloadPlan.id' = toSubhdProviderId s,
                                                              SubtitleDownloadPlan.providerId = ''subhd'',
                                                              SubtitleDownloadPlan.fileName = name,
                                                              SubtitleDownloadPlan.sourceUrl = source,
                                                              SubtitleDownloadPlan.format = fmt \<rparr>,
                                                        jar2, w2)))))))))"

definition downloadSubtitle ::
  "urlParser \<Rightarrow> SubhdProvider \<Rightarrow> 't transport \<Rightarrow> string \<Rightarrow> cookieJar \<Rightarrow> 't World
     \<Rightarrow> (thrown + SubtitlePayload) \<times> cookieJar \<times> 't World" where
  "downloadSubtitle newURL p fetchImpl i jar w =
     (case getDownloadPlan newURL p fetchImpl i jar w of
        (Inl e, jar1, w1) \<Rightarrow> (Inl e, jar1, w1)
      | (Inr plan, jar1, w1) \<Rightarrow>
          (case parseSubhdProviderId (SubtitleDownloadPlan.id' plan) of
             Inl e \<Rightarrow> (Inl e, jar1, w1)
           | Inr s \<Rightarrow>
               (case requestBinary newURL (client p) fetchImpl
                       \<lparr> pathOrUrl = SubtitleDownloadPlan.sourceUrl plan, httpMethod = None,
                         headers = [(''referer'', SubhdProvider.baseUrl p @ ''down/''
                                       @ encodeURIComponent s)],
                         requestBody = None \<rparr> jar1 w1 of
                  (Inl e, jar2, w2) \<Rightarrow> (Inl e, jar2, w2)
                | (Inr bytes, jar2, w2) \<Rightarrow>
                    (Inr \<lparr> SubtitleDownloadPlan.id' = SubtitleDownloadPlan.id' plan,
                           SubtitleDownloadPlan.providerId = SubtitleDownloadPlan.providerId plan,
                           SubtitleDownloadPlan.fileName = SubtitleDownloadPlan.fileName plan,
                           SubtitleDownloadPlan.sourceUrl = SubtitleDownloadPlan.sourceUrl plan,
                           SubtitleDownloadPlan.format = SubtitleDownloadPlan.format plan,
                           content = bytes \<rparr>,
                     jar2, w2))))"

section \<open>Definitions for the properties of ranking\<close>

text \<open>
  The order of the ranked output: \<open>a\<close> may stand before \<open>b\<close> when its score is higher; on
  equal scores when its download count is higher; then when its provider id is earlier in
  the comparison \<open>lc\<close>; then when its id is not later in \<open>lc\<close>.
\<close>

definition specOrder ::
  "(string \<Rightarrow> string \<Rightarrow> int) \<Rightarrow> ScoredSubtitleResult \<Rightarrow> ScoredSubtitleResult \<Rightarrow> bool" where
  "specOrder lc a b \<longleftrightarrow>
     score a > score b \<or>
     (score a = score b \<and>
       (downloads a > downloads b \<or>
        (downloads a = downloads b \<and>
          (lc (providerId a) (providerId b) < 0 \<or>
           (lc (providerId a) (providerId b) = 0 \<and> lc (id' a) (id' b) \<le> 0)))))"

text \<open>A request without tokens and preferences, and a candidate, for the concrete instances.\<close>

definition noRequest :: NormalizedSubtitleRequest where
  "noRequest = \<lparr> query = [], normalizedQuery = [], queryTokens = [], year = None,
     season = None, episode = None, languagePreferences = [], fingerprint = ''||||'' \<rparr>"

definition cand :: "string \<Rightarrow> string \<Rightarrow> nat \<Rightarrow> ProviderSubtitleResult" where
  "cand i p d = \<lparr> id' = i, providerId = p, title = ''t'', language = ''en'', format = Srt,
     downloads = d, hearingImpaired = None, releaseName = None \<rparr>"

text \<open>A ranked result without its rank.\<close>

definition withoutRank :: "RankedSubtitleResult \<Rightarrow> ScoredSubtitleResult" where
  "withoutRank r =
     \<lparr> id' = id' r, providerId = providerId r, title = title r,
       language = language r, format = format r, downloads = downloads r,
       hearingImpaired = hearingImpaired r, releaseName = releaseName r,
       score = score r, reasons = reasons r \<rparr>"

text \<open>The ids of a ranking that returns, in their order.\<close>

definition rankedIds :: "thrown + RankedSubtitleResult list \<Rightarrow> thrown + string list" where
  "rankedIds r = (case r of Inl e \<Rightarrow> Inl e | Inr ranked \<Rightarrow> Inr (map id' ranked))"

text \<open>
  Two strings that are canonically equivalent and differ: \<open>caf\<close> followed by the precomposed
  letter U+00E9, and \<open>cafe\<close> followed by the combining accent U+0301.
\<close>

definition precomposed :: string where
  "precomposed = ''caf'' @ [CHR 0xC3, CHR 0xA9]"

definition decomposed :: string where
  "decomposed = ''cafe'' @ [CHR 0xCC, CHR 0x81]"

section \<open>Definitions for the properties of normalization\<close>

text \<open>The input of the repository's normalization test, with a list of languages.\<close>

definition matrixInput :: "string list \<Rightarrow> SubtitleRequestInput" where
  "matrixInput ls = \<lparr> SubtitleRequestInput.query = ''   The   Matrix   '',
     SubtitleRequestInput.year = Some 1999, SubtitleRequestInput.season = None,
     SubtitleRequestInput.episode = None, languages = Some ls \<rparr>"

text \<open>The fingerprint of a normalization that returns.\<close>

definition fingerprintOf :: "thrown + NormalizedSubtitleRequest \<Rightarrow> thrown + string" where
  "fingerprintOf r = (case r of Inl e \<Rightarrow> Inl e | Inr n \<Rightarrow> Inr (fingerprint n))"

section \<open>Definitions for the properties of the upstream client\<close>

text \<open>
  The outcomes of an attempt that the retry policy names (an error of the transport, which
  is a network failure or a timeout, or a status of the retriable set), the error that
  \<open>request\<close> makes of an outcome, a parser for the URLs of the instances, and a client, a
  transport that always settles the same way, a response and a world for the instances.
\<close>

definition retriable :: "FetchResult \<Rightarrow> bool" where
  "retriable r =
     (case r of
        Rejects e \<Rightarrow> (case e of NativeError name msg \<Rightarrow> True | AppError a \<Rightarrow> False)
      | Resolves response \<Rightarrow> status response \<in> {408, 425, 429, 500, 502, 503, 504})"

definition errorOfAttempt :: "UpstreamClient \<Rightarrow> URL \<Rightarrow> FetchResult \<Rightarrow> CliAppError" where
  "errorOfAttempt c url r =
     (case r of
        Rejects e \<Rightarrow> mapFetchError e (UpstreamClient.providerId c) url (UpstreamClient.timeoutMs c)
      | Resolves response \<Rightarrow>
          classifyResponseError (UpstreamClient.providerId c) url (status response) (readSnippet response))"

definition simpleAbsolute :: "string \<Rightarrow> URL option" where
  "simpleAbsolute s =
     (let scheme = (if startsWith s ''https://'' then ''https://''
                    else if startsWith s ''http://'' then ''http://'' else []);
          rest = drop (length scheme) s;
          host = takeWhile (\<lambda>c. c \<notin> set ''/?#'') rest;
          path = takeWhile (\<lambda>c. c \<notin> set ''?#'') (drop (length host) rest)
      in if scheme = [] \<or> host = [] then None
         else Some \<lparr> href = (if path = [] then s @ ''/'' else s), origin = scheme @ host,
                     pathname = (if path = [] then ''/'' else path) \<rparr>)"

definition simpleURL :: urlParser where
  "simpleURL input base =
     (case simpleAbsolute input of
        Some u \<Rightarrow> Some u
      | None \<Rightarrow>
          (case base of
             None \<Rightarrow> None
           | Some b \<Rightarrow>
               (case simpleAbsolute b of
                  None \<Rightarrow> None
                | Some bu \<Rightarrow>
                    if startsWith input ''/'' then simpleAbsolute (origin bu @ input) else None)))"

definition testOptions :: "real \<Rightarrow> UpstreamClientOptions" where
  "testOptions r =
     \<lparr> UpstreamClientOptions.providerId = ''subhd'',
       UpstreamClientOptions.baseUrl = ''https://subhd.test'',
       UpstreamClientOptions.timeoutMs = None,
       UpstreamClientOptions.retries = Some r,
       UpstreamClientOptions.backoffMs = None,
       UpstreamClientOptions.maxBackoffMs = None,
       UpstreamClientOptions.userAgent = Some ''subtitle-cli/subhd'' \<rparr>"

definition testClient :: "nat \<Rightarrow> UpstreamClient" where
  "testClient r =
     \<lparr> UpstreamClient.providerId = ''subhd'', UpstreamClient.baseUrl = ''https://subhd.test/'',
       UpstreamClient.timeoutMs = 12000, UpstreamClient.retries = r,
       UpstreamClient.backoffMs = 250, UpstreamClient.maxBackoffMs = 3000,
       UpstreamClient.userAgent = ''subtitle-cli/subhd'',
       UpstreamClient.baseOrigin = ''https://subhd.test'' \<rparr>"

definition always :: "FetchResult \<Rightarrow> unit transport" where
  "always r = (\<lambda>t call. (r, t))"

definition plainResponse :: "nat \<Rightarrow> string \<Rightarrow> Response" where
  "plainResponse st b = \<lparr> status = st, body = Some b, bodyJson = None, setCookies = GetSetCookie [] \<rparr>"

definition newWorld :: "unit World" where
  "newWorld = \<lparr> fetchState = (), fetchLog = [], sleepLog = [] \<rparr>"

definition getOptions :: "string \<Rightarrow> UpstreamRequestOptions" where
  "getOptions p = \<lparr> pathOrUrl = p, httpMethod = None, headers = [], requestBody = None \<rparr>"

definition searchUrl :: URL where
  "searchUrl = \<lparr> href = ''https://subhd.test/search/x'', origin = ''https://subhd.test'',
     pathname = ''/search/x'' \<rparr>"

section \<open>Definitions for the properties of the cookie jar\<close>

text \<open>
  One round of the loop of \<open>request\<close> either ends the loop with a result or goes on with a
  jar and a world.  \<open>cookiePair\<close> is the name and the value that \<open>mergeCookie\<close> reads from
  a \<open>Set-Cookie\<close> header, \<open>cookieNames\<close> the names that the cookies of a response have,
  \<open>lastValue\<close> the value of the last cookie of a name in a list.  \<open>baseHeaders\<close> are the
  headers of a call before the cookie header is set and \<open>theCall\<close> is the call of an
  attempt; \<open>newCalls\<close> are the calls of the transport between two worlds.  The rest are
  transports, requests and sessions of three requests for the instances.
\<close>

datatype 't round =
    Done "(thrown + Response) \<times> cookieJar \<times> 't World"
  | Again cookieJar "'t World"

definition attemptOnce ::
  "UpstreamClient \<Rightarrow> 't transport \<Rightarrow> URL \<Rightarrow> UpstreamRequestOptions \<Rightarrow> nat \<Rightarrow> cookieJar \<Rightarrow> 't World
     \<Rightarrow> 't round" where
  "attemptOnce c fetchImpl url options attempt jar w =
     (case fetchWithTimeout c fetchImpl jar w url options of
        (Resolves response, w1) \<Rightarrow>
          (let jar1 = mergeResponseCookies c jar url (setCookies response)
           in if ok response then Done (Inr response, jar1, w1)
              else if attempt + 1 < UpstreamClient.retries c + 1
                      \<and> status response \<in> set RETRYABLE_STATUS
                then Again jar1 (sleep w1 (computeBackoff (UpstreamClient.backoffMs c)
                                   (UpstreamClient.maxBackoffMs c) (attempt + 1)))
              else Done (Inl (AppError (classifyResponseError (UpstreamClient.providerId c) url
                                          (status response) (readSnippet response))), jar1, w1))
      | (Rejects e, w1) \<Rightarrow>
          (let mapped = mapFetchError e (UpstreamClient.providerId c) url (UpstreamClient.timeoutMs c)
           in if attempt + 1 < UpstreamClient.retries c + 1
                 \<and> (code mapped = E_UPSTREAM_NETWORK \<or> code mapped = E_UPSTREAM_TIMEOUT)
              then Again jar (sleep w1 (computeBackoff (UpstreamClient.backoffMs c)
                                 (UpstreamClient.maxBackoffMs c) (attempt + 1)))
              else Done (Inl (AppError mapped), jar, w1)))"

definition cookiePair :: "string \<Rightarrow> (string \<times> string) option" where
  "cookiePair raw =
     (let firstSegment = trim (case splitOn raw '';'' of [] \<Rightarrow> [] | seg # segs \<Rightarrow> seg);
          eqIndex = indexOf firstSegment ''=''
      in if length firstSegment = 0 \<or> eqIndex \<le> 0 then None
         else
           let name = trim (take (nat eqIndex) firstSegment);
               v = trim (drop (nat eqIndex + 1) firstSegment)
           in if length name = 0 then None else Some (name, v))"

definition cookieNames :: "SetCookieHeaders \<Rightarrow> string set" where
  "cookieNames hs = {n. \<exists>raw\<in>set (readSetCookieHeaders hs). \<exists>v. cookiePair raw = Some (n, v)}"

definition lastValue :: "string \<Rightarrow> string list \<Rightarrow> string option" where
  "lastValue n raws =
     foldl (\<lambda>acc raw. case cookiePair raw of
                         None \<Rightarrow> acc
                       | Some (k, v) \<Rightarrow> if k = n then Some v else acc) None raws"

definition baseHeaders :: "UpstreamClient \<Rightarrow> UpstreamRequestOptions \<Rightarrow> headerList" where
  "baseHeaders c options =
     (let hs0 = new_Headers (headers options)
      in if \<not> Headers_has hs0 ''user-agent''
         then Headers_set hs0 ''user-agent'' (UpstreamClient.userAgent c) else hs0)"

definition theCall :: "UpstreamClient \<Rightarrow> cookieJar \<Rightarrow> URL \<Rightarrow> UpstreamRequestOptions \<Rightarrow> FetchCall" where
  "theCall c jar url options =
     \<lparr> target = url,
       callMethod = (case httpMethod options of None \<Rightarrow> ''GET'' | Some m \<Rightarrow> m),
       callHeaders = (if length (serializeCookies jar) > 0 \<and> origin url = baseOrigin c
                      then Headers_set (baseHeaders c options) ''cookie'' (serializeCookies jar)
                      else baseHeaders c options),
       callBody = requestBody options \<rparr>"

definition newCalls :: "'t World \<Rightarrow> 't World \<Rightarrow> FetchCall list" where
  "newCalls w w' = drop (length (fetchLog w)) (map fst (fetchLog w'))"

definition freshWorld :: "'t \<Rightarrow> 't World" where
  "freshWorld t = \<lparr> fetchState = t, fetchLog = [], sleepLog = [] \<rparr>"

definition gateTransport :: "string \<Rightarrow> jv \<Rightarrow> unit transport" where
  "gateTransport html payload t call =
     (if callMethod call = ''GET'' \<and> pathname (target call) = ''/down/xD0xeo''
        \<and> origin (target call) = ''https://subhd.test''
      then (Resolves \<lparr> status = 200, body = Some html, bodyJson = None,
                        setCookies = Combined (Some ''tk_mock=abc123; Path=/; HttpOnly'') \<rparr>, t)
      else if callMethod call = ''POST'' \<and> pathname (target call) = ''/api/sub/down''
        \<and> origin (target call) = ''https://subhd.test''
      then (Resolves \<lparr> status = 200, body = Some ''json'', bodyJson = Some payload,
                        setCookies = Combined None \<rparr>, t)
      else if origin (target call) = ''https://dl.subhd.test''
      then (Resolves \<lparr> status = 200, body = Some [CHR 0x01, CHR 0x02, CHR 0x03, CHR 0x04],
                        bodyJson = None, setCookies = Combined None \<rparr>, t)
      else (Resolves \<lparr> status = 404, body = Some ''not found'', bodyJson = None,
                        setCookies = Combined None \<rparr>, t))"

definition postOptions :: UpstreamRequestOptions where
  "postOptions = \<lparr> pathOrUrl = ''/api/sub/down'', httpMethod = Some ''POST'',
     headers = [(''content-type'', ''application/json'')], requestBody = Some ''{}'' \<rparr>"

definition cookieSteps :: "nat transport" where
  "cookieSteps t call =
     (Resolves \<lparr> status = 200, body = Some ''ok'', bodyJson = None,
                  setCookies = GetSetCookie
                    (if t = 0 then [''tk=abc; Path=/'']
                     else if t = 1 then [''tk=deleted; Path=/''] else []) \<rparr>,
      t + 1)"

definition cookieHeaders :: "'t World \<Rightarrow> (string \<times> string option) list" where
  "cookieHeaders w =
     map (\<lambda>(call, r). (origin (target call), Headers_get (callHeaders call) ''cookie''))
       (fetchLog w)"

definition session3 ::
  "'t transport \<Rightarrow> 't \<Rightarrow> UpstreamRequestOptions \<Rightarrow> UpstreamRequestOptions \<Rightarrow> UpstreamRequestOptions
     \<Rightarrow> cookieJar list \<times> (string \<times> string option) list" where
  "session3 fetchImpl t o1 o2 o3 =
     (case request simpleURL (testClient 0) fetchImpl o1 [] (freshWorld t) of
        (r1, jar1, w1) \<Rightarrow>
          (case request simpleURL (testClient 0) fetchImpl o2 jar1 w1 of
             (r2, jar2, w2) \<Rightarrow>
               (case request simpleURL (testClient 0) fetchImpl o3 jar2 w2 of
                  (r3, jar3, w3) \<Rightarrow> ([jar1, jar2, jar3], cookieHeaders w3))))"

definition gateUrl :: URL where
  "gateUrl = \<lparr> href = ''https://subhd.test/down/xD0xeo'', origin = ''https://subhd.test'',
     pathname = ''/down/xD0xeo'' \<rparr>"

definition apiUrl :: URL where
  "apiUrl = \<lparr> href = ''https://subhd.test/api/sub/down'', origin = ''https://subhd.test'',
     pathname = ''/api/sub/down'' \<rparr>"

definition fileUrl :: URL where
  "fileUrl = \<lparr> href = ''https://dl.subhd.test/files/The.Matrix.1999.ass'',
     origin = ''https://dl.subhd.test'', pathname = ''/files/The.Matrix.1999.ass'' \<rparr>"

definition gateResponse :: Response where
  "gateResponse = \<lparr> status = 200, body = Some ''<h5>x</h5>'', bodyJson = None,
     setCookies = Combined (Some ''tk_mock=abc123; Path=/; HttpOnly'') \<rparr>"

section \<open>Definitions for the properties of the catalog parser\<close>

text \<open>
  The identifiers and items of the cards of a page in the order of the document, a card
  as the search page has it, the item of such a card, and a page of three cards of which
  the first and the last have the same identifier.
\<close>

fun cardEntries :: "string list \<Rightarrow> thrown + (string \<times> SubhdSearchItem) list" where
  "cardEntries [] = Inr []"
| "cardEntries (cardHtml # cards) =
     (case extractSubhdSid cardHtml of
        None \<Rightarrow> cardEntries cards
      | Some s \<Rightarrow>
          (case cardItem cardHtml s of
             Inl e \<Rightarrow> Inl e
           | Inr item \<Rightarrow>
               (case cardEntries cards of
                  Inl e \<Rightarrow> Inl e
                | Inr entries \<Rightarrow> Inr ((s, item) # entries))))"

definition sampleCard :: "string \<Rightarrow> string \<Rightarrow> string \<Rightarrow> string" where
  \<open>sampleCard s t n =
     ''<a href="/a/'' @ s @ ''" class="link-dark align-middle">'' @ t
       @ ''</a>bi bi-download<span>'' @ n @ ''</span>''\<close>

definition sampleItem :: "string \<Rightarrow> string \<Rightarrow> SubtitleFormat \<Rightarrow> nat \<Rightarrow> SubhdSearchItem" where
  "sampleItem s t f n =
     \<lparr> SubhdSearchItem.sid = s, SubhdSearchItem.title = t, SubhdSearchItem.language = ''zh'',
       SubhdSearchItem.format = f, SubhdSearchItem.downloads = n,
       SubhdSearchItem.hearingImpaired = None \<rparr>"

definition samplePage :: string where
  "samplePage =
     ''<html>'' @ SUBHD_CARD_MARKER @ sampleCard ''x1'' ''First ASS'' ''5''
       @ SUBHD_CARD_MARKER @ sampleCard ''y2'' ''Other'' ''9''
       @ SUBHD_CARD_MARKER @ sampleCard ''x1'' ''Second SRT'' ''7''"

section \<open>Definitions for the properties of the catalog provider\<close>

text \<open>
  A string of one or more ASCII letters and digits, and the error of an identifier that the
  provider does not accept.
\<close>

definition allAlnum :: "string \<Rightarrow> bool" where
  "allAlnum s \<longleftrightarrow> s \<noteq> [] \<and> (\<forall>c\<in>set s. isAlnum c)"

definition notFound :: "string \<Rightarrow> thrown" where
  "notFound i =
     AppError \<lparr> code = E_NOT_FOUND_RESOURCE, message = ''SubHD subtitle not found: '' @ i,
                details = [(''provider'', JStr ''subhd''), (''id'', JStr i)] \<rparr>"



text \<open>
  The provider of the tests of the repository, a gate page, the message that asks for a
  verification code, and three payloads that carry it: one whose \<open>success\<close> is \<open>false\<close>, one whose
  \<open>success\<close> is \<open>true\<close> and whose \<open>pass\<close> is \<open>false\<close>, and one without a \<open>success\<close> member.  The two
  requests of \<open>getDownloadPlan\<close> for the identifier \<open>xD0xeo\<close> against the transport of the tests.
\<close>

definition testProvider :: SubhdProvider where
  "testProvider = \<lparr> SubhdProvider.baseUrl = ''https://subhd.test/'', client = testClient 0 \<rparr>"

definition gatePage :: string where
  \<open>gatePage = ''<h5 class="card-header">The.Matrix.1999</h5>''\<close>

definition cjkPleaseVerify :: string where
  "cjkPleaseVerify =
     [CHR 0xE8, CHR 0xAF, CHR 0xB7, CHR 0xE8, CHR 0xBF, CHR 0x9B, CHR 0xE8, CHR 0xA1, CHR 0x8C]
     @ cjkVerificationCode @ cjkYanZheng"

definition challengePayload :: jv where
  "challengePayload = JObj [(''success'', JBool False), (''pass'', JBool False),
     (''msg'', JStr cjkPleaseVerify), (''url'', JNull)]"






section \<open>Sorting with a comparator\<close>

lemma mset_insertSorted: "mset (insertSorted cmp x ys) = add_mset x (mset ys)"
  by (induction ys) auto

lemma mset_Array_sort: "mset (Array_sort cmp xs) = mset xs"
  by (induction xs) (auto simp: Array_sort_def mset_insertSorted)

lemma set_insertSorted: "set (insertSorted cmp x ys) = insert x (set ys)"
  by (induction ys) auto

lemma sorted_insertSorted:
  assumes tot: "\<And>a b. 0 < cmp a b \<Longrightarrow> cmp b a \<le> 0"
    and trans: "\<And>a b c. cmp a b \<le> 0 \<Longrightarrow> cmp b c \<le> 0 \<Longrightarrow> cmp a c \<le> 0"
    and srt: "sorted_wrt (\<lambda>a b. cmp a b \<le> 0) ys"
  shows "sorted_wrt (\<lambda>a b. cmp a b \<le> 0) (insertSorted cmp x ys)"
  using srt
proof (induction ys)
  case Nil
  then show ?case by simp
next
  case (Cons y ys)
  show ?case
  proof (cases "0 < cmp x y")
    case True
    then have "cmp y x \<le> 0" by (rule tot)
    with Cons True show ?thesis by (auto simp: set_insertSorted)
  next
    case False
    then have xy: "cmp x y \<le> 0" by simp
    have "\<forall>z\<in>set ys. cmp x z \<le> 0"
      using Cons.prems xy trans by auto
    with Cons.prems xy False show ?thesis by auto
  qed
qed

lemma sorted_Array_sort:
  assumes tot: "\<And>a b. 0 < cmp a b \<Longrightarrow> cmp b a \<le> 0"
    and trans: "\<And>a b c. cmp a b \<le> 0 \<Longrightarrow> cmp b c \<le> 0 \<Longrightarrow> cmp a c \<le> 0"
  shows "sorted_wrt (\<lambda>a b. cmp a b \<le> 0) (Array_sort cmp xs)"
proof (induction xs)
  case Nil
  then show ?case by (simp add: Array_sort_def)
next
  case (Cons x xs)
  have "Array_sort cmp (x # xs) = insertSorted cmp x (Array_sort cmp xs)"
    by (simp add: Array_sort_def)
  with Cons show ?case
    using sorted_insertSorted [of cmp "Array_sort cmp xs" x] tot trans by auto
qed

section \<open>The comparison of strings and the order of the ranking\<close>

lemma compareScored_le_iff: "compareScored lc a b \<le> 0 \<longleftrightarrow> specOrder lc a b"
  unfolding compareScored_def specOrder_def Let_def by auto

lemma collation_flip: "collation lc \<Longrightarrow> (lc a b < 0) = (0 < lc b a)"
  by (simp add: collation_def)

lemma collation_trans: "collation lc \<Longrightarrow> lc a b \<le> 0 \<Longrightarrow> lc b c \<le> 0 \<Longrightarrow> lc a c \<le> 0"
  unfolding collation_def by blast

lemma collation_total:
  assumes c: "collation lc" and ab: "\<not> lc a b \<le> 0"
  shows "lc b a < 0"
proof -
  from ab have "0 < lc a b" by simp
  then show ?thesis using collation_flip [OF c, of b a] by simp
qed

lemma collation_zero:
  assumes c: "collation lc" and z: "lc a b = 0"
  shows "lc b a = 0"
proof -
  have "\<not> lc b a < 0" using collation_flip [OF c, of b a] z by simp
  moreover have "\<not> 0 < lc b a" using collation_flip [OF c, of a b] z by simp
  ultimately show ?thesis by simp
qed

lemma collation_between:
  assumes c: "collation lc" and ab: "lc a b \<le> 0" and bd: "lc b d \<le> 0" and ad: "lc a d = 0"
  shows "lc a b = 0 \<and> lc b d = 0"
proof -
  have da: "lc d a \<le> 0" using collation_zero [OF c ad] by simp
  have "lc d b \<le> 0" using collation_trans [OF c da ab] .
  then have "\<not> lc b d < 0" using collation_flip [OF c, of b d] by simp
  with bd have 1: "lc b d = 0" by simp
  have "lc b a \<le> 0" using collation_trans [OF c bd da] .
  then have "\<not> lc a b < 0" using collation_flip [OF c, of a b] by simp
  with ab have 2: "lc a b = 0" by simp
  from 1 2 show ?thesis by simp
qed

lemma specOrder_total:
  assumes c: "collation lc" and n: "\<not> specOrder lc a b"
  shows "specOrder lc b a"
proof (cases "score a = score b \<and> downloads a = downloads b")
  case False
  with n show ?thesis unfolding specOrder_def by auto
next
  case True
  show ?thesis
  proof (cases "lc (providerId a) (providerId b) = 0")
    case z: True
    then have 1: "lc (providerId b) (providerId a) = 0" by (rule collation_zero [OF c])
    from n True z have "\<not> lc (id' a) (id' b) \<le> 0" unfolding specOrder_def by auto
    then have "lc (id' b) (id' a) < 0" by (rule collation_total [OF c])
    with True 1 show ?thesis unfolding specOrder_def by simp
  next
    case nz: False
    from n True have "\<not> lc (providerId a) (providerId b) < 0" unfolding specOrder_def by auto
    with nz have "\<not> lc (providerId a) (providerId b) \<le> 0" by simp
    then have "lc (providerId b) (providerId a) < 0" by (rule collation_total [OF c])
    with True show ?thesis unfolding specOrder_def by simp
  qed
qed

lemma specOrder_trans:
  assumes c: "collation lc" and ab: "specOrder lc a b" and bd: "specOrder lc b d"
  shows "specOrder lc a d"
proof -
  consider "score a > score d"
    | "score a = score b" "score b = score d" "downloads a > downloads d"
    | "score a = score b" "score b = score d" "downloads a = downloads b" "downloads b = downloads d"
    using ab bd unfolding specOrder_def by fastforce
  then show ?thesis
  proof cases
    case 1
    then show ?thesis by (simp add: specOrder_def)
  next
    case 2
    then show ?thesis by (simp add: specOrder_def)
  next
    case 3
    have pab: "lc (providerId a) (providerId b) \<le> 0" using ab 3 unfolding specOrder_def by auto
    have pbd: "lc (providerId b) (providerId d) \<le> 0" using bd 3 unfolding specOrder_def by auto
    have pad: "lc (providerId a) (providerId d) \<le> 0" using collation_trans [OF c pab pbd] .
    show ?thesis
    proof (cases "lc (providerId a) (providerId d) = 0")
      case False
      with pad have "lc (providerId a) (providerId d) < 0" by simp
      with 3 show ?thesis by (simp add: specOrder_def)
    next
      case True
      have z: "lc (providerId a) (providerId b) = 0 \<and> lc (providerId b) (providerId d) = 0"
        using collation_between [OF c pab pbd True] .
      have iab: "lc (id' a) (id' b) \<le> 0" using ab 3 z unfolding specOrder_def by auto
      have ibd: "lc (id' b) (id' d) \<le> 0" using bd 3 z unfolding specOrder_def by auto
      have "lc (id' a) (id' d) \<le> 0" using collation_trans [OF c iab ibd] .
      with 3 True show ?thesis by (simp add: specOrder_def)
    qed
  qed
qed

lemma sorted_scored:
  assumes c: "collation lc"
  shows "sorted_wrt (specOrder lc) (Array_sort (compareScored lc) xs)"
proof -
  have "sorted_wrt (\<lambda>a b. compareScored lc a b \<le> 0) (Array_sort (compareScored lc) xs)"
  proof (rule sorted_Array_sort)
    fix a b assume "0 < compareScored lc a b"
    then have "\<not> specOrder lc a b" by (simp add: compareScored_le_iff [symmetric])
    then show "compareScored lc b a \<le> 0"
      using specOrder_total [OF c] by (simp add: compareScored_le_iff)
  next
    fix a b d assume "compareScored lc a b \<le> 0" "compareScored lc b d \<le> 0"
    then show "compareScored lc a d \<le> 0"
      using specOrder_trans [OF c, of a b d] by (simp add: compareScored_le_iff)
  qed
  then show ?thesis by (simp add: compareScored_le_iff)
qed

lemma map_enumerate_snd: "map (\<lambda>p. f (snd p)) (enumerate n zs) = map f zs"
  by (induction zs arbitrary: n) auto

lemma map_enumerate_fst: "map (\<lambda>p. g (fst p)) (enumerate n zs) = map g [n..<n + length zs]"
  by (induction zs arbitrary: n) (auto simp: upt_rec)

lemma codeUnitCompare_eq: "(codeUnitCompare a b = 0) = (a = b)"
  by (induction a b rule: codeUnitCompare.induct) (auto simp: charCode_def)

lemma codeUnitCompare_flip: "(codeUnitCompare a b < 0) = (0 < codeUnitCompare b a)"
  by (induction a b rule: codeUnitCompare.induct) (auto simp: charCode_def)

lemma codeUnitCompare_trans:
  "codeUnitCompare a b \<le> 0 \<Longrightarrow> codeUnitCompare b c \<le> 0 \<Longrightarrow> codeUnitCompare a c \<le> 0"
proof (induction a arbitrary: b c)
  case Nil
  then show ?case by (cases c) auto
next
  case (Cons x xs)
  then obtain y ys where b: "b = y # ys" by (cases b) auto
  with Cons.prems obtain z zs where c: "c = z # zs" by (cases c) auto
  show ?case
    using Cons.prems Cons.IH [of ys zs] unfolding b c
    by (auto split: if_splits)
qed

lemma collation_codeUnitCompare: "collation codeUnitCompare"
  unfolding collation_def
  using codeUnitCompare_flip codeUnitCompare_trans by blast

lemma codeUnitCompare_antisym:
  "codeUnitCompare a b \<le> 0 \<Longrightarrow> codeUnitCompare b a \<le> 0 \<Longrightarrow> a = b"
  using codeUnitCompare_eq [of a b] codeUnitCompare_flip [of a b] by auto

lemma canonicalCompare_le:
  "canonicalCompare a b \<le> 0 \<longleftrightarrow>
     codeUnitCompare (toLowerCase (canonicalDecomposition a)) (toLowerCase (canonicalDecomposition b)) < 0
     \<or> (toLowerCase (canonicalDecomposition a) = toLowerCase (canonicalDecomposition b)
         \<and> codeUnitCompare (canonicalDecomposition b) (canonicalDecomposition a) \<le> 0)"
  unfolding canonicalCompare_def Let_def
  using codeUnitCompare_eq
    [of "toLowerCase (canonicalDecomposition a)" "toLowerCase (canonicalDecomposition b)"]
  by auto

lemma canonicalCompare_less:
  "canonicalCompare a b < 0 \<longleftrightarrow>
     codeUnitCompare (toLowerCase (canonicalDecomposition a)) (toLowerCase (canonicalDecomposition b)) < 0
     \<or> (toLowerCase (canonicalDecomposition a) = toLowerCase (canonicalDecomposition b)
         \<and> codeUnitCompare (canonicalDecomposition b) (canonicalDecomposition a) < 0)"
  unfolding canonicalCompare_def Let_def
  using codeUnitCompare_eq
    [of "toLowerCase (canonicalDecomposition a)" "toLowerCase (canonicalDecomposition b)"]
  by auto

lemma canonicalCompare_greater:
  "0 < canonicalCompare b a \<longleftrightarrow>
     0 < codeUnitCompare (toLowerCase (canonicalDecomposition b)) (toLowerCase (canonicalDecomposition a))
     \<or> (toLowerCase (canonicalDecomposition a) = toLowerCase (canonicalDecomposition b)
         \<and> 0 < codeUnitCompare (canonicalDecomposition a) (canonicalDecomposition b))"
  unfolding canonicalCompare_def Let_def
  using codeUnitCompare_eq
    [of "toLowerCase (canonicalDecomposition b)" "toLowerCase (canonicalDecomposition a)"]
  by auto

lemma collation_canonicalCompare: "collation canonicalCompare"
  unfolding collation_def
proof (intro conjI allI impI)
  fix a b
  show "(canonicalCompare a b < 0) = (0 < canonicalCompare b a)"
    unfolding canonicalCompare_less canonicalCompare_greater
    by (simp add: codeUnitCompare_flip)
next
  fix a b c
  let ?f = "\<lambda>s. toLowerCase (canonicalDecomposition s)"
  let ?g = canonicalDecomposition
  assume h: "canonicalCompare a b \<le> 0 \<and> canonicalCompare b c \<le> 0"
  then have ab: "codeUnitCompare (?f a) (?f b) < 0
      \<or> (?f a = ?f b \<and> codeUnitCompare (?g b) (?g a) \<le> 0)"
    and bc: "codeUnitCompare (?f b) (?f c) < 0
      \<or> (?f b = ?f c \<and> codeUnitCompare (?g c) (?g b) \<le> 0)"
    by (simp_all add: canonicalCompare_le)
  have lt: "codeUnitCompare x z < 0"
    if "codeUnitCompare x y \<le> 0" "codeUnitCompare y z \<le> 0" "x \<noteq> y \<or> y \<noteq> z" for x y z
  proof -
    have le: "codeUnitCompare x z \<le> 0" using that(1,2) by (rule codeUnitCompare_trans)
    have "x \<noteq> z"
    proof
      assume "x = z"
      with that(1,2) have "x = y" using codeUnitCompare_antisym by blast
      with \<open>x = z\<close> that(3) show False by simp
    qed
    with le show ?thesis using codeUnitCompare_eq [of x z] by simp
  qed
  from ab bc show "canonicalCompare a c \<le> 0"
  proof (elim disjE conjE)
    assume 1: "codeUnitCompare (?f a) (?f b) < 0" and 2: "codeUnitCompare (?f b) (?f c) < 0"
    have "?f a \<noteq> ?f b" using 1 codeUnitCompare_eq [of "?f a" "?f b"] by auto
    then have "codeUnitCompare (?f a) (?f c) < 0" using lt [of "?f a" "?f b" "?f c"] 1 2 by simp
    then show ?thesis by (simp add: canonicalCompare_le)
  next
    assume 1: "codeUnitCompare (?f a) (?f b) < 0" and 2: "?f b = ?f c"
    then show ?thesis by (simp add: canonicalCompare_le)
  next
    assume 1: "?f a = ?f b" and 2: "codeUnitCompare (?f b) (?f c) < 0"
    then show ?thesis by (simp add: canonicalCompare_le)
  next
    assume 1: "?f a = ?f b" and 2: "codeUnitCompare (?g b) (?g a) \<le> 0"
      and 3: "?f b = ?f c" and 4: "codeUnitCompare (?g c) (?g b) \<le> 0"
    have "codeUnitCompare (?g c) (?g a) \<le> 0" using 4 2 by (rule codeUnitCompare_trans)
    with 1 3 show ?thesis by (simp add: canonicalCompare_le)
  qed
qed

section \<open>The scores and the ranking\<close>

lemma Array_map_throwing_Inr:
  "map f xs = map Inr ys \<Longrightarrow> Array_map_throwing f xs = Inr ys"
  by (induction xs arbitrary: ys) auto

lemma scoreSubtitleCandidate_returns:
  assumes "map_of Object_prototype (providerId c) = None"
  shows "\<exists>s. scoreSubtitleCandidate lc req c = Inr s"
  using assms
  by (simp add: scoreSubtitleCandidate_def Let_def split_def split: option.splits)

lemma scores_return:
  assumes "\<forall>c\<in>set cs. map_of Object_prototype (providerId c) = None"
  shows "\<exists>scored. map (scoreSubtitleCandidate lc req) cs = map Inr scored"
  using assms
proof (induction cs)
  case Nil
  then show ?case by simp
next
  case (Cons c cs)
  then obtain scored where 1: "map (scoreSubtitleCandidate lc req) cs = map Inr scored" by auto
  obtain s where 2: "scoreSubtitleCandidate lc req c = Inr s"
    using scoreSubtitleCandidate_returns [of c lc req] Cons.prems by auto
  from 1 2 have "map (scoreSubtitleCandidate lc req) (c # cs) = map Inr (s # scored)" by simp
  then show ?case by blast
qed

lemma withoutRank_withRank: "withoutRank (withRank item r) = item"
  by (simp add: withoutRank_def withRank_def)

lemma rank_returns:
  assumes "map (scoreSubtitleCandidate lc req) cs = map Inr scored"
  shows "rankSubtitleCandidates lc req cs limit
       = Inr (map (\<lambda>p. withRank (snd p) (fst p + 1))
               (enumerate 0 (slice0 (Array_sort (compareScored lc) scored)
                  (case limit of None \<Rightarrow> int (length cs) | Some l \<Rightarrow> l))))"
  using Array_map_throwing_Inr [OF assms]
  by (simp add: rankSubtitleCandidates_def Let_def split_def)

section \<open>Ranking and the order of the candidates\<close>

lemma compare_x: "canonicalCompare ''x'' ''x'' = 0"
  by code_simp

lemma compare_case:
  "canonicalCompare ''subhd:xa'' ''subhd:Xb'' = - 1" "canonicalCompare ''subhd:Xb'' ''subhd:xa'' = 1"
  by code_simp+

lemma compare_equivalent:
  "canonicalCompare precomposed decomposed = 0" "canonicalCompare decomposed precomposed = 0"
  by code_simp+

lemmas rank_unfold =
  rankSubtitleCandidates_def scoreSubtitleCandidate_def noRequest_def cand_def
  Let_def findIndex_def PROVIDER_PRIORITY_BOOST_def Object_prototype_def roundScore_def
  toFixedUnits_def Array_sort_def compareScored_def slice0_def enumerate_eq_zip withRank_def
  rankedIds_def

text \<open>
  C1.  The claim is that ranking a list of candidates and ranking a permutation of it give
  the same ids, scores and ranks.  The comparator of the sort decides the last ties with
  \<open>localeCompare\<close> on the ids, and \<open>localeCompare\<close> gives 0 for canonically equivalent ids that
  differ; the sort is stable, so two such candidates with the same score, download count
  and provider come out in the order in which they went in.  Here the two ids are \<open>caf\<close>
  with the precomposed letter U+00E9 and \<open>cafe\<close> with the combining accent U+0301: the list
  and its reversal give the ids in two orders.
\<close>

theorem rank_of_equivalent_ids:
  "canonicalCompare precomposed decomposed = 0
   \<and> precomposed \<noteq> decomposed
   \<and> rankedIds (rankSubtitleCandidates canonicalCompare noRequest
       [cand precomposed ''x'' 0, cand decomposed ''x'' 0] (Some 2))
     = Inr [precomposed, decomposed]
   \<and> rankedIds (rankSubtitleCandidates canonicalCompare noRequest
       [cand decomposed ''x'' 0, cand precomposed ''x'' 0] (Some 2))
     = Inr [decomposed, precomposed]"
proof -
  have 0: "precomposed \<noteq> decomposed" by code_simp
  have 1: "rankedIds (rankSubtitleCandidates canonicalCompare noRequest
       [cand precomposed ''x'' 0, cand decomposed ''x'' 0] (Some 2))
     = Inr [precomposed, decomposed]"
    by (simp add: rank_unfold compare_x compare_equivalent)
  have 2: "rankedIds (rankSubtitleCandidates canonicalCompare noRequest
       [cand decomposed ''x'' 0, cand precomposed ''x'' 0] (Some 2))
     = Inr [decomposed, precomposed]"
    by (simp add: rank_unfold compare_x compare_equivalent)
  from compare_equivalent(1) 0 1 2 show ?thesis by (intro conjI)
qed

section \<open>The order of the ranked output\<close>

lemma rank_returned_items:
  "map withoutRank (map (\<lambda>p. withRank (snd p) (fst p + 1)) (enumerate 0 zs)) = zs"
proof -
  have "map withoutRank (map (\<lambda>p. withRank (snd p) (fst p + 1)) (enumerate 0 zs))
      = map (\<lambda>p. id (snd p)) (enumerate 0 zs)"
    by (simp add: withoutRank_withRank o_def)
  then show ?thesis by (simp only: map_enumerate_snd list.map_id)
qed

lemma rank_returned_ranks:
  "map rank (map (\<lambda>p. withRank (snd p) (fst p + 1)) (enumerate 0 zs))
   = [1..<Suc (length (map (\<lambda>p. withRank (snd p) (fst p + 1)) (enumerate 0 zs)))]"
proof -
  have "map rank (map (\<lambda>p. withRank (snd p) (fst p + 1)) (enumerate 0 zs))
      = map (\<lambda>p. Suc (fst p)) (enumerate 0 zs)"
    by (simp add: withRank_def o_def)
  also have "\<dots> = map Suc [0..<0 + length zs]" by (rule map_enumerate_fst)
  also have "\<dots> = [1..<Suc (length zs)]" by (simp add: map_Suc_upt del: upt_Suc)
  finally show ?thesis by simp
qed

text \<open>
  C5, as the code has it.  When no provider id of a candidate is a key of \<open>Object.prototype\<close>,
  every candidate is scored and the ranking returns.  The ranked output is the scored
  candidates put in the order \<open>specOrder\<close>: score descending, then download count descending,
  then provider id ascending in the comparison \<open>localeCompare\<close> of the host, then candidate id
  ascending in that comparison.  The ordered list is cut by \<open>slice(0, limit)\<close>, which for a
  limit that is not negative keeps the first \<open>limit\<close> items, and the items that are kept get
  the ranks 1, 2, 3, ...
\<close>

theorem rank_order:
  assumes c: "collation lc"
    and own: "\<forall>c\<in>set cs. map_of Object_prototype (providerId c) = None"
  shows "\<exists>scored ordered ranked.
           map (scoreSubtitleCandidate lc req) cs = map Inr scored
         \<and> rankSubtitleCandidates lc req cs limit = Inr ranked
         \<and> mset ordered = mset scored
         \<and> sorted_wrt (specOrder lc) ordered
         \<and> map withoutRank ranked
             = slice0 ordered (case limit of None \<Rightarrow> int (length cs) | Some l \<Rightarrow> l)
         \<and> (\<forall>l. 0 \<le> l \<longrightarrow> slice0 ordered l = take (nat l) ordered)
         \<and> map rank ranked = [1..<Suc (length ranked)]"
proof -
  obtain scored where s: "map (scoreSubtitleCandidate lc req) cs = map Inr scored"
    using scores_return [OF own] by blast
  let ?ordered = "Array_sort (compareScored lc) scored"
  let ?zs = "slice0 ?ordered (case limit of None \<Rightarrow> int (length cs) | Some l \<Rightarrow> l)"
  let ?ranked = "map (\<lambda>p. withRank (snd p) (fst p + 1)) (enumerate 0 ?zs)"
  have r: "rankSubtitleCandidates lc req cs limit = Inr ?ranked"
    using s by (rule rank_returns)
  have 1: "mset ?ordered = mset scored" by (rule mset_Array_sort)
  have 2: "sorted_wrt (specOrder lc) ?ordered" using c by (rule sorted_scored)
  have 3: "map withoutRank ?ranked = ?zs" by (rule rank_returned_items)
  have 4: "\<forall>l. 0 \<le> l \<longrightarrow> slice0 ?ordered l = take (nat l) ?ordered"
    by (auto simp: slice0_def Let_def min_def)
  have 5: "map rank ?ranked = [1..<Suc (length ?ranked)]" by (rule rank_returned_ranks)
  from s r 1 2 3 4 5 show ?thesis by blast
qed

text \<open>
  Three candidates with a comparison that looks at the case of the letters last: the
  candidate with the higher download count comes first, and of the two others the id
  \<open>subhd:xa\<close> stands before \<open>subhd:Xb\<close>, which the limit 2 cuts off.
\<close>

theorem rank_order_witness:
  "collation canonicalCompare
   \<and> (\<exists>scored ordered ranked.
           map (scoreSubtitleCandidate canonicalCompare noRequest)
               [cand ''subhd:Xb'' ''x'' 0, cand ''b'' ''x'' 9, cand ''subhd:xa'' ''x'' 0]
             = map Inr scored
         \<and> rankSubtitleCandidates canonicalCompare noRequest
               [cand ''subhd:Xb'' ''x'' 0, cand ''b'' ''x'' 9, cand ''subhd:xa'' ''x'' 0] (Some 2)
             = Inr ranked
         \<and> mset ordered = mset scored
         \<and> sorted_wrt (specOrder canonicalCompare) ordered
         \<and> map withoutRank ranked = slice0 ordered 2
         \<and> (\<forall>l. 0 \<le> l \<longrightarrow> slice0 ordered l = take (nat l) ordered)
         \<and> map rank ranked = [1..<Suc (length ranked)])
   \<and> rankedIds (rankSubtitleCandidates canonicalCompare noRequest
               [cand ''subhd:Xb'' ''x'' 0, cand ''b'' ''x'' 9, cand ''subhd:xa'' ''x'' 0] (Some 2))
       = Inr [''b'', ''subhd:xa'']"
proof -
  have own: "\<forall>c\<in>set [cand ''subhd:Xb'' ''x'' 0, cand ''b'' ''x'' 9, cand ''subhd:xa'' ''x'' 0].
               map_of Object_prototype (providerId c) = None"
    by (simp add: cand_def Object_prototype_def)
  have ev: "rankedIds (rankSubtitleCandidates canonicalCompare noRequest
               [cand ''subhd:Xb'' ''x'' 0, cand ''b'' ''x'' 9, cand ''subhd:xa'' ''x'' 0] (Some 2))
       = Inr [''b'', ''subhd:xa'']"
    by (simp add: rank_unfold compare_x compare_case)
  show ?thesis
    using rank_order [OF collation_canonicalCompare own, of noRequest "Some 2"]
      collation_canonicalCompare ev
    by simp
qed

text \<open>
  The claim as it is stated fails: the ids are put in the order of \<open>localeCompare\<close>, which is
  not the lexicographic order of the strings.  With equal scores, download counts and
  providers, \<open>subhd:xa\<close> is ranked before \<open>subhd:Xb\<close>, and in the lexicographic order
  \<open>subhd:Xb\<close> is the earlier string.
\<close>

theorem rank_collation_counterexample:
  "rankedIds (rankSubtitleCandidates canonicalCompare noRequest
       [cand ''subhd:Xb'' ''x'' 0, cand ''subhd:xa'' ''x'' 0] None)
     = Inr [''subhd:xa'', ''subhd:Xb'']
   \<and> codeUnitCompare ''subhd:Xb'' ''subhd:xa'' < 0"
proof -
  have 1: "rankedIds (rankSubtitleCandidates canonicalCompare noRequest
       [cand ''subhd:Xb'' ''x'' 0, cand ''subhd:xa'' ''x'' 0] None)
     = Inr [''subhd:xa'', ''subhd:Xb'']"
    by (simp add: rank_unfold compare_x compare_case)
  have 2: "codeUnitCompare ''subhd:Xb'' ''subhd:xa'' < 0"
    by code_simp
  from 1 2 show ?thesis by (rule conjI)
qed

section \<open>The fingerprint and the order of the languages\<close>

text \<open>
  C6.  The claim is that the fingerprint of a request does not depend on the order of the
  languages.  The codes are put in order with \<open>localeCompare\<close>, which gives 0 for canonically
  equivalent codes that differ, and the sort is stable: the two codes of the example are
  joined in the order in which they were given.  And the table of the aliases is a plain
  object: for the code \<open>constructor\<close> it answers with a function, which the sort compares as
  a string when it comes first and of which it calls \<open>localeCompare\<close> when it comes second.
\<close>

theorem fingerprint_of_equivalent_codes:
  "canonicalCompare precomposed decomposed = 0
   \<and> precomposed \<noteq> decomposed
   \<and> fingerprintOf (normalizeSubtitleRequest canonicalCompare (matrixInput [precomposed, decomposed]))
       = Inr (''the matrix|1999|||'' @ precomposed @ '','' @ decomposed)
   \<and> fingerprintOf (normalizeSubtitleRequest canonicalCompare (matrixInput [decomposed, precomposed]))
       = Inr (''the matrix|1999|||'' @ decomposed @ '','' @ precomposed)
   \<and> fingerprintOf (normalizeSubtitleRequest canonicalCompare (matrixInput [''constructor'', ''en'']))
       = Inr ''the matrix|1999|||en,function Object() { [native code] }''
   \<and> fingerprintOf (normalizeSubtitleRequest canonicalCompare (matrixInput [''en'', ''constructor'']))
       = Inl (NativeError ''TypeError'' ''a.localeCompare is not a function'')"
  by code_simp

section \<open>Retries and classification of the upstream client\<close>

lemma fetchWithTimeout_log:
  assumes "fetchWithTimeout c fetchImpl jar w url options = (r, w1)"
  shows "\<exists>call. fetchLog w1 = fetchLog w @ [(call, r)] \<and> sleepLog w1 = sleepLog w
           \<and> r = fst (fetchImpl (fetchState w) call)"
  using assms
  by (auto simp: fetchWithTimeout_def callFetch_def Let_def split: prod.splits)

lemma retryable_not_ok: "status response \<in> set RETRYABLE_STATUS \<Longrightarrow> \<not> ok response"
  by (auto simp: RETRYABLE_STATUS_def ok_def)

lemma mapFetchError_native_code:
  "code (mapFetchError (NativeError name msg) pid url t) = E_UPSTREAM_NETWORK
   \<or> code (mapFetchError (NativeError name msg) pid url t) = E_UPSTREAM_TIMEOUT"
  by (simp add: mapFetchError_def)

lemma mapFetchError_classified:
  "mapFetchError (AppError (classifyResponseError pid url st snippet)) pid' url' t
   = classifyResponseError pid url st snippet"
  by (simp add: mapFetchError_def)

lemma code_classifyResponseError [simp]:
  "code (classifyResponseError pid url st snippet) = E_UPSTREAM_BAD_RESPONSE"
  by (simp add: classifyResponseError_def Let_def)

lemma requestLoop_exhausts:
  assumes all: "\<forall>t call. retriable (fst (fetchImpl t call))"
  shows "attempt + n = UpstreamClient.retries c \<Longrightarrow>
         \<exists>e jar' w'. requestLoop c fetchImpl url options attempt jar w = (Inl (AppError e), jar', w')
           \<and> length (fetchLog w') = length (fetchLog w) + n + 1
           \<and> length (sleepLog w') = length (sleepLog w) + n
           \<and> e = errorOfAttempt c url (snd (last (fetchLog w')))"
proof (induction n arbitrary: attempt jar w)
  case 0
  obtain r w1 where f: "fetchWithTimeout c fetchImpl jar w url options = (r, w1)"
    by (cases "fetchWithTimeout c fetchImpl jar w url options")
  from fetchWithTimeout_log [OF f] obtain call where
    lg: "fetchLog w1 = fetchLog w @ [(call, r)]" "sleepLog w1 = sleepLog w"
    and r: "r = fst (fetchImpl (fetchState w) call)" by blast
  have ret: "retriable r" using all r by simp
  show ?case
  proof (cases r)
    case (Resolves response)
    with ret have "status response \<in> set RETRYABLE_STATUS"
      by (simp add: retriable_def RETRYABLE_STATUS_def)
    then have nok: "\<not> ok response" by (rule retryable_not_ok)
    show ?thesis
      using 0 f Resolves nok lg
      by (subst requestLoop.simps)
         (simp add: Let_def mapFetchError_classified errorOfAttempt_def)
  next
    case (Rejects e)
    show ?thesis
      using 0 f Rejects lg
      by (subst requestLoop.simps) (simp add: Let_def errorOfAttempt_def)
  qed
next
  case (Suc n)
  obtain r w1 where f: "fetchWithTimeout c fetchImpl jar w url options = (r, w1)"
    by (cases "fetchWithTimeout c fetchImpl jar w url options")
  from fetchWithTimeout_log [OF f] obtain call where
    lg: "fetchLog w1 = fetchLog w @ [(call, r)]" "sleepLog w1 = sleepLog w"
    and r: "r = fst (fetchImpl (fetchState w) call)" by blast
  have ret: "retriable r" using all r by simp
  have att: "Suc attempt + n = UpstreamClient.retries c" using Suc.prems by simp
  let ?w2 = "sleep w1 (computeBackoff (UpstreamClient.backoffMs c) (UpstreamClient.maxBackoffMs c) (attempt + 1))"
  have lg2: "length (fetchLog ?w2) = length (fetchLog w) + 1"
      "length (sleepLog ?w2) = length (sleepLog w) + 1"
    using lg by (simp_all add: sleep_def)
  show ?case
  proof (cases r)
    case (Resolves response)
    with ret have st: "status response \<in> set RETRYABLE_STATUS"
      by (simp add: retriable_def RETRYABLE_STATUS_def)
    then have nok: "\<not> ok response" by (rule retryable_not_ok)
    let ?jar1 = "mergeResponseCookies c jar url (setCookies response)"
    from Suc.IH [OF att, of ?jar1 ?w2] obtain e jar' w' where
      ih: "requestLoop c fetchImpl url options (Suc attempt) ?jar1 ?w2 = (Inl (AppError e), jar', w')"
        "length (fetchLog w') = length (fetchLog ?w2) + n + 1"
        "length (sleepLog w') = length (sleepLog ?w2) + n"
        "e = errorOfAttempt c url (snd (last (fetchLog w')))" by blast
    have "requestLoop c fetchImpl url options attempt jar w = (Inl (AppError e), jar', w')"
      using Suc.prems f Resolves nok st ih(1)
      by (subst requestLoop.simps) (simp add: Let_def)
    with ih lg2 show ?thesis by simp
  next
    case (Rejects e0)
    from ret Rejects obtain name msg where e0: "e0 = NativeError name msg"
      by (cases e0) (auto simp: retriable_def)
    from Suc.IH [OF att, of jar ?w2] obtain e jar' w' where
      ih: "requestLoop c fetchImpl url options (Suc attempt) jar ?w2 = (Inl (AppError e), jar', w')"
        "length (fetchLog w') = length (fetchLog ?w2) + n + 1"
        "length (sleepLog w') = length (sleepLog ?w2) + n"
        "e = errorOfAttempt c url (snd (last (fetchLog w')))" by blast
    have "requestLoop c fetchImpl url options attempt jar w = (Inl (AppError e), jar', w')"
      using Suc.prems f Rejects e0 ih(1) mapFetchError_native_code [of name msg]
      by (subst requestLoop.simps) (auto simp add: Let_def)
    with ih lg2 show ?thesis by simp
  qed
qed

lemma requestLoop_no_retry:
  assumes f: "fetchWithTimeout c fetchImpl jar w url options = (Resolves response, w1)"
    and nok: "\<not> ok response" and nr: "status response \<notin> set RETRYABLE_STATUS"
    and att: "attempt \<le> UpstreamClient.retries c"
  shows "requestLoop c fetchImpl url options attempt jar w
       = (Inl (AppError (classifyResponseError (UpstreamClient.providerId c) url (status response)
                           (readSnippet response))),
          mergeResponseCookies c jar url (setCookies response), w1)"
  using assms
  by (subst requestLoop.simps) (simp add: Let_def mapFetchError_classified)

lemma startsWith_iff: "startsWith s p \<longleftrightarrow> (\<exists>post. s = p @ post)"
  by (induction s p rule: startsWith.induct) auto

lemma includesStr_iff: "includesStr s needle \<longleftrightarrow> (\<exists>pre post. s = pre @ needle @ post)"
proof (induction s)
  case Nil
  then show ?case by auto
next
  case (Cons c cs)
  show ?case
  proof
    assume "includesStr (c # cs) needle"
    then consider "startsWith (c # cs) needle" | "includesStr cs needle" by auto
    then show "\<exists>pre post. c # cs = pre @ needle @ post"
    proof cases
      case 1
      then obtain post where "c # cs = needle @ post" by (auto simp: startsWith_iff)
      then have "c # cs = [] @ needle @ post" by simp
      then show ?thesis by blast
    next
      case 2
      with Cons obtain pre post where "cs = pre @ needle @ post" by blast
      then have "c # cs = (c # pre) @ needle @ post" by simp
      then show ?thesis by blast
    qed
  next
    assume "\<exists>pre post. c # cs = pre @ needle @ post"
    then obtain pre post where e: "c # cs = pre @ needle @ post" by blast
    show "includesStr (c # cs) needle"
    proof (cases pre)
      case Nil
      with e have "startsWith (c # cs) needle" by (auto simp: startsWith_iff)
      then show ?thesis by simp
    next
      case (Cons d ds)
      with e have "cs = ds @ needle @ post" by simp
      with Cons.IH show ?thesis by auto
    qed
  qed
qed

lemma looksLikeAntiBotChallenge_iff:
  "looksLikeAntiBotChallenge t \<longleftrightarrow>
     (\<exists>needle\<in>set antiBotSignatures. \<exists>pre post. toLowerCase t = pre @ needle @ post)"
  by (simp add: looksLikeAntiBotChallenge_def Let_def list_ex_iff includesStr_iff)

lemma testClient_constructed:
  "new_UpstreamClient simpleURL (testOptions 2) = Inr (testClient 2)"
  "new_UpstreamClient simpleURL (testOptions 0) = Inr (testClient 0)"
  by code_simp+

text \<open>
  C3.  For a client with retry count \<open>r\<close>: when every attempt of the transport fails with a
  network error, a timeout or a status of the retriable set, \<open>request\<close> calls the transport
  \<open>r + 1\<close> times, sleeps \<open>r\<close> times and raises the error made of the last outcome; when the
  transport answers the first call with a status that is neither a success nor of the
  retriable set, \<open>request\<close> calls the transport once, does not sleep and raises the
  classified error of that response.  The instance has \<open>r = 2\<close> and three calls.
\<close>

theorem request_attempts:
  assumes url: "resolveUrl newURL (UpstreamClient.baseUrl c) (pathOrUrl options) = Some url"
  shows "((\<forall>t call. retriable (fst (fetchImpl t call))) \<longrightarrow>
          (\<exists>e jar' w'. request newURL c fetchImpl options jar w = (Inl (AppError e), jar', w')
             \<and> length (fetchLog w') = length (fetchLog w) + (UpstreamClient.retries c + 1)
             \<and> length (sleepLog w') = length (sleepLog w) + UpstreamClient.retries c
             \<and> e = errorOfAttempt c url (snd (last (fetchLog w')))))
       \<and> ((\<forall>call. fst (fetchImpl (fetchState w) call) = Resolves response)
            \<and> \<not> ok response \<and> status response \<notin> set RETRYABLE_STATUS \<longrightarrow>
          (\<exists>jar' w'. request newURL c fetchImpl options jar w
               = (Inl (AppError (errorOfAttempt c url (Resolves response))), jar', w')
             \<and> length (fetchLog w') = length (fetchLog w) + 1
             \<and> sleepLog w' = sleepLog w
             \<and> snd (last (fetchLog w')) = Resolves response))"
proof (intro conjI impI)
  assume all: "\<forall>t call. retriable (fst (fetchImpl t call))"
  have "0 + UpstreamClient.retries c = UpstreamClient.retries c" by simp
  from requestLoop_exhausts [OF all this, of url options jar w]
  show "\<exists>e jar' w'. request newURL c fetchImpl options jar w = (Inl (AppError e), jar', w')
             \<and> length (fetchLog w') = length (fetchLog w) + (UpstreamClient.retries c + 1)
             \<and> length (sleepLog w') = length (sleepLog w) + UpstreamClient.retries c
             \<and> e = errorOfAttempt c url (snd (last (fetchLog w')))"
    by (simp add: request_def url)
next
  assume h: "(\<forall>call. fst (fetchImpl (fetchState w) call) = Resolves response)
            \<and> \<not> ok response \<and> status response \<notin> set RETRYABLE_STATUS"
  obtain r w1 where f: "fetchWithTimeout c fetchImpl jar w url options = (r, w1)"
    by (cases "fetchWithTimeout c fetchImpl jar w url options")
  from fetchWithTimeout_log [OF f] obtain call where
    lg: "fetchLog w1 = fetchLog w @ [(call, r)]" "sleepLog w1 = sleepLog w"
    and r: "r = fst (fetchImpl (fetchState w) call)" by blast
  from r h have rr: "r = Resolves response" by simp
  have "requestLoop c fetchImpl url options 0 jar w
       = (Inl (AppError (classifyResponseError (UpstreamClient.providerId c) url (status response)
                           (readSnippet response))),
          mergeResponseCookies c jar url (setCookies response), w1)"
    using f h unfolding rr by (intro requestLoop_no_retry) simp_all
  then show "\<exists>jar' w'. request newURL c fetchImpl options jar w
               = (Inl (AppError (errorOfAttempt c url (Resolves response))), jar', w')
             \<and> length (fetchLog w') = length (fetchLog w) + 1
             \<and> sleepLog w' = sleepLog w
             \<and> snd (last (fetchLog w')) = Resolves response"
    using lg rr by (simp add: request_def url errorOfAttempt_def)
qed

theorem request_attempts_witness:
  "resolveUrl simpleURL (UpstreamClient.baseUrl (testClient 2)) (pathOrUrl (getOptions ''/search/x''))
     = Some searchUrl
   \<and> (\<forall>t call. retriable (fst (always (Resolves (plainResponse 503 ''busy'')) t call)))
   \<and> (\<exists>e jar' w'.
         request simpleURL (testClient 2) (always (Resolves (plainResponse 503 ''busy'')))
           (getOptions ''/search/x'') [] newWorld = (Inl (AppError e), jar', w')
       \<and> length (fetchLog w') = 3 \<and> length (sleepLog w') = 2
       \<and> e = errorOfAttempt (testClient 2) searchUrl (snd (last (fetchLog w'))))
   \<and> (\<forall>call. fst (always (Resolves (plainResponse 404 ''not found'')) (fetchState newWorld) call)
         = Resolves (plainResponse 404 ''not found''))
   \<and> \<not> ok (plainResponse 404 ''not found'')
   \<and> status (plainResponse 404 ''not found'') \<notin> set RETRYABLE_STATUS
   \<and> (\<exists>jar' w'.
         request simpleURL (testClient 2) (always (Resolves (plainResponse 404 ''not found'')))
           (getOptions ''/search/x'') [] newWorld
         = (Inl (AppError (errorOfAttempt (testClient 2) searchUrl
              (Resolves (plainResponse 404 ''not found'')))), jar', w')
       \<and> length (fetchLog w') = 1 \<and> sleepLog w' = [])"
proof -
  have u: "resolveUrl simpleURL (UpstreamClient.baseUrl (testClient 2))
             (pathOrUrl (getOptions ''/search/x'')) = Some searchUrl"
    by code_simp
  have a: "\<forall>t call. retriable (fst (always (Resolves (plainResponse 503 ''busy'')) t call))"
    by (simp add: always_def retriable_def plainResponse_def)
  have b: "\<forall>call. fst (always (Resolves (plainResponse 404 ''not found'')) (fetchState newWorld) call)
         = Resolves (plainResponse 404 ''not found'')"
    by (simp add: always_def)
  have n: "\<not> ok (plainResponse 404 ''not found'')"
    by (simp add: ok_def plainResponse_def)
  have s: "status (plainResponse 404 ''not found'') \<notin> set RETRYABLE_STATUS"
    by (simp add: RETRYABLE_STATUS_def plainResponse_def)
  have r: "UpstreamClient.retries (testClient 2) = 2" by (simp add: testClient_def)
  have w: "fetchLog newWorld = []" "sleepLog newWorld = []" by (simp_all add: newWorld_def)
  have p1: "\<exists>e jar' w'.
         request simpleURL (testClient 2) (always (Resolves (plainResponse 503 ''busy'')))
           (getOptions ''/search/x'') [] newWorld = (Inl (AppError e), jar', w')
       \<and> length (fetchLog w') = length (fetchLog newWorld) + (UpstreamClient.retries (testClient 2) + 1)
       \<and> length (sleepLog w') = length (sleepLog newWorld) + UpstreamClient.retries (testClient 2)
       \<and> e = errorOfAttempt (testClient 2) searchUrl (snd (last (fetchLog w')))"
    using request_attempts [OF u, of "always (Resolves (plainResponse 503 ''busy''))" "[]" newWorld
        "plainResponse 503 ''busy''"] a
    by blast
  have p2: "\<exists>jar' w'.
         request simpleURL (testClient 2) (always (Resolves (plainResponse 404 ''not found'')))
           (getOptions ''/search/x'') [] newWorld
         = (Inl (AppError (errorOfAttempt (testClient 2) searchUrl
              (Resolves (plainResponse 404 ''not found'')))), jar', w')
       \<and> length (fetchLog w') = length (fetchLog newWorld) + 1
       \<and> sleepLog w' = sleepLog newWorld
       \<and> snd (last (fetchLog w')) = Resolves (plainResponse 404 ''not found'')"
    using request_attempts [OF u, of "always (Resolves (plainResponse 404 ''not found''))" "[]" newWorld
        "plainResponse 404 ''not found''"] b n s
    by blast
  from p1 have q1: "\<exists>e jar' w'.
         request simpleURL (testClient 2) (always (Resolves (plainResponse 503 ''busy'')))
           (getOptions ''/search/x'') [] newWorld = (Inl (AppError e), jar', w')
       \<and> length (fetchLog w') = 3 \<and> length (sleepLog w') = 2
       \<and> e = errorOfAttempt (testClient 2) searchUrl (snd (last (fetchLog w')))"
    unfolding r w by (simp only: list.size add_0 one_add_one numeral_plus_numeral semiring_norm)
  from p2 have q2: "\<exists>jar' w'.
         request simpleURL (testClient 2) (always (Resolves (plainResponse 404 ''not found'')))
           (getOptions ''/search/x'') [] newWorld
         = (Inl (AppError (errorOfAttempt (testClient 2) searchUrl
              (Resolves (plainResponse 404 ''not found'')))), jar', w')
       \<and> length (fetchLog w') = 1 \<and> sleepLog w' = []"
    by (auto simp add: w)
  from u a q1 b n s q2 show ?thesis by (intro conjI)
qed

text \<open>
  C2.  The classification of a status and a body snippet takes the first rule that
  applies: status 429 or a snippet that matches the rate limit pattern gives \<open>rate-limit\<close>;
  otherwise status 401 or 403 or a snippet that contains, without regard to case, one of
  the signatures of a challenge gives \<open>anti-bot\<close>; otherwise \<open>bad-response\<close>.  A client with
  no retry that gets status 429 on its only attempt raises an upstream-bad-response error
  whose details have the classification \<open>rate-limit\<close> and the status 429.
\<close>

theorem classification_first_match:
  "classifyResponse st snippet =
     (if st = 429 \<or> rxTest True rateLimitPattern snippet then RateLimit
      else if st = 401 \<or> st = 403
            \<or> (\<exists>needle\<in>set antiBotSignatures. \<exists>pre post. toLowerCase snippet = pre @ needle @ post)
        then AntiBot
      else BadResponse)
   \<and> (UpstreamClient.retries c = 0
        \<and> resolveUrl newURL (UpstreamClient.baseUrl c) (pathOrUrl options) = Some url
        \<and> (\<forall>call. fst (fetchImpl (fetchState w) call) = Resolves response)
        \<and> status response = 429 \<longrightarrow>
      (\<exists>e jar' w'. request newURL c fetchImpl options jar w = (Inl (AppError e), jar', w')
         \<and> length (fetchLog w') = length (fetchLog w) + 1
         \<and> code e = E_UPSTREAM_BAD_RESPONSE
         \<and> detail e ''classification'' = JStr ''rate-limit''
         \<and> detail e ''status'' = JNum 429))"
proof (intro conjI impI)
  show "classifyResponse st snippet =
     (if st = 429 \<or> rxTest True rateLimitPattern snippet then RateLimit
      else if st = 401 \<or> st = 403
            \<or> (\<exists>needle\<in>set antiBotSignatures. \<exists>pre post. toLowerCase snippet = pre @ needle @ post)
        then AntiBot
      else BadResponse)"
    by (auto simp: classifyResponse_def looksLikeAntiBotChallenge_iff)
next
  assume h: "UpstreamClient.retries c = 0
        \<and> resolveUrl newURL (UpstreamClient.baseUrl c) (pathOrUrl options) = Some url
        \<and> (\<forall>call. fst (fetchImpl (fetchState w) call) = Resolves response)
        \<and> status response = 429"
  obtain r w1 where f: "fetchWithTimeout c fetchImpl jar w url options = (r, w1)"
    by (cases "fetchWithTimeout c fetchImpl jar w url options")
  from fetchWithTimeout_log [OF f] obtain call where
    lg: "fetchLog w1 = fetchLog w @ [(call, r)]" "sleepLog w1 = sleepLog w"
    and r: "r = fst (fetchImpl (fetchState w) call)" by blast
  from r h have rr: "r = Resolves response" by simp
  have nok: "\<not> ok response" using h by (simp add: ok_def)
  let ?e = "classifyResponseError (UpstreamClient.providerId c) url (status response) (readSnippet response)"
  have "requestLoop c fetchImpl url options 0 jar w
       = (Inl (AppError ?e), mergeResponseCookies c jar url (setCookies response), w1)"
    using f h nok unfolding rr
    by (subst requestLoop.simps) (simp add: Let_def mapFetchError_classified)
  moreover have "code ?e = E_UPSTREAM_BAD_RESPONSE" by simp
  moreover have "detail ?e ''classification'' = JStr ''rate-limit''"
    using h by (simp add: detail_def classifyResponseError_def classifyResponse_def)
  moreover have "detail ?e ''status'' = JNum 429"
    using h by (simp add: detail_def classifyResponseError_def)
  ultimately show "\<exists>e jar' w'. request newURL c fetchImpl options jar w = (Inl (AppError e), jar', w')
         \<and> length (fetchLog w') = length (fetchLog w) + 1
         \<and> code e = E_UPSTREAM_BAD_RESPONSE
         \<and> detail e ''classification'' = JStr ''rate-limit''
         \<and> detail e ''status'' = JNum 429"
    using lg h by (simp add: request_def)
qed

theorem classification_first_match_witness:
  "UpstreamClient.retries (testClient 0) = 0
   \<and> resolveUrl simpleURL (UpstreamClient.baseUrl (testClient 0)) (pathOrUrl (getOptions ''/search/x''))
       = Some searchUrl
   \<and> (\<forall>call. fst (always (Resolves (plainResponse 429 ''too many requests'')) (fetchState newWorld) call)
         = Resolves (plainResponse 429 ''too many requests''))
   \<and> status (plainResponse 429 ''too many requests'') = 429
   \<and> (\<exists>e jar' w'.
         request simpleURL (testClient 0) (always (Resolves (plainResponse 429 ''too many requests'')))
           (getOptions ''/search/x'') [] newWorld = (Inl (AppError e), jar', w')
       \<and> length (fetchLog w') = 1
       \<and> code e = E_UPSTREAM_BAD_RESPONSE
       \<and> detail e ''classification'' = JStr ''rate-limit''
       \<and> detail e ''status'' = JNum 429)
   \<and> classifyResponse 503 ''Rate  Limit reached'' = RateLimit
   \<and> classifyResponse 403 ''Rate  Limit reached'' = RateLimit
   \<and> classifyResponse 503 ''<title>Attention Required! | Cloudflare</title>'' = AntiBot
   \<and> classifyResponse 401 ''denied'' = AntiBot
   \<and> classifyResponse 500 ''Internal Server Error'' = BadResponse"
proof -
  have r: "UpstreamClient.retries (testClient 0) = 0" by (simp add: testClient_def)
  have u: "resolveUrl simpleURL (UpstreamClient.baseUrl (testClient 0))
             (pathOrUrl (getOptions ''/search/x'')) = Some searchUrl"
    by code_simp
  have b: "\<forall>call. fst (always (Resolves (plainResponse 429 ''too many requests'')) (fetchState newWorld) call)
         = Resolves (plainResponse 429 ''too many requests'')"
    by (simp add: always_def)
  have s: "status (plainResponse 429 ''too many requests'') = 429"
    by (simp add: plainResponse_def)
  have w: "fetchLog newWorld = []" by (simp add: newWorld_def)
  have c1: "classifyResponse 503 ''Rate  Limit reached'' = RateLimit" by code_simp
  have c2: "classifyResponse 403 ''Rate  Limit reached'' = RateLimit" by code_simp
  have c3: "classifyResponse 503 ''<title>Attention Required! | Cloudflare</title>'' = AntiBot"
    by code_simp
  have c4: "classifyResponse 401 ''denied'' = AntiBot" by code_simp
  have c5: "classifyResponse 500 ''Internal Server Error'' = BadResponse" by code_simp
  have "\<exists>e jar' w'.
         request simpleURL (testClient 0) (always (Resolves (plainResponse 429 ''too many requests'')))
           (getOptions ''/search/x'') [] newWorld = (Inl (AppError e), jar', w')
       \<and> length (fetchLog w') = length (fetchLog newWorld) + 1
       \<and> code e = E_UPSTREAM_BAD_RESPONSE
       \<and> detail e ''classification'' = JStr ''rate-limit''
       \<and> detail e ''status'' = JNum 429"
    using classification_first_match [of 0 "''''" "testClient 0" simpleURL "getOptions ''/search/x''"
        searchUrl "always (Resolves (plainResponse 429 ''too many requests''))" newWorld
        "plainResponse 429 ''too many requests''" "[]"] r u b s
    by blast
  with r u b s c1 c2 c3 c4 c5 show ?thesis by (simp add: w)
qed

section \<open>The cookie jar and the origin of a request\<close>

lemma requestLoop_round:
  "requestLoop c fetchImpl url options attempt jar w =
     (if attempt < UpstreamClient.retries c + 1
      then (case attemptOnce c fetchImpl url options attempt jar w of
              Done res \<Rightarrow> res
            | Again jar1 w1 \<Rightarrow> requestLoop c fetchImpl url options (attempt + 1) jar1 w1)
      else (Inl (AppError
           \<lparr> code = E_UNKNOWN,
             message = UpstreamClient.providerId c @ '' upstream request failed unexpectedly'',
             details = [(''provider'', JStr (UpstreamClient.providerId c)), (''url'', JStr (href url))] \<rparr>),
         jar, w))"
  by (subst requestLoop.simps)
     (auto simp: attemptOnce_def Let_def mapFetchError_classified split: prod.splits FetchResult.splits)

lemma requestLoop_invariant:
  assumes again: "\<And>attempt jar w jar1 w1.
            Inv jar w \<Longrightarrow> attemptOnce c fetchImpl url options attempt jar w = Again jar1 w1
            \<Longrightarrow> Inv jar1 w1"
    and fin: "\<And>attempt jar w res.
            Inv jar w \<Longrightarrow> attemptOnce c fetchImpl url options attempt jar w = Done res
            \<Longrightarrow> Post res"
  shows "UpstreamClient.retries c + 1 - attempt = n \<Longrightarrow> attempt < UpstreamClient.retries c + 1
         \<Longrightarrow> Inv jar w \<Longrightarrow> Post (requestLoop c fetchImpl url options attempt jar w)"
proof (induction n arbitrary: attempt jar w)
  case 0
  then show ?case by simp
next
  case (Suc n)
  show ?case
  proof (cases "attemptOnce c fetchImpl url options attempt jar w")
    case (Done res)
    then have "requestLoop c fetchImpl url options attempt jar w = res"
      using Suc.prems(2) by (subst requestLoop_round) simp
    with fin [OF Suc.prems(3) Done] show ?thesis by simp
  next
    case (Again jar1 w1)
    then have lt: "attempt + 1 < UpstreamClient.retries c + 1"
      by (auto simp: attemptOnce_def Let_def split: prod.splits FetchResult.splits if_splits)
    have eq: "requestLoop c fetchImpl url options attempt jar w
            = requestLoop c fetchImpl url options (attempt + 1) jar1 w1"
      using Suc.prems(2) Again by (subst requestLoop_round) simp
    have "UpstreamClient.retries c + 1 - (attempt + 1) = n" using Suc.prems(1) by simp
    from Suc.IH [OF this lt again [OF Suc.prems(3) Again]] eq show ?thesis by simp
  qed
qed

lemma mergeCookie_pair:
  "mergeCookie jar raw =
     (case cookiePair raw of
        None \<Rightarrow> jar
      | Some (n, v) \<Rightarrow> if v = [] \<or> v = ''deleted'' then AList.delete n jar else AList.update n v jar)"
  by (simp add: mergeCookie_def cookiePair_def Let_def)

lemma fetchWithTimeout_theCall:
  "fetchWithTimeout c fetchImpl jar w url options = callFetch fetchImpl w (theCall c jar url options)"
  by (simp add: fetchWithTimeout_def theCall_def baseHeaders_def Let_def)

lemma callFetch_log:
  "callFetch fetchImpl w call = (r, w1) \<Longrightarrow>
     fetchLog w1 = fetchLog w @ [(call, r)] \<and> r = fst (fetchImpl (fetchState w) call)"
  by (auto simp: callFetch_def split: prod.splits)

lemma fetchLog_sleep [simp]: "fetchLog (sleep w ms) = fetchLog w"
  by (simp add: sleep_def)

lemma in_set_update_other: "(n, v) \<in> set al \<Longrightarrow> n \<noteq> k \<Longrightarrow> (n, v) \<in> set (AList.update k x al)"
  by (induction al) auto

lemma in_set_delete_other: "(n, v) \<in> set al \<Longrightarrow> n \<noteq> k \<Longrightarrow> (n, v) \<in> set (AList.delete k al)"
  by (simp add: AList.delete_eq)

lemma mergeCookie_keeps:
  assumes "(n, v) \<in> set jar" and "\<forall>x. cookiePair raw \<noteq> Some (n, x)"
  shows "(n, v) \<in> set (mergeCookie jar raw)"
  using assms
  by (auto simp: mergeCookie_pair in_set_update_other in_set_delete_other split: option.splits)

lemma foldl_mergeCookie_keeps:
  "(n, v) \<in> set jar \<Longrightarrow> \<forall>raw\<in>set raws. \<forall>x. cookiePair raw \<noteq> Some (n, x)
   \<Longrightarrow> (n, v) \<in> set (foldl mergeCookie jar raws)"
  by (induction raws arbitrary: jar) (auto simp: mergeCookie_keeps)

lemma mergeResponseCookies_keeps:
  assumes "(n, v) \<in> set jar" and "n \<notin> cookieNames hs"
  shows "(n, v) \<in> set (mergeResponseCookies c jar url hs)"
  using assms
  by (auto simp: mergeResponseCookies_def cookieNames_def intro!: foldl_mergeCookie_keeps)

lemma mergeResponseCookies_cross:
  "origin url \<noteq> baseOrigin c \<Longrightarrow> mergeResponseCookies c jar url hs = jar"
  by (simp add: mergeResponseCookies_def)

lemma join_contains: "x \<in> set xs \<Longrightarrow> \<exists>pre post. join sep xs = pre @ x @ post"
proof (induction sep xs rule: join.induct)
  case (1 sep)
  then show ?case by simp
next
  case (2 sep p)
  then have "join sep [p] = [] @ x @ []" by simp
  then show ?case by blast
next
  case (3 sep p q ps)
  show ?case
  proof (cases "x = p")
    case True
    then have "join sep (p # q # ps) = [] @ x @ (sep @ join sep (q # ps))" by simp
    then show ?thesis by blast
  next
    case False
    with 3 obtain pre post where "join sep (q # ps) = pre @ x @ post" by auto
    then have "join sep (p # q # ps) = (p @ sep @ pre) @ x @ post" by simp
    then show ?thesis by blast
  qed
qed

lemma serializeCookies_contains:
  assumes "(n, v) \<in> set jar"
  shows "includesStr (serializeCookies jar) (n @ ''='' @ v)"
proof -
  have "n @ ''='' @ v \<in> set (map (\<lambda>(name, v). name @ ''='' @ v) jar)"
    using assms by force
  then show ?thesis
    unfolding serializeCookies_def includesStr_iff by (rule join_contains)
qed

lemma serializeCookies_nonempty:
  assumes "(n, v) \<in> set jar"
  shows "length (serializeCookies jar) > 0"
proof -
  from serializeCookies_contains [OF assms] obtain pre post where
    "serializeCookies jar = pre @ (n @ ''='' @ v) @ post"
    unfolding includesStr_iff by blast
  then show ?thesis by simp
qed

lemma toLowerCase_cookie [simp]: "toLowerCase ''cookie'' = ''cookie''"
  by code_simp

lemma Headers_get_set_cookie: "Headers_get (Headers_set hs ''cookie'' x) ''cookie'' = Some x"
  by (simp add: Headers_get_def Headers_set_def update_conv')

lemma theCall_same_origin:
  assumes "(n, v) \<in> set jar" and "origin url = baseOrigin c"
  shows "\<exists>hdr. Headers_get (callHeaders (theCall c jar url options)) ''cookie'' = Some hdr
            \<and> includesStr hdr (n @ ''='' @ v)"
  using assms serializeCookies_nonempty [OF assms(1)] serializeCookies_contains [OF assms(1)]
  by (simp add: theCall_def Headers_get_set_cookie)

lemma theCall_cross_origin:
  "origin url \<noteq> baseOrigin c \<Longrightarrow> callHeaders (theCall c jar url options) = baseHeaders c options"
  by (simp add: theCall_def)

lemma attemptOnce_Again:
  assumes "attemptOnce c fetchImpl url options attempt jar w = Again jar1 w1"
  shows "\<exists>r. map fst (fetchLog w1) = map fst (fetchLog w) @ [theCall c jar url options]
           \<and> r = fst (fetchImpl (fetchState w) (theCall c jar url options))
           \<and> (jar1 = jar
               \<or> (\<exists>response. r = Resolves response
                     \<and> jar1 = mergeResponseCookies c jar url (setCookies response)))"
proof -
  obtain r w0 where f: "callFetch fetchImpl w (theCall c jar url options) = (r, w0)"
    by (cases "callFetch fetchImpl w (theCall c jar url options)")
  from callFetch_log [OF f] have
    lg: "map fst (fetchLog w0) = map fst (fetchLog w) @ [theCall c jar url options]"
    and rr: "fst (fetchImpl (fetchState w) (theCall c jar url options)) = r" by simp_all
  have "map fst (fetchLog w1) = map fst (fetchLog w) @ [theCall c jar url options]
      \<and> (jar1 = jar \<or> (\<exists>response. r = Resolves response
                     \<and> jar1 = mergeResponseCookies c jar url (setCookies response)))"
    using assms lg
    by (cases r)
       (auto simp: attemptOnce_def fetchWithTimeout_theCall f Let_def split: if_splits)
  with rr show ?thesis by blast
qed

lemma attemptOnce_Done:
  assumes "attemptOnce c fetchImpl url options attempt jar w = Done (res, jar1, w1)"
  shows "\<exists>r. map fst (fetchLog w1) = map fst (fetchLog w) @ [theCall c jar url options]
           \<and> r = fst (fetchImpl (fetchState w) (theCall c jar url options))
           \<and> (jar1 = jar
               \<or> (\<exists>response. r = Resolves response
                     \<and> jar1 = mergeResponseCookies c jar url (setCookies response)))
           \<and> (\<forall>response. res = Inr response \<longrightarrow>
                 jar1 = mergeResponseCookies c jar url (setCookies response))"
proof -
  obtain r w0 where f: "callFetch fetchImpl w (theCall c jar url options) = (r, w0)"
    by (cases "callFetch fetchImpl w (theCall c jar url options)")
  from callFetch_log [OF f] have
    lg: "map fst (fetchLog w0) = map fst (fetchLog w) @ [theCall c jar url options]"
    and rr: "fst (fetchImpl (fetchState w) (theCall c jar url options)) = r" by simp_all
  have "map fst (fetchLog w1) = map fst (fetchLog w) @ [theCall c jar url options]
      \<and> (jar1 = jar \<or> (\<exists>response. r = Resolves response
                     \<and> jar1 = mergeResponseCookies c jar url (setCookies response)))
      \<and> (\<forall>response. res = Inr response \<longrightarrow>
                 jar1 = mergeResponseCookies c jar url (setCookies response))"
    using assms lg
    by (cases r)
       (auto simp: attemptOnce_def fetchWithTimeout_theCall f Let_def split: if_splits)
  with rr show ?thesis by blast
qed

lemma requestLoop_keeps_cookie:
  assumes same: "origin url = baseOrigin c"
    and quiet: "\<forall>t call response. target call = url \<and> fst (fetchImpl t call) = Resolves response
                  \<longrightarrow> n \<notin> cookieNames (setCookies response)"
    and res: "requestLoop c fetchImpl url options 0 jar w = (res, jar', w')"
    and inj: "(n, v) \<in> set jar"
  shows "(n, v) \<in> set jar'
       \<and> (\<exists>calls. map fst (fetchLog w') = map fst (fetchLog w) @ calls
            \<and> (\<forall>call\<in>set calls. \<exists>hdr. Headers_get (callHeaders call) ''cookie'' = Some hdr
                   \<and> includesStr hdr (n @ ''='' @ v)))"
proof -
  let ?carries = "\<lambda>call. \<exists>hdr. Headers_get (callHeaders call) ''cookie'' = Some hdr
                   \<and> includesStr hdr (n @ ''='' @ v)"
  let ?Inv = "\<lambda>j u. (n, v) \<in> set j
       \<and> (\<exists>calls. map fst (fetchLog u) = map fst (fetchLog w) @ calls \<and> (\<forall>call\<in>set calls. ?carries call))"
  let ?Post = "\<lambda>p. case p of (r, j, u) \<Rightarrow> ?Inv j u"
  have "?Post (requestLoop c fetchImpl url options 0 jar w)"
  proof (rule requestLoop_invariant [where Inv = ?Inv and Post = ?Post and n = "UpstreamClient.retries c + 1"])
    fix attempt j u j1 u1
    assume i: "?Inv j u" and a: "attemptOnce c fetchImpl url options attempt j u = Again j1 u1"
    from attemptOnce_Again [OF a] obtain r where
      lg: "map fst (fetchLog u1) = map fst (fetchLog u) @ [theCall c j url options]"
      and r: "r = fst (fetchImpl (fetchState u) (theCall c j url options))"
      and j1: "j1 = j \<or> (\<exists>response. r = Resolves response
                     \<and> j1 = mergeResponseCookies c j url (setCookies response))" by blast
    from i have inj': "(n, v) \<in> set j" by simp
    have c1: "?carries (theCall c j url options)" using theCall_same_origin [OF inj' same] .
    have tg: "target (theCall c j url options) = url" by (simp add: theCall_def)
    have k: "(n, v) \<in> set j1"
      using j1 inj' quiet r tg mergeResponseCookies_keeps [OF inj', of _ c url] by metis
    from i obtain calls where
      cs: "map fst (fetchLog u) = map fst (fetchLog w) @ calls" "\<forall>call\<in>set calls. ?carries call"
      by blast
    have "map fst (fetchLog u1) = map fst (fetchLog w) @ (calls @ [theCall c j url options])"
      using lg cs by simp
    moreover have "\<forall>call\<in>set (calls @ [theCall c j url options]). ?carries call"
      using cs c1 by auto
    ultimately show "?Inv j1 u1" using k by blast
  next
    fix attempt j u p
    assume i: "?Inv j u" and a: "attemptOnce c fetchImpl url options attempt j u = Done p"
    obtain r0 j1 u1 where p: "p = (r0, j1, u1)" by (cases p)
    from attemptOnce_Done [OF a [unfolded p]] obtain r where
      lg: "map fst (fetchLog u1) = map fst (fetchLog u) @ [theCall c j url options]"
      and r: "r = fst (fetchImpl (fetchState u) (theCall c j url options))"
      and j1: "j1 = j \<or> (\<exists>response. r = Resolves response
                     \<and> j1 = mergeResponseCookies c j url (setCookies response))" by blast
    from i have inj': "(n, v) \<in> set j" by simp
    have c1: "?carries (theCall c j url options)" using theCall_same_origin [OF inj' same] .
    have tg: "target (theCall c j url options) = url" by (simp add: theCall_def)
    have k: "(n, v) \<in> set j1"
      using j1 inj' quiet r tg mergeResponseCookies_keeps [OF inj', of _ c url] by metis
    from i obtain calls where
      cs: "map fst (fetchLog u) = map fst (fetchLog w) @ calls" "\<forall>call\<in>set calls. ?carries call"
      by blast
    have "map fst (fetchLog u1) = map fst (fetchLog w) @ (calls @ [theCall c j url options])"
      using lg cs by simp
    moreover have "\<forall>call\<in>set (calls @ [theCall c j url options]). ?carries call"
      using cs c1 by auto
    ultimately have "?Inv j1 u1" using k by blast
    then show "?Post p" by (simp add: p)
  next
    show "UpstreamClient.retries c + 1 - 0 = UpstreamClient.retries c + 1" by simp
    show "0 < UpstreamClient.retries c + 1" by simp
    show "?Inv jar w" using inj by simp
  qed
  then show ?thesis by (simp add: res)
qed

lemma requestLoop_cross_origin:
  assumes cross: "origin url \<noteq> baseOrigin c"
    and res: "requestLoop c fetchImpl url options 0 jar w = (res, jar', w')"
  shows "jar' = jar
       \<and> (\<exists>calls. map fst (fetchLog w') = map fst (fetchLog w) @ calls
            \<and> (\<forall>call\<in>set calls. callHeaders call = baseHeaders c options))"
proof -
  let ?Inv = "\<lambda>j u. j = jar
       \<and> (\<exists>calls. map fst (fetchLog u) = map fst (fetchLog w) @ calls
            \<and> (\<forall>call\<in>set calls. callHeaders call = baseHeaders c options))"
  let ?Post = "\<lambda>p. case p of (r, j, u) \<Rightarrow> ?Inv j u"
  have "?Post (requestLoop c fetchImpl url options 0 jar w)"
  proof (rule requestLoop_invariant [where Inv = ?Inv and Post = ?Post and n = "UpstreamClient.retries c + 1"])
    fix attempt j u j1 u1
    assume i: "?Inv j u" and a: "attemptOnce c fetchImpl url options attempt j u = Again j1 u1"
    from attemptOnce_Again [OF a] obtain r where
      lg: "map fst (fetchLog u1) = map fst (fetchLog u) @ [theCall c j url options]"
      and j1: "j1 = j \<or> (\<exists>response. r = Resolves response
                     \<and> j1 = mergeResponseCookies c j url (setCookies response))" by blast
    have k: "j1 = jar" using j1 i mergeResponseCookies_cross [OF cross] by auto
    from i obtain calls where
      cs: "map fst (fetchLog u) = map fst (fetchLog w) @ calls"
        "\<forall>call\<in>set calls. callHeaders call = baseHeaders c options"
      by blast
    have "map fst (fetchLog u1) = map fst (fetchLog w) @ (calls @ [theCall c j url options])"
      using lg cs by simp
    moreover have "\<forall>call\<in>set (calls @ [theCall c j url options]). callHeaders call = baseHeaders c options"
      using cs theCall_cross_origin [OF cross] by auto
    ultimately show "?Inv j1 u1" using k by blast
  next
    fix attempt j u p
    assume i: "?Inv j u" and a: "attemptOnce c fetchImpl url options attempt j u = Done p"
    obtain r0 j1 u1 where p: "p = (r0, j1, u1)" by (cases p)
    from attemptOnce_Done [OF a [unfolded p]] obtain r where
      lg: "map fst (fetchLog u1) = map fst (fetchLog u) @ [theCall c j url options]"
      and j1: "j1 = j \<or> (\<exists>response. r = Resolves response
                     \<and> j1 = mergeResponseCookies c j url (setCookies response))" by blast
    have k: "j1 = jar" using j1 i mergeResponseCookies_cross [OF cross] by auto
    from i obtain calls where
      cs: "map fst (fetchLog u) = map fst (fetchLog w) @ calls"
        "\<forall>call\<in>set calls. callHeaders call = baseHeaders c options"
      by blast
    have "map fst (fetchLog u1) = map fst (fetchLog w) @ (calls @ [theCall c j url options])"
      using lg cs by simp
    moreover have "\<forall>call\<in>set (calls @ [theCall c j url options]). callHeaders call = baseHeaders c options"
      using cs theCall_cross_origin [OF cross] by auto
    ultimately have "?Inv j1 u1" using k by blast
    then show "?Post p" by (simp add: p)
  next
    show "UpstreamClient.retries c + 1 - 0 = UpstreamClient.retries c + 1" by simp
    show "0 < UpstreamClient.retries c + 1" by simp
    show "?Inv jar w" by simp
  qed
  then show ?thesis by (simp add: res)
qed

lemma requestLoop_final_merge:
  assumes res: "requestLoop c fetchImpl url options 0 jar w = (Inr response, jar', w')"
  shows "\<exists>j. jar' = mergeResponseCookies c j url (setCookies response)"
proof -
  let ?Post = "\<lambda>p. case p of (r, j1, u) \<Rightarrow>
      (\<forall>response. r = Inr response \<longrightarrow> (\<exists>j. j1 = mergeResponseCookies c j url (setCookies response)))"
  have "?Post (requestLoop c fetchImpl url options 0 jar w)"
  proof (rule requestLoop_invariant [where Inv = "\<lambda>j u. True" and Post = ?Post
        and n = "UpstreamClient.retries c + 1"])
    fix attempt j u p
    assume a: "attemptOnce c fetchImpl url options attempt j u = Done p"
    obtain r0 j1 u1 where p: "p = (r0, j1, u1)" by (cases p)
    from attemptOnce_Done [OF a [unfolded p]]
    show "?Post p" unfolding p by auto
  qed simp_all
  then show ?thesis by (simp add: res)
qed

lemma newCalls_eq:
  "map fst (fetchLog w') = map fst (fetchLog w) @ calls \<Longrightarrow> newCalls w w' = calls"
proof -
  assume a: "map fst (fetchLog w') = map fst (fetchLog w) @ calls"
  have "length (fetchLog w) = length (map fst (fetchLog w))" by simp
  then show ?thesis unfolding newCalls_def a by (metis append_eq_conv_conj)
qed

lemma lastValue_snoc:
  "lastValue n (raws @ [raw]) =
     (case cookiePair raw of
        None \<Rightarrow> lastValue n raws
      | Some (k, v) \<Rightarrow> if k = n then Some v else lastValue n raws)"
  unfolding lastValue_def by (simp split: option.splits)

lemma map_of_mergeCookie:
  "map_of (mergeCookie j raw) n =
     (case cookiePair raw of
        None \<Rightarrow> map_of j n
      | Some (k, v) \<Rightarrow>
          if k = n then (if v = [] \<or> v = ''deleted'' then None else Some v) else map_of j n)"
  by (auto simp: mergeCookie_pair update_conv' delete_conv' split: option.splits)

lemma foldl_mergeCookie_stores:
  "lastValue n raws = Some v \<Longrightarrow> v \<noteq> [] \<Longrightarrow> v \<noteq> ''deleted''
   \<Longrightarrow> map_of (foldl mergeCookie j raws) n = Some v"
proof (induction raws rule: rev_induct)
  case Nil
  then show ?case by (simp add: lastValue_def)
next
  case (snoc raw raws)
  then show ?case
    by (auto simp: lastValue_snoc map_of_mergeCookie split: option.splits if_splits)
qed

lemma mergeResponseCookies_stores:
  assumes "origin url = baseOrigin c"
    and "lastValue n (readSetCookieHeaders hs) = Some v" and "v \<noteq> []" and "v \<noteq> ''deleted''"
  shows "(n, v) \<in> set (mergeResponseCookies c j url hs)"
  using assms foldl_mergeCookie_stores [of n "readSetCookieHeaders hs" v j]
  by (auto simp: mergeResponseCookies_def intro: map_of_SomeD)

text \<open>
  C7, as the code has it.  A request whose target has the base origin carries, in every
  call of the transport, a cookie header with each cookie \<open>name=value\<close> that the jar holds
  at the start of the request, and the jar still holds the cookie after the request, as
  long as no response to the request has a cookie of that name (a later cookie of the name
  replaces the value, and deletes the cookie when its value is empty or \<open>deleted\<close>).  After
  a successful request to the base origin the jar holds the last cookie of each name of the
  response whose value is neither empty nor \<open>deleted\<close>.  A request whose target has another
  origin leaves the jar as it is, and the headers of its calls are those of the caller with
  the user agent: no header is taken from the jar.
\<close>

theorem cookie_jar_scope:
  assumes url: "resolveUrl newURL (UpstreamClient.baseUrl c) (pathOrUrl options) = Some url"
    and res: "request newURL c fetchImpl options jar w = (res, jar', w')"
  shows "(origin url = baseOrigin c \<longrightarrow>
           (\<forall>n v. (n, v) \<in> set jar
                \<and> (\<forall>t call response. target call = url \<and> fst (fetchImpl t call) = Resolves response
                       \<longrightarrow> n \<notin> cookieNames (setCookies response))
              \<longrightarrow> (n, v) \<in> set jar'
                \<and> (\<forall>call\<in>set (newCalls w w').
                      \<exists>hdr. Headers_get (callHeaders call) ''cookie'' = Some hdr
                          \<and> includesStr hdr (n @ ''='' @ v)))
         \<and> (\<forall>response n v. res = Inr response
                \<and> lastValue n (readSetCookieHeaders (setCookies response)) = Some v
                \<and> v \<noteq> [] \<and> v \<noteq> ''deleted''
              \<longrightarrow> (n, v) \<in> set jar'))
       \<and> (origin url \<noteq> baseOrigin c \<longrightarrow>
           jar' = jar \<and> (\<forall>call\<in>set (newCalls w w'). callHeaders call = baseHeaders c options))"
proof -
  have loop: "requestLoop c fetchImpl url options 0 jar w = (res, jar', w')"
    using res by (simp add: request_def url)
  show ?thesis
  proof (intro conjI impI allI)
    fix n v
    assume same: "origin url = baseOrigin c"
      and h: "(n, v) \<in> set jar
                \<and> (\<forall>t call response. target call = url \<and> fst (fetchImpl t call) = Resolves response
                       \<longrightarrow> n \<notin> cookieNames (setCookies response))"
    from h have inj: "(n, v) \<in> set jar"
      and quiet: "\<forall>t call response. target call = url \<and> fst (fetchImpl t call) = Resolves response
                       \<longrightarrow> n \<notin> cookieNames (setCookies response)" by simp_all
    from requestLoop_keeps_cookie [OF same quiet loop inj] obtain calls where
      k: "(n, v) \<in> set jar'"
      and lg: "map fst (fetchLog w') = map fst (fetchLog w) @ calls"
      and cs: "\<forall>call\<in>set calls. \<exists>hdr. Headers_get (callHeaders call) ''cookie'' = Some hdr
                          \<and> includesStr hdr (n @ ''='' @ v)" by blast
    show "(n, v) \<in> set jar'" by (rule k)
    show "\<forall>call\<in>set (newCalls w w').
             \<exists>hdr. Headers_get (callHeaders call) ''cookie'' = Some hdr
                 \<and> includesStr hdr (n @ ''='' @ v)"
      using cs newCalls_eq [OF lg] by simp
  next
    fix response n v
    assume same: "origin url = baseOrigin c"
      and h: "res = Inr response
                \<and> lastValue n (readSetCookieHeaders (setCookies response)) = Some v
                \<and> v \<noteq> [] \<and> v \<noteq> ''deleted''"
    from loop h have "requestLoop c fetchImpl url options 0 jar w = (Inr response, jar', w')"
      by simp
    from requestLoop_final_merge [OF this] obtain j where
      "jar' = mergeResponseCookies c j url (setCookies response)" by blast
    with mergeResponseCookies_stores [OF same, of n "setCookies response" v j] h
    show "(n, v) \<in> set jar'" by simp
  next
    assume cross: "origin url \<noteq> baseOrigin c"
    from requestLoop_cross_origin [OF cross loop] obtain calls where
      j: "jar' = jar"
      and lg: "map fst (fetchLog w') = map fst (fetchLog w) @ calls"
      and cs: "\<forall>call\<in>set calls. callHeaders call = baseHeaders c options" by blast
    show "jar' = jar" by (rule j)
    show "\<forall>call\<in>set (newCalls w w'). callHeaders call = baseHeaders c options"
      using cs newCalls_eq [OF lg] by simp
  qed
qed

theorem cookie_jar_scope_witness:
  "(''tk_mock'', ''abc123'') \<in> set (fst (snd (request simpleURL (testClient 0)
        (gateTransport ''<h5>x</h5>'' (JObj [])) (getOptions ''/down/xD0xeo'') [] (freshWorld ()))))
   \<and> (''tk_mock'', ''abc123'') \<in> set (fst (snd (request simpleURL (testClient 0)
        (gateTransport ''<h5>x</h5>'' (JObj [])) postOptions [(''tk_mock'', ''abc123'')] (freshWorld ()))))
   \<and> map (\<lambda>call. Headers_get (callHeaders call) ''cookie'')
         (newCalls (freshWorld ()) (snd (snd (request simpleURL (testClient 0)
            (gateTransport ''<h5>x</h5>'' (JObj [])) postOptions [(''tk_mock'', ''abc123'')]
            (freshWorld ())))))
       = [Some ''tk_mock=abc123'']
   \<and> fst (snd (request simpleURL (testClient 0) (gateTransport ''<h5>x</h5>'' (JObj []))
        (getOptions ''https://dl.subhd.test/files/The.Matrix.1999.ass'') [(''tk_mock'', ''abc123'')]
        (freshWorld ())))
       = [(''tk_mock'', ''abc123'')]
   \<and> map (\<lambda>call. Headers_get (callHeaders call) ''cookie'')
         (newCalls (freshWorld ()) (snd (snd (request simpleURL (testClient 0)
            (gateTransport ''<h5>x</h5>'' (JObj []))
            (getOptions ''https://dl.subhd.test/files/The.Matrix.1999.ass'')
            [(''tk_mock'', ''abc123'')] (freshWorld ())))))
       = [None]
   \<and> session3 (gateTransport ''<h5>x</h5>'' (JObj [])) () (getOptions ''/down/xD0xeo'') postOptions
         (getOptions ''https://dl.subhd.test/files/The.Matrix.1999.ass'')
       = ([[(''tk_mock'', ''abc123'')], [(''tk_mock'', ''abc123'')], [(''tk_mock'', ''abc123'')]],
          [(''https://subhd.test'', None), (''https://subhd.test'', Some ''tk_mock=abc123''),
           (''https://dl.subhd.test'', None)])"
proof -
  let ?f = "gateTransport ''<h5>x</h5>'' (JObj [])"
  let ?c = "testClient 0"
  let ?J = "[(''tk_mock'', ''abc123'')]"
  let ?R1 = "request simpleURL ?c ?f (getOptions ''/down/xD0xeo'') [] (freshWorld ())"
  let ?R2 = "request simpleURL ?c ?f postOptions ?J (freshWorld ())"
  let ?R3 = "request simpleURL ?c ?f (getOptions ''https://dl.subhd.test/files/The.Matrix.1999.ass'')
               ?J (freshWorld ())"
  have u1: "resolveUrl simpleURL (UpstreamClient.baseUrl ?c) (pathOrUrl (getOptions ''/down/xD0xeo''))
            = Some gateUrl" by code_simp
  have u2: "resolveUrl simpleURL (UpstreamClient.baseUrl ?c) (pathOrUrl postOptions) = Some apiUrl"
    by code_simp
  have u3: "resolveUrl simpleURL (UpstreamClient.baseUrl ?c)
              (pathOrUrl (getOptions ''https://dl.subhd.test/files/The.Matrix.1999.ass''))
            = Some fileUrl" by code_simp
  have r1: "?R1 = (fst ?R1, fst (snd ?R1), snd (snd ?R1))" by simp
  have r2: "?R2 = (fst ?R2, fst (snd ?R2), snd (snd ?R2))" by simp
  have r3: "?R3 = (fst ?R3, fst (snd ?R3), snd (snd ?R3))" by simp
  have o1: "origin gateUrl = baseOrigin ?c" by (simp add: gateUrl_def testClient_def)
  have o2: "origin apiUrl = baseOrigin ?c" by (simp add: apiUrl_def testClient_def)
  have o3: "origin fileUrl \<noteq> baseOrigin ?c" by (simp add: fileUrl_def testClient_def)
  have e1: "fst ?R1 = Inr gateResponse" by code_simp
  have l1: "lastValue ''tk_mock'' (readSetCookieHeaders (setCookies gateResponse)) = Some ''abc123''"
    by code_simp
  have a: "(''tk_mock'', ''abc123'') \<in> set (fst (snd ?R1))"
    using cookie_jar_scope [OF u1 r1] o1 e1 l1 by blast
  have quiet: "\<forall>t call response. target call = apiUrl \<and> fst (?f t call) = Resolves response
                 \<longrightarrow> ''tk_mock'' \<notin> cookieNames (setCookies response)"
    by (auto simp: gateTransport_def apiUrl_def cookieNames_def readSetCookieHeaders_def
        split: if_splits)
  have b: "(''tk_mock'', ''abc123'') \<in> set (fst (snd ?R2))"
    using cookie_jar_scope [OF u2 r2] o2 quiet by simp
  have b2: "map (\<lambda>call. Headers_get (callHeaders call) ''cookie'') (newCalls (freshWorld ()) (snd (snd ?R2)))
       = [Some ''tk_mock=abc123'']" by code_simp
  have c: "fst (snd ?R3) = ?J"
    using cookie_jar_scope [OF u3 r3] o3 by simp
  have c2: "map (\<lambda>call. Headers_get (callHeaders call) ''cookie'') (newCalls (freshWorld ()) (snd (snd ?R3)))
       = [None]" by code_simp
  have s: "session3 ?f () (getOptions ''/down/xD0xeo'') postOptions
         (getOptions ''https://dl.subhd.test/files/The.Matrix.1999.ass'')
       = ([[(''tk_mock'', ''abc123'')], [(''tk_mock'', ''abc123'')], [(''tk_mock'', ''abc123'')]],
          [(''https://subhd.test'', None), (''https://subhd.test'', Some ''tk_mock=abc123''),
           (''https://dl.subhd.test'', None)])" by code_simp
  from a b b2 c c2 s show ?thesis by (intro conjI)
qed

text \<open>
  The claim as it is stated fails: in a session of three requests to the base origin the
  first response stores the cookie \<open>tk=abc\<close>, the second request carries it and its response
  deletes it, and the third request carries no cookie header.
\<close>

theorem cookie_dropped_counterexample:
  "baseOrigin (testClient 0) = ''https://subhd.test''
   \<and> session3 cookieSteps 0 (getOptions ''/down/x'') (getOptions ''/down/x'') (getOptions ''/down/x'')
       = ([[(''tk'', ''abc'')], [], []],
          [(''https://subhd.test'', None), (''https://subhd.test'', Some ''tk=abc''),
           (''https://subhd.test'', None)])"
  by code_simp

section \<open>The items of a search page\<close>

lemma cardItem_sid: "cardItem cardHtml s = Inr item \<Longrightarrow> SubhdSearchItem.sid item = s"
  by (auto simp: cardItem_def Let_def split: sum.splits)

lemma cardEntries_sid:
  "cardEntries cards = Inr entries \<Longrightarrow> \<forall>(k, item)\<in>set entries. SubhdSearchItem.sid item = k"
  by (induction cards arbitrary: entries)
     (auto split: option.splits sum.splits dest: cardItem_sid)

lemma parseCards_entries:
  "parseCards cards deduped =
     (case cardEntries cards of
        Inl e \<Rightarrow> Inl e
      | Inr entries \<Rightarrow> Inr (foldl (\<lambda>m (k, item). AList.update k item m) deduped entries))"
  by (induction cards arbitrary: deduped) (auto split: option.splits sum.splits)

lemma keys_foldl_update:
  "map fst (foldl (\<lambda>m (k, item). AList.update k item m) m0 entries)
   = foldl Set_add (map fst m0) (map fst entries)"
proof (induction entries arbitrary: m0)
  case Nil
  then show ?case by simp
next
  case (Cons e entries)
  obtain k item where e: "e = (k, item)" by (cases e)
  have "map fst (AList.update k item m0) = Set_add (map fst m0) k"
    by (simp add: update_keys Set_add_def)
  with Cons [of "AList.update k item m0"] show ?case by (simp add: e)
qed

lemma distinct_foldl_update:
  "distinct (map fst m0) \<Longrightarrow>
   distinct (map fst (foldl (\<lambda>m (k, item). AList.update k item m) m0 entries))"
  by (induction entries arbitrary: m0) (auto simp: distinct_update)

lemma map_of_foldl_update:
  "map_of (foldl (\<lambda>m (k, item). AList.update k item m) m0 entries) k
   = (case map_of (rev entries) k of None \<Rightarrow> map_of m0 k | Some v \<Rightarrow> Some v)"
  by (induction entries arbitrary: m0) (auto simp: update_conv' split: option.splits)

lemma map_of_rev_last:
  "map_of (rev entries) k = Some v \<Longrightarrow>
   \<exists>pre post. entries = pre @ [(k, v)] @ post \<and> k \<notin> fst ` set post"
proof (induction entries rule: rev_induct)
  case Nil
  then show ?case by simp
next
  case (snoc e entries)
  obtain k' v' where e: "e = (k', v')" by (cases e)
  show ?case
  proof (cases "k' = k")
    case True
    with snoc.prems e have "v' = v" by simp
    with True e have "entries @ [e] = entries @ [(k, v)] @ []" by simp
    then show ?thesis by force
  next
    case False
    with snoc.prems e have "map_of (rev entries) k = Some v" by simp
    from snoc.IH [OF this] obtain pre post where
      p: "entries = pre @ [(k, v)] @ post" "k \<notin> fst ` set post" by blast
    then have "entries @ [e] = pre @ [(k, v)] @ (post @ [e])" by simp
    moreover have "k \<notin> fst ` set (post @ [e])" using p False e by auto
    ultimately show ?thesis by blast
  qed
qed

lemma samplePage_cards:
  "drop 1 (splitOn samplePage SUBHD_CARD_MARKER)
   = [sampleCard ''x1'' ''First ASS'' ''5'', sampleCard ''y2'' ''Other'' ''9'',
      sampleCard ''x1'' ''Second SRT'' ''7'']"
  by code_simp

lemma sampleCard_first:
  "extractSubhdSid (sampleCard ''x1'' ''First ASS'' ''5'') = Some ''x1''"
  "cardItem (sampleCard ''x1'' ''First ASS'' ''5'') ''x1'' = Inr (sampleItem ''x1'' ''First ASS'' Ass 5)"
  by code_simp+

lemma sampleCard_other:
  "extractSubhdSid (sampleCard ''y2'' ''Other'' ''9'') = Some ''y2''"
  "cardItem (sampleCard ''y2'' ''Other'' ''9'') ''y2'' = Inr (sampleItem ''y2'' ''Other'' Srt 9)"
  by code_simp+

lemma sampleCard_second:
  "extractSubhdSid (sampleCard ''x1'' ''Second SRT'' ''7'') = Some ''x1''"
  "cardItem (sampleCard ''x1'' ''Second SRT'' ''7'') ''x1'' = Inr (sampleItem ''x1'' ''Second SRT'' Srt 7)"
  by code_simp+

lemma samplePage_parsed:
  "parseSubhdSearchItems samplePage
   = Inr [sampleItem ''x1'' ''Second SRT'' Srt 7, sampleItem ''y2'' ''Other'' Srt 9]"
  using samplePage_cards
  by (simp add: parseSubhdSearchItems_def sampleCard_first sampleCard_other sampleCard_second)

lemma samplePage_entries:
  "cardEntries (drop 1 (splitOn samplePage SUBHD_CARD_MARKER))
   = Inr [(''x1'', sampleItem ''x1'' ''First ASS'' Ass 5), (''y2'', sampleItem ''y2'' ''Other'' Srt 9),
          (''x1'', sampleItem ''x1'' ''Second SRT'' Srt 7)]"
  using samplePage_cards
  by (simp add: sampleCard_first sampleCard_other sampleCard_second)

text \<open>
  C4, as the code has it.  When the extraction returns items, no two of them have the same
  identifier; the identifiers stand in the order in which they first occur in the
  document; and each item is the one extracted from the last container of the document
  that has its identifier.
\<close>

theorem search_items_dedup:
  assumes "parseSubhdSearchItems html = Inr items"
  shows "distinct (map SubhdSearchItem.sid items)
       \<and> (\<exists>entries. cardEntries (drop 1 (splitOn html SUBHD_CARD_MARKER)) = Inr entries
            \<and> map SubhdSearchItem.sid items = new_Set (map fst entries)
            \<and> (\<forall>item\<in>set items. \<exists>pre post.
                  entries = pre @ [(SubhdSearchItem.sid item, item)] @ post
                  \<and> SubhdSearchItem.sid item \<notin> fst ` set post))"
proof -
  let ?cards = "drop 1 (splitOn html SUBHD_CARD_MARKER)"
  let ?upd = "\<lambda>m (k, item). AList.update k item m"
  from assms obtain deduped where d: "parseCards ?cards [] = Inr deduped"
    and items: "items = map snd deduped"
    by (auto simp: parseSubhdSearchItems_def Let_def split: sum.splits)
  from d obtain entries where e: "cardEntries ?cards = Inr entries"
    and dd: "deduped = foldl ?upd [] entries"
    by (auto simp: parseCards_entries split: sum.splits)
  have keys: "map fst deduped = new_Set (map fst entries)"
    using keys_foldl_update [of "[]" entries] by (simp add: dd new_Set_def)
  have dist: "distinct (map fst deduped)"
    using distinct_foldl_update [of "[]" entries] by (simp add: dd)
  have inv: "\<forall>(k, item)\<in>set deduped. SubhdSearchItem.sid item = k
               \<and> map_of (rev entries) k = Some item"
  proof (clarify)
    fix k item assume m: "(k, item) \<in> set deduped"
    with dist have "map_of deduped k = Some item" by simp
    then have r: "map_of (rev entries) k = Some item"
      by (simp add: dd map_of_foldl_update split: option.splits)
    then have "(k, item) \<in> set entries" using map_of_SomeD by fastforce
    with cardEntries_sid [OF e] have "SubhdSearchItem.sid item = k" by auto
    with r show "SubhdSearchItem.sid item = k \<and> map_of (rev entries) k = Some item" by simp
  qed
  have sids: "map SubhdSearchItem.sid items = map fst deduped"
    using inv by (auto simp: items)
  have last: "\<forall>item\<in>set items. \<exists>pre post.
                  entries = pre @ [(SubhdSearchItem.sid item, item)] @ post
                  \<and> SubhdSearchItem.sid item \<notin> fst ` set post"
  proof
    fix item assume "item \<in> set items"
    then obtain k where "(k, item) \<in> set deduped" by (auto simp: items)
    with inv have "map_of (rev entries) (SubhdSearchItem.sid item) = Some item" by auto
    then show "\<exists>pre post. entries = pre @ [(SubhdSearchItem.sid item, item)] @ post
                  \<and> SubhdSearchItem.sid item \<notin> fst ` set post"
      by (rule map_of_rev_last)
  qed
  from dist sids keys e last show ?thesis by auto
qed

theorem search_items_dedup_witness:
  "parseSubhdSearchItems samplePage
     = Inr [sampleItem ''x1'' ''Second SRT'' Srt 7, sampleItem ''y2'' ''Other'' Srt 9]
   \<and> distinct (map SubhdSearchItem.sid
         [sampleItem ''x1'' ''Second SRT'' Srt 7, sampleItem ''y2'' ''Other'' Srt 9])
   \<and> (\<exists>entries. cardEntries (drop 1 (splitOn samplePage SUBHD_CARD_MARKER)) = Inr entries
        \<and> map SubhdSearchItem.sid
             [sampleItem ''x1'' ''Second SRT'' Srt 7, sampleItem ''y2'' ''Other'' Srt 9]
           = new_Set (map fst entries)
        \<and> (\<forall>item\<in>set [sampleItem ''x1'' ''Second SRT'' Srt 7, sampleItem ''y2'' ''Other'' Srt 9].
              \<exists>pre post. entries = pre @ [(SubhdSearchItem.sid item, item)] @ post
                \<and> SubhdSearchItem.sid item \<notin> fst ` set post))"
  using search_items_dedup [OF samplePage_parsed] samplePage_parsed by blast

text \<open>
  The claim as it is stated fails: in the page of three cards the first and the third
  container have the identifier \<open>x1\<close>, and the item that is returned for \<open>x1\<close> has the
  title, the format and the download count of the third container, not of the first.
\<close>

theorem search_items_first_counterexample:
  "drop 1 (splitOn samplePage SUBHD_CARD_MARKER)
     = [sampleCard ''x1'' ''First ASS'' ''5'', sampleCard ''y2'' ''Other'' ''9'',
        sampleCard ''x1'' ''Second SRT'' ''7'']
   \<and> extractSubhdSid (sampleCard ''x1'' ''First ASS'' ''5'') = Some ''x1''
   \<and> cardItem (sampleCard ''x1'' ''First ASS'' ''5'') ''x1''
       = Inr (sampleItem ''x1'' ''First ASS'' Ass 5)
   \<and> parseSubhdSearchItems samplePage
       = Inr [sampleItem ''x1'' ''Second SRT'' Srt 7, sampleItem ''y2'' ''Other'' Srt 9]
   \<and> sampleItem ''x1'' ''Second SRT'' Srt 7 \<noteq> sampleItem ''x1'' ''First ASS'' Ass 5"
  using samplePage_cards sampleCard_first samplePage_parsed
  by (simp add: sampleItem_def)

section \<open>The identifiers of the catalog provider\<close>

lemma star_class_end:
  "length rest \<le> n \<Longrightarrow>
   (\<exists>t\<in>set (iterGreedy n (run False (Cls P)) (pv, rest, caps)). fst (snd t) = [])
   \<longleftrightarrow> (\<forall>c\<in>set rest. P c)"
proof (induction rest arbitrary: n pv)
  case Nil
  then show ?case by (cases n) (auto simp: inClass_def)
next
  case (Cons c cs)
  then obtain m where n: "n = Suc m" and m: "length cs \<le> m" by (cases n) auto
  show ?case
    using Cons.IH [OF m, of "Some c"] by (auto simp: n inClass_def)
qed

lemma concat_map_nonempty: "concat (map f xs) \<noteq> [] \<longleftrightarrow> (\<exists>x\<in>set xs. f x \<noteq> [])"
  by (induction xs) auto

lemma run_end: "run False (Seq Eol Epsilon) = (\<lambda>t. if fst (snd t) = [] then [t] else [])"
  by (rule ext) (simp add: split_def)

lemma run_alnumOnly_start: "run False alnumOnly (None, s, []) \<noteq> [] \<longleftrightarrow> allAlnum s"
proof (cases s)
  case Nil
  then show ?thesis
    by (simp add: alnumOnly_def seq_def many1_def rxAlnum_def allAlnum_def)
next
  case (Cons c cs)
  let ?ts = "iterGreedy (length cs) (run False (Cls isAlnum)) (Some c, cs, [])"
  have "run False alnumOnly (None, c # cs, [])
        = (if isAlnum c then concat (map (\<lambda>t. if fst (snd t) = [] then [t] else []) ?ts) else [])"
    by (simp add: alnumOnly_def seq_def many1_def rxAlnum_def inClass_def split_def run_end
        del: run.simps(4))
  then have "run False alnumOnly (None, c # cs, []) \<noteq> []
        \<longleftrightarrow> isAlnum c \<and> (\<exists>t\<in>set ?ts. fst (snd t) = [])"
    by (simp only: concat_map_nonempty split: if_splits) auto
  also have "\<dots> \<longleftrightarrow> isAlnum c \<and> (\<forall>d\<in>set cs. isAlnum d)"
    using star_class_end [of cs "length cs" isAlnum "Some c" "[]"] by simp
  finally show ?thesis by (simp add: Cons allAlnum_def)
qed

lemma run_alnumOnly_later: "run False alnumOnly (Some c, rest, caps) = []"
  by (simp add: alnumOnly_def seq_def)

lemma execFrom_alnumOnly_later: "execFrom False alnumOnly before (Some c) rest = None"
  by (induction rest arbitrary: before c) (simp_all add: run_alnumOnly_later)

lemma rxTest_alnumOnly: "rxTest False alnumOnly s \<longleftrightarrow> allAlnum s"
proof (cases s)
  case Nil
  then show ?thesis
    using run_alnumOnly_start [of "[]"] by (auto simp: rxTest_def split: list.splits)
next
  case (Cons c cs)
  then show ?thesis
    using run_alnumOnly_start [of "c # cs"]
    by (auto simp: rxTest_def execFrom_alnumOnly_later split: list.splits)
qed

lemma colon_not_alnum: "\<not> isAlnum (CHR '':'')"
  by (simp add: isAlnum_def isUpper_def isLower_def isDigit_def charCode_def)

lemma prefix_not_alnum: "\<not> allAlnum (''subhd:'' @ s)"
  using colon_not_alnum by (auto simp: allAlnum_def)

lemma startsWith_drop:
  "startsWith t pre \<and> Q (drop (length pre) t) \<longleftrightarrow> (\<exists>s. t = pre @ s \<and> Q s)"
  by (auto simp: startsWith_iff)

lemma parseSubhdProviderId_cases:
  "parseSubhdProviderId i =
     (if \<exists>s. trim i = SUBHD_ID_PREFIX @ s \<and> allAlnum s
      then Inr (drop (length SUBHD_ID_PREFIX) (trim i))
      else if allAlnum (trim i) then Inr (trim i)
      else Inl (notFound i))"
  unfolding parseSubhdProviderId_def Let_def rxTest_alnumOnly notFound_def
    startsWith_drop [where Q = allAlnum]
  by simp

text \<open>
  C9.  The validation of the identifier in \<open>getDownloadPlan\<close> accepts two shapes.  An identifier
  that after trimming is the prefix \<open>subhd:\<close> followed by one or more ASCII letters and digits
  is accepted, and what follows the prefix is the identifier of the catalog.  An identifier
  that after trimming consists of one or more ASCII letters and digits is accepted as it is.
  For every other identifier the not-found error is raised, with the code
  \<open>E_NOT_FOUND_RESOURCE\<close>, the provider and the identifier as it was given, and
  \<open>getDownloadPlan\<close> returns it with the cookie jar and the world as they were: no call of the
  transport has been made.
\<close>

theorem provider_id_validation:
  "(\<forall>s. trim i = ''subhd:'' @ s \<and> allAlnum s \<longrightarrow> parseSubhdProviderId i = Inr s)
   \<and> (allAlnum (trim i) \<longrightarrow> parseSubhdProviderId i = Inr (trim i))
   \<and> (\<not> (\<exists>s. trim i = ''subhd:'' @ s \<and> allAlnum s) \<and> \<not> allAlnum (trim i) \<longrightarrow>
        parseSubhdProviderId i = Inl (notFound i)
        \<and> getDownloadPlan newURL p fetchImpl i jar w = (Inl (notFound i), jar, w))"
proof (intro conjI allI impI)
  fix s assume h: "trim i = ''subhd:'' @ s \<and> allAlnum s"
  then have "\<exists>s. trim i = SUBHD_ID_PREFIX @ s \<and> allAlnum s"
    unfolding SUBHD_ID_PREFIX_def by blast
  moreover have "drop (length SUBHD_ID_PREFIX) (trim i) = s"
    using h unfolding SUBHD_ID_PREFIX_def by simp
  ultimately show "parseSubhdProviderId i = Inr s"
    by (simp only: parseSubhdProviderId_cases if_True)
next
  assume a: "allAlnum (trim i)"
  have n: "\<not> (\<exists>s. trim i = SUBHD_ID_PREFIX @ s \<and> allAlnum s)"
    using a prefix_not_alnum unfolding SUBHD_ID_PREFIX_def by metis
  show "parseSubhdProviderId i = Inr (trim i)"
    by (simp only: parseSubhdProviderId_cases n a if_False if_True)
next
  assume h: "\<not> (\<exists>s. trim i = ''subhd:'' @ s \<and> allAlnum s) \<and> \<not> allAlnum (trim i)"
  then have n: "\<not> (\<exists>s. trim i = SUBHD_ID_PREFIX @ s \<and> allAlnum s)"
    unfolding SUBHD_ID_PREFIX_def by blast
  from h have n2: "\<not> allAlnum (trim i)" by simp
  show p: "parseSubhdProviderId i = Inl (notFound i)"
    by (simp only: parseSubhdProviderId_cases n n2 if_False)
  then show "getDownloadPlan newURL p fetchImpl i jar w = (Inl (notFound i), jar, w)"
    by (simp add: getDownloadPlan_def)
qed

text \<open>
  The identifiers \<open>subhd:xD0xeo\<close> between blanks and \<open>xD0xeo\<close> are accepted, and \<open>subhd:x-1\<close>
  is refused before any call.
\<close>

theorem provider_id_validation_witness:
  "trim ''  subhd:xD0xeo '' = ''subhd:'' @ ''xD0xeo'' \<and> allAlnum ''xD0xeo''
   \<and> parseSubhdProviderId ''  subhd:xD0xeo '' = Inr ''xD0xeo''
   \<and> allAlnum (trim ''xD0xeo'') \<and> parseSubhdProviderId ''xD0xeo'' = Inr ''xD0xeo''
   \<and> \<not> allAlnum (trim ''subhd:x-1'')
   \<and> parseSubhdProviderId ''subhd:x-1'' = Inl (notFound ''subhd:x-1'')
   \<and> getDownloadPlan simpleURL testProvider (gateTransport gatePage challengePayload)
        ''subhd:x-1'' [] (freshWorld ())
      = (Inl (notFound ''subhd:x-1''), [], freshWorld ())"
proof -
  have t1: "trim ''  subhd:xD0xeo '' = ''subhd:'' @ ''xD0xeo''"
    by code_simp
  have a1: "allAlnum ''xD0xeo''"
    by code_simp
  have t2: "trim ''xD0xeo'' = ''xD0xeo''"
    by code_simp
  have t3: "trim ''subhd:x-1'' = ''subhd:x-1''"
    by code_simp
  have n3: "\<not> allAlnum ''subhd:x-1''"
    by code_simp
  have n4: "\<not> allAlnum ''x-1''"
    by code_simp
  have p3: "\<not> (\<exists>s. trim ''subhd:x-1'' = ''subhd:'' @ s \<and> allAlnum s)"
    using n4 by (auto simp: t3)
  note v1 = provider_id_validation [of "''  subhd:xD0xeo ''" simpleURL testProvider
      "gateTransport gatePage challengePayload" "[]" "freshWorld ()"]
  note v2 = provider_id_validation [of "''xD0xeo''" simpleURL testProvider
      "gateTransport gatePage challengePayload" "[]" "freshWorld ()"]
  note v3 = provider_id_validation [of "''subhd:x-1''" simpleURL testProvider
      "gateTransport gatePage challengePayload" "[]" "freshWorld ()"]
  have r1: "parseSubhdProviderId ''  subhd:xD0xeo '' = Inr ''xD0xeo''"
    using v1 t1 a1 by blast
  have r2: "parseSubhdProviderId ''xD0xeo'' = Inr ''xD0xeo''"
    using v2 a1 by (simp add: t2)
  have r3: "parseSubhdProviderId ''subhd:x-1'' = Inl (notFound ''subhd:x-1'')
    \<and> getDownloadPlan simpleURL testProvider (gateTransport gatePage challengePayload)
        ''subhd:x-1'' [] (freshWorld ())
      = (Inl (notFound ''subhd:x-1''), [], freshWorld ())"
    using v3 p3 n3 by (simp add: t3)
  show ?thesis
    using t1 a1 r1 r2 r3 n3 by (simp add: t2 t3)
qed

section \<open>The errors of the download API\<close>







end
